theory Spec2Isabelle
  imports Complex_Main "HOL-Library.Word"
begin

text \<open>
  A model of \<open>spellbook/src/Geometry/Image3D.js\<close>. An Isabelle name cannot end in an
  underscore, so a private member \<open>name_\<close> of the source is written \<open>name\<close>
  (\<open>getDepth_\<close> is \<open>getDepth\<close>, \<open>this.morphing_\<close> is the field \<open>morphing\<close>); the
  members of the view class \<open>Image3DView_\<close> carry the prefix \<open>view_\<close>.
\<close>

section \<open>JavaScript values used by Image3D.js\<close>

subsection \<open>Numbers\<close>

text \<open>
  A JavaScript number is modelled as an exact rational, plus the three special values
  the source can produce by dividing by zero or by reading a missing array element.
  Rounding of IEEE doubles and the sign of zero are abstracted away: \<open>x / 0\<close> is
  \<open>PInf\<close> for positive \<open>x\<close>, \<open>NInf\<close> for negative \<open>x\<close> and \<open>NaN\<close> for \<open>0 / 0\<close>.
\<close>

datatype jsnum = Fin rat | PInf | NInf | NaN

fun is_neg :: "jsnum \<Rightarrow> bool" where
  "is_neg (Fin x) = (x < 0)"
| "is_neg NInf = True"
| "is_neg PInf = False"
| "is_neg NaN = False"

fun is_zero :: "jsnum \<Rightarrow> bool" where
  "is_zero (Fin x) = (x = 0)"
| "is_zero PInf = False"
| "is_zero NInf = False"
| "is_zero NaN = False"

fun jneg :: "jsnum \<Rightarrow> jsnum" where
  "jneg (Fin x) = Fin (- x)"
| "jneg PInf = NInf"
| "jneg NInf = PInf"
| "jneg NaN = NaN"

fun jadd :: "jsnum \<Rightarrow> jsnum \<Rightarrow> jsnum" where
  "jadd (Fin a) (Fin b) = Fin (a + b)"
| "jadd NaN b = NaN"
| "jadd a NaN = NaN"
| "jadd PInf NInf = NaN"
| "jadd NInf PInf = NaN"
| "jadd PInf b = PInf"
| "jadd a PInf = PInf"
| "jadd NInf b = NInf"
| "jadd a NInf = NInf"

definition jsub :: "jsnum \<Rightarrow> jsnum \<Rightarrow> jsnum" where
  "jsub a b = jadd a (jneg b)"

fun jmul :: "jsnum \<Rightarrow> jsnum \<Rightarrow> jsnum" where
  "jmul (Fin a) (Fin b) = Fin (a * b)"
| "jmul NaN b = NaN"
| "jmul a NaN = NaN"
| "jmul a b =
     (if is_zero a \<or> is_zero b then NaN
      else if is_neg a = is_neg b then PInf else NInf)"

fun jdiv :: "jsnum \<Rightarrow> jsnum \<Rightarrow> jsnum" where
  "jdiv (Fin a) (Fin b) =
     (if b = 0 then (if a = 0 then NaN else if 0 < a then PInf else NInf)
      else Fin (a / b))"
| "jdiv NaN b = NaN"
| "jdiv a NaN = NaN"
| "jdiv (Fin a) b = Fin 0"
| "jdiv a (Fin b) = (if is_neg a = (b < 0) then PInf else NInf)"
| "jdiv a b = NaN"

text \<open>The comparisons \<open>a > b\<close> and \<open>a >= b\<close>: false as soon as one side is \<open>NaN\<close>.\<close>

fun jgt :: "jsnum \<Rightarrow> jsnum \<Rightarrow> bool" where
  "jgt (Fin a) (Fin b) = (b < a)"
| "jgt NaN b = False"
| "jgt a NaN = False"
| "jgt PInf PInf = False"
| "jgt PInf b = True"
| "jgt a PInf = False"
| "jgt NInf b = False"
| "jgt a NInf = True"

definition jge :: "jsnum \<Rightarrow> jsnum \<Rightarrow> bool" where
  "jge a b = (a \<noteq> NaN \<and> b \<noteq> NaN \<and> (a = b \<or> jgt a b))"

definition jlt :: "jsnum \<Rightarrow> jsnum \<Rightarrow> bool" where
  "jlt a b = jgt b a"

text \<open>Strict equality \<open>a === b\<close> on numbers: \<open>NaN\<close> is not equal to itself.\<close>

definition jeq :: "jsnum \<Rightarrow> jsnum \<Rightarrow> bool" where
  "jeq a b = (a \<noteq> NaN \<and> a = b)"

definition num :: "nat \<Rightarrow> jsnum" where
  "num n = Fin (of_nat n)"

definition numi :: "int \<Rightarrow> jsnum" where
  "numi n = Fin (of_int n)"

subsection \<open>Arrays\<close>

text \<open>
  A JavaScript array may have holes: \<open>new Array(n)\<close> has length \<open>n\<close> and no element.
  An array is a list of optional elements, \<open>None\<close> a hole (reading it gives
  \<open>undefined\<close>). Storing past the end extends the array; assigning \<open>length\<close>
  truncates or extends it.
\<close>

type_synonym 'a jsarray = "'a option list"

definition newArray :: "nat \<Rightarrow> 'a jsarray" where
  "newArray n = replicate n None"

definition js_get :: "'a jsarray \<Rightarrow> nat \<Rightarrow> 'a option" where
  "js_get xs i = (if i < length xs then xs ! i else None)"

definition js_set :: "'a jsarray \<Rightarrow> nat \<Rightarrow> 'a \<Rightarrow> 'a jsarray" where
  "js_set xs i v =
     (if i < length xs then xs[i := Some v]
      else xs @ replicate (i - length xs) None @ [Some v])"

text \<open>\<open>arr[i] = undefined\<close>.\<close>

definition js_set_undefined :: "'a jsarray \<Rightarrow> nat \<Rightarrow> 'a jsarray" where
  "js_set_undefined xs i =
     (if i < length xs then xs[i := None] else xs @ replicate (Suc i - length xs) None)"

definition set_length :: "nat \<Rightarrow> 'a jsarray \<Rightarrow> 'a jsarray" where
  "set_length n xs = take n xs @ replicate (n - length xs) None"

text \<open>An array with no hole, as the elements it holds.\<close>

definition dense :: "'a jsarray \<Rightarrow> bool" where
  "dense xs = (None \<notin> set xs)"

subsection \<open>Failures\<close>

text \<open>
  \<open>log_.assert_\<close> and the content cache are not part of Image3D.js. A failed assertion
  aborts the running operation (section 7 of the design: "fatal, immediate abort of the
  current operation"); it is modelled as a thrown error carrying the assertion's message.
  The other errors are the cache's (section 4.1) and the language's own.
\<close>

datatype error =
    AssertionFailed string
  | KeyCollision string
  | NotFound string
  | DoubleRelease string
  | RangeError
  | TypeError
  | IndexSizeError

text \<open>
  The outcome of an operation on mutable state: it returns normally with the new state, or
  throws, leaving the state as it was mutated up to the throw.
\<close>

datatype 'a result = Ok 'a | Throw error 'a

definition bind :: "'a result \<Rightarrow> ('a \<Rightarrow> 'a result) \<Rightarrow> 'a result" where
  "bind r f = (case r of Ok s \<Rightarrow> f s | Throw e s \<Rightarrow> Throw e s)"

definition js_assert :: "bool \<Rightarrow> string \<Rightarrow> 'a \<Rightarrow> 'a result" where
  "js_assert c msg s = (if c then Ok s else Throw (AssertionFailed msg) s)"

fun is_ok :: "'a result \<Rightarrow> bool" where
  "is_ok (Ok s) = True"
| "is_ok (Throw e s) = False"

fun state_of :: "'a result \<Rightarrow> 'a" where
  "state_of (Ok s) = s"
| "state_of (Throw e s) = s"

section \<open>Geometry data\<close>

datatype vec3 = Vector3 jsnum jsnum jsnum
datatype vec2 = Vector2 jsnum jsnum
datatype face3 = Face3 nat nat nat

record morphTarget =
  mt_name :: string
  mt_vertices :: "vec3 jsarray"

text \<open>
  The fields of a \<open>THREE.Geometry\<close> that Image3D.js writes. Normals are computed by the
  library (\<open>computeNormals_\<close> only calls it) and are not modelled.
\<close>

record three_geometry =
  vertices :: "vec3 jsarray"
  faces :: "face3 jsarray"
  faceVertexUvs :: "(vec2 list) jsarray"
  morphTargets :: "morphTarget list"

definition newGeometry :: three_geometry where
  "newGeometry = \<lparr>vertices = [], faces = [], faceVertexUvs = [], morphTargets = []\<rparr>"

text \<open>
  What a heightmap data slot holds: the pixel bytes read from the canvas (RGBA, 8 bits
  each), or, on the path that reuses a fully loaded cache entry, the cache entry's payload
  object itself (line 469 stores \<open>this.cache.get(heightmapKey)\<close>), which has no indexed
  element.
\<close>

datatype data_slot = DataPixels "8 word list" | DataPayload string

definition data_at :: "data_slot \<Rightarrow> nat \<Rightarrow> jsnum" where
  "data_at d i =
     (case d of
        DataPixels bs \<Rightarrow> (if i < length bs then num (unat (bs ! i)) else NaN)
      | DataPayload k \<Rightarrow> NaN)"

text \<open>\<open>getDepth_\<close> (line 1321): the average of R, G and B over 255, times \<open>maxHeight_\<close>.\<close>

definition getDepth :: "jsnum \<Rightarrow> data_slot \<Rightarrow> nat \<Rightarrow> jsnum" where
  "getDepth maxHeight data i =
     (let r = data_at data i;
          g = data_at data (i + 1);
          b = data_at data (i + 2);
          avg = jdiv (jadd (jadd r g) b) (Fin 3)
      in jmul (jdiv avg (Fin 255)) maxHeight)"


section \<open>The geometry builders\<close>

text \<open>
  \<open>for (var x = 0; x < n; ++x) body\<close>, as recursion on the bound: the body runs for
  \<open>0, 1, ..., n - 1\<close> in this order on the loop's variables.
\<close>

primrec for_upto :: "nat \<Rightarrow> (nat \<Rightarrow> 's \<Rightarrow> 's) \<Rightarrow> 's \<Rightarrow> 's" where
  "for_upto 0 body s = s"
| "for_upto (Suc n) body s = body n (for_upto n body s)"

text \<open>
  What a builder leaves behind: the geometry as it wrote it, and the array it assigned to
  \<open>verticesOwner.vertices\<close>, if it assigned one (the block builder never does).
\<close>

record built =
  b_geometry :: three_geometry
  b_ownerVertices :: "vec3 jsarray option"

subsection \<open>Smooth (lines 801-875)\<close>

record smooth_vs =
  sv_vertices :: "vec3 jsarray"
  sv_vertexIndex :: nat
  sv_pixelIndex :: nat

definition smooth_vertex ::
  "jsnum \<Rightarrow> data_slot \<Rightarrow> jsnum \<Rightarrow> jsnum \<Rightarrow> nat \<Rightarrow> nat \<Rightarrow> smooth_vs \<Rightarrow> smooth_vs" where
  "smooth_vertex maxHeight data invWidthMinusOne invHeightMinusOne y x s =
     (let depth = getDepth maxHeight data (sv_pixelIndex s)
      in \<lparr>sv_vertices = js_set (sv_vertices s) (sv_vertexIndex s)
              (Vector3 (jmul (num x) invWidthMinusOne) (jmul (num y) invHeightMinusOne) depth),
          sv_vertexIndex = Suc (sv_vertexIndex s),
          sv_pixelIndex = sv_pixelIndex s + 4\<rparr>)"

definition smooth_vertices :: "jsnum \<Rightarrow> data_slot \<Rightarrow> nat \<Rightarrow> nat \<Rightarrow> smooth_vs" where
  "smooth_vertices maxHeight data width height =
     (let invWidthMinusOne = jdiv (Fin 1) (numi (int width - 1));
          invHeightMinusOne = jdiv (Fin 1) (numi (int height - 1))
      in for_upto height
           (\<lambda>y. for_upto width
              (smooth_vertex maxHeight data invWidthMinusOne invHeightMinusOne y))
           \<lparr>sv_vertices = newArray (width * height), sv_vertexIndex = 0, sv_pixelIndex = 0\<rparr>)"

record smooth_fs =
  sf_faces :: "face3 jsarray"
  sf_uvs :: "(vec2 list) jsarray"
  sf_faceIdx :: nat
  sf_uvIdx :: nat
  sf_yi :: nat
  sf_yi2 :: nat

definition smooth_cell :: "jsnum \<Rightarrow> jsnum \<Rightarrow> nat \<Rightarrow> nat \<Rightarrow> smooth_fs \<Rightarrow> smooth_fs" where
  "smooth_cell invWidthMinusOne invHeightMinusOne y x s =
     (let x2 = x + 1; yi = sf_yi s; yi2 = sf_yi2 s;
          fs1 = js_set (sf_faces s) (sf_faceIdx s) (Face3 (yi + x) (yi + x2) (yi2 + x2));
          fs2 = js_set fs1 (sf_faceIdx s + 1) (Face3 (yi + x) (yi2 + x2) (yi2 + x));
          u1 = jmul (num x) invWidthMinusOne;
          u2 = jmul (num x2) invWidthMinusOne;
          v1 = jmul (num y) invHeightMinusOne;
          v2 = jmul (num (y + 1)) invHeightMinusOne;
          uv1 = js_set (sf_uvs s) (sf_uvIdx s) [Vector2 u1 v1, Vector2 u2 v1, Vector2 u2 v2];
          uv2 = js_set uv1 (sf_uvIdx s + 1) [Vector2 u1 v1, Vector2 u2 v2, Vector2 u1 v2]
      in s\<lparr>sf_faces := fs2, sf_uvs := uv2,
            sf_faceIdx := sf_faceIdx s + 2, sf_uvIdx := sf_uvIdx s + 2\<rparr>)"

definition smooth_row :: "jsnum \<Rightarrow> jsnum \<Rightarrow> nat \<Rightarrow> nat \<Rightarrow> smooth_fs \<Rightarrow> smooth_fs" where
  "smooth_row invWidthMinusOne invHeightMinusOne width y s =
     (let s' = for_upto (width - 1) (smooth_cell invWidthMinusOne invHeightMinusOne y) s
      in s'\<lparr>sf_yi := sf_yi s' + width, sf_yi2 := sf_yi2 s' + width\<rparr>)"

definition smooth_faces :: "nat \<Rightarrow> nat \<Rightarrow> nat \<Rightarrow> smooth_fs" where
  "smooth_faces numFaces width height =
     (let invWidthMinusOne = jdiv (Fin 1) (numi (int width - 1));
          invHeightMinusOne = jdiv (Fin 1) (numi (int height - 1))
      in for_upto (height - 1) (smooth_row invWidthMinusOne invHeightMinusOne width)
           \<lparr>sf_faces = newArray numFaces, sf_uvs = newArray numFaces,
            sf_faceIdx = 0, sf_uvIdx = 0, sf_yi = 0, sf_yi2 = width\<rparr>)"

text \<open>
  \<open>new Array(n)\<close> throws a RangeError when \<open>n\<close> is negative, which
  \<open>(width - 1) * (height - 1) * 2\<close> is when exactly one dimension is zero.
\<close>

definition createSmoothGeometry ::
  "nat \<Rightarrow> nat \<Rightarrow> jsnum \<Rightarrow> three_geometry \<Rightarrow> data_slot option \<Rightarrow> bool \<Rightarrow> error + built" where
  "createSmoothGeometry width height maxHeight geom data createFaces =
     (case data of
        None \<Rightarrow> Inl (AssertionFailed ''data must be valid.'')
      | Some d \<Rightarrow>
          (let vs = sv_vertices (smooth_vertices maxHeight d width height) in
           if createFaces then
             (let numFaces = (int width - 1) * (int height - 1) * 2 in
              if numFaces < 0 then Inl RangeError
              else
                (let fs = smooth_faces (nat numFaces) width height
                 in Inr \<lparr>b_geometry = geom\<lparr>faces := sf_faces fs, faceVertexUvs := sf_uvs fs\<rparr>,
                         b_ownerVertices = Some vs\<rparr>))
           else Inr \<lparr>b_geometry = geom, b_ownerVertices = Some vs\<rparr>))"

subsection \<open>Block (lines 888-1091)\<close>

text \<open>The precalculated depths: one line per row, filled in row-major order.\<close>

record depth_st =
  ds_depths :: "(jsnum jsarray) jsarray"
  ds_i :: nat

definition depth_cell ::
  "jsnum \<Rightarrow> data_slot \<Rightarrow> nat \<Rightarrow> (jsnum jsarray \<times> nat) \<Rightarrow> (jsnum jsarray \<times> nat)" where
  "depth_cell maxHeight data x st =
     (js_set (fst st) x (getDepth maxHeight data (snd st)), snd st + 4)"

definition depth_row :: "jsnum \<Rightarrow> data_slot \<Rightarrow> nat \<Rightarrow> nat \<Rightarrow> depth_st \<Rightarrow> depth_st" where
  "depth_row maxHeight data width y s =
     (let st = for_upto width (depth_cell maxHeight data) (newArray width, ds_i s)
      in \<lparr>ds_depths = js_set (ds_depths s) y (fst st), ds_i = snd st\<rparr>)"

definition precalc_depths :: "jsnum \<Rightarrow> data_slot \<Rightarrow> nat \<Rightarrow> nat \<Rightarrow> (jsnum jsarray) jsarray" where
  "precalc_depths maxHeight data width height =
     ds_depths (for_upto height (depth_row maxHeight data width)
                  \<lparr>ds_depths = newArray height, ds_i = 0\<rparr>)"

text \<open>
  \<open>depths[y][x]\<close>. The source reads only rows and columns inside the grid (its
  conditional expressions guard the four neighbours), where the element is a number; a
  missing element reads as \<open>undefined\<close>, which compares and computes as \<open>NaN\<close>.
\<close>

definition depth_at :: "(jsnum jsarray) jsarray \<Rightarrow> nat \<Rightarrow> nat \<Rightarrow> jsnum" where
  "depth_at depths y x =
     (case js_get depths y of
        None \<Rightarrow> NaN
      | Some row \<Rightarrow> (case js_get row x of None \<Rightarrow> NaN | Some d \<Rightarrow> d))"

record block_st =
  bs_vertices :: "vec3 jsarray"
  bs_faces :: "face3 jsarray"
  bs_uvs :: "(vec2 list) jsarray"
  bs_v :: nat
  bs_faceIdx :: nat
  bs_uvIdx :: nat
  bs_vertexIdx :: nat

definition put_vertex :: "vec3 \<Rightarrow> block_st \<Rightarrow> block_st" where
  "put_vertex p s =
     s\<lparr>bs_vertices := js_set (bs_vertices s) (bs_vertexIdx s) p,
       bs_vertexIdx := Suc (bs_vertexIdx s)\<rparr>"

definition put_face :: "face3 \<Rightarrow> block_st \<Rightarrow> block_st" where
  "put_face f s =
     s\<lparr>bs_faces := js_set (bs_faces s) (bs_faceIdx s) f, bs_faceIdx := Suc (bs_faceIdx s)\<rparr>"

definition put_uv :: "vec2 list \<Rightarrow> block_st \<Rightarrow> block_st" where
  "put_uv uv s =
     s\<lparr>bs_uvs := js_set (bs_uvs s) (bs_uvIdx s) uv, bs_uvIdx := Suc (bs_uvIdx s)\<rparr>"

text \<open>
  The front quad of a texel: four vertices at the texel's depth and, when faces are
  built, two triangles on them; \<open>j\<close> is the value of \<open>v\<close> on entry.
\<close>

definition block_front ::
  "bool \<Rightarrow> vec3 \<Rightarrow> vec3 \<Rightarrow> vec3 \<Rightarrow> vec3 \<Rightarrow> vec2 list \<Rightarrow> vec2 list \<Rightarrow> block_st \<Rightarrow> block_st" where
  "block_front createFaces p1 p2 p3 p4 uvA uvB s =
     (let j = bs_v s;
          s1 = put_vertex p4 (put_vertex p3 (put_vertex p2 (put_vertex p1 s)))
      in if createFaces then
           put_uv uvB (put_uv uvA
             (put_face (Face3 j (j + 2) (j + 3)) (put_face (Face3 j (j + 1) (j + 2))
               (s1\<lparr>bs_v := bs_v s1 + 4\<rparr>))))
         else s1)"

text \<open>
  One side of a texel, the shape shared by the four blocks "Left", "Right", "Top" and
  "Bottom" of the source: when the texel is deeper than the neighbour, two vertices at the
  neighbour's depth and, when faces are built, two triangles (given as functions of the
  current \<open>v\<close>), their UVs, and \<open>v += 2\<close>.
\<close>

definition block_side ::
  "bool \<Rightarrow> bool \<Rightarrow> vec3 \<Rightarrow> vec3 \<Rightarrow> (nat \<Rightarrow> face3) \<Rightarrow> (nat \<Rightarrow> face3) \<Rightarrow>
   vec2 list \<Rightarrow> vec2 list \<Rightarrow> block_st \<Rightarrow> block_st" where
  "block_side createFaces deeper p1 p2 f1 f2 uvA uvB s =
     (if deeper then
        (let s1 = put_vertex p2 (put_vertex p1 s) in
         if createFaces then
           (let v = bs_v s1;
                s2 = put_uv uvB (put_uv uvA (put_face (f2 v) (put_face (f1 v) s1)))
            in s2\<lparr>bs_v := v + 2\<rparr>)
         else s1)
      else s)"

record block_consts =
  bc_width :: nat
  bc_height :: nat
  bc_invWidth :: jsnum
  bc_invHeight :: jsnum
  bc_widthRatio :: jsnum
  bc_heightRatio :: jsnum
  bc_invTextureWidth :: jsnum
  bc_invTextureHeight :: jsnum

definition block_constants :: "nat \<Rightarrow> nat \<Rightarrow> nat \<Rightarrow> nat \<Rightarrow> block_consts" where
  "block_constants width height textureImageWidth textureImageHeight =
     \<lparr>bc_width = width, bc_height = height,
      bc_invWidth = jdiv (Fin 1) (num width),
      bc_invHeight = jdiv (Fin 1) (num height),
      bc_widthRatio = jdiv (num textureImageWidth) (num width),
      bc_heightRatio = jdiv (num textureImageHeight) (num height),
      bc_invTextureWidth = jdiv (Fin 1) (num textureImageWidth),
      bc_invTextureHeight = jdiv (Fin 1) (num textureImageHeight)\<rparr>"

definition block_texel ::
  "block_consts \<Rightarrow> (jsnum jsarray) jsarray \<Rightarrow> bool \<Rightarrow> nat \<Rightarrow> nat \<Rightarrow> block_st \<Rightarrow> block_st" where
  "block_texel c depths createFaces y x s =
     (let width = bc_width c; height = bc_height c;
          depth = depth_at depths y x;
          depthLeft = (if 0 < x then depth_at depths y (x - 1) else Fin 0);
          depthTop = (if 0 < y then depth_at depths (y - 1) x else Fin 0);
          depthRight = (if int x < int width - 1 then depth_at depths y (x + 1) else Fin 0);
          depthBottom = (if int y < int height - 1 then depth_at depths (y + 1) x else Fin 0);
          x1 = jmul (num x) (bc_invWidth c);
          x2 = jmul (num (x + 1)) (bc_invWidth c);
          y1 = jmul (num y) (bc_invHeight c);
          y2 = jmul (num (y + 1)) (bc_invHeight c);
          xr = jmul (num x) (bc_widthRatio c);
          yr = jmul (num y) (bc_heightRatio c);
          u1 = jmul (jadd xr (Fin (1/2))) (bc_invTextureWidth c);
          u2 = jmul (jsub (jadd xr (bc_widthRatio c)) (Fin (1/2))) (bc_invTextureWidth c);
          v1 = jmul (jadd yr (Fin (1/2))) (bc_invTextureHeight c);
          v2 = jmul (jsub (jadd yr (bc_heightRatio c)) (Fin (1/2))) (bc_invTextureHeight c);
          j = bs_v s;
          sF = block_front createFaces
                 (Vector3 x1 y1 depth) (Vector3 x2 y1 depth)
                 (Vector3 x2 y2 depth) (Vector3 x1 y2 depth)
                 [Vector2 u1 v1, Vector2 u2 v1, Vector2 u2 v2]
                 [Vector2 u1 v1, Vector2 u2 v2, Vector2 u1 v2] s;
          sL = block_side createFaces (jgt depth depthLeft)
                 (Vector3 x1 y1 depthLeft) (Vector3 x1 y2 depthLeft)
                 (\<lambda>v. Face3 j (j + 3) (v + 1)) (\<lambda>v. Face3 j (v + 1) v)
                 [Vector2 u1 v1, Vector2 u1 v2, Vector2 u1 v2]
                 [Vector2 u1 v1, Vector2 u1 v2, Vector2 u1 v1] sF;
          sR = block_side createFaces (jgt depth depthRight)
                 (Vector3 x2 y1 depthRight) (Vector3 x2 y2 depthRight)
                 (\<lambda>v. Face3 (j + 2) (j + 1) (v + 0)) (\<lambda>v. Face3 (j + 2) (v + 0) (v + 1))
                 [Vector2 u2 v2, Vector2 u2 v1, Vector2 u2 v1]
                 [Vector2 u2 v2, Vector2 u2 v1, Vector2 u2 v2] sL;
          sT = block_side createFaces (jgt depth depthTop)
                 (Vector3 x1 y1 depthTop) (Vector3 x2 y1 depthTop)
                 (\<lambda>v. Face3 (j + 1) j v) (\<lambda>v. Face3 (j + 1) v (v + 1))
                 [Vector2 u2 v1, Vector2 u1 v1, Vector2 u1 v1]
                 [Vector2 u2 v1, Vector2 u1 v1, Vector2 u2 v1] sR;
          sB = block_side createFaces (jgt depth depthBottom)
                 (Vector3 x1 y2 depthBottom) (Vector3 x2 y2 depthBottom)
                 (\<lambda>v. Face3 (j + 3) (j + 2) (v + 1)) (\<lambda>v. Face3 (j + 3) (v + 1) v)
                 [Vector2 u1 v2, Vector2 u2 v2, Vector2 u2 v2]
                 [Vector2 u1 v2, Vector2 u2 v2, Vector2 u1 v2] sT
      in sB)"

text \<open>
  The block builder assigns \<open>geometry.vertices\<close> (line 930), not
  \<open>verticesOwner.vertices\<close>, and trims the three arrays to what it wrote.
\<close>

definition createBlockGeometry ::
  "nat \<Rightarrow> nat \<Rightarrow> jsnum \<Rightarrow> nat \<Rightarrow> nat \<Rightarrow> three_geometry \<Rightarrow> data_slot option \<Rightarrow> bool \<Rightarrow>
   error + built" where
  "createBlockGeometry width height maxHeight textureImageWidth textureImageHeight
       geom data createFaces =
     (case data of
        None \<Rightarrow> Inl (AssertionFailed ''data must be valid.'')
      | Some d \<Rightarrow>
          (let c = block_constants width height textureImageWidth textureImageHeight;
               depths = precalc_depths maxHeight d width height;
               numFaces = width * height * 10;
               g1 = (if createFaces
                     then geom\<lparr>faces := newArray numFaces, faceVertexUvs := newArray numFaces\<rparr>
                     else geom);
               numVertices = width * height * 12;
               s = for_upto height (\<lambda>y. for_upto width (block_texel c depths createFaces y))
                     \<lparr>bs_vertices = newArray numVertices, bs_faces = faces g1,
                      bs_uvs = faceVertexUvs g1, bs_v = 0, bs_faceIdx = 0, bs_uvIdx = 0,
                      bs_vertexIdx = 0\<rparr>;
               g2 = g1\<lparr>vertices := set_length (bs_vertexIdx s) (bs_vertices s)\<rparr>;
               g3 = (if createFaces
                     then g2\<lparr>faces := set_length (bs_faceIdx s) (bs_faces s),
                             faceVertexUvs := set_length (bs_uvIdx s) (bs_uvs s)\<rparr>
                     else g2\<lparr>faces := bs_faces s, faceVertexUvs := bs_uvs s\<rparr>)
           in Inr \<lparr>b_geometry = g3, b_ownerVertices = None\<rparr>))"

subsection \<open>Float (lines 1104-1188)\<close>

definition float_vertex ::
  "jsnum \<Rightarrow> data_slot \<Rightarrow> jsnum \<Rightarrow> jsnum \<Rightarrow> nat \<Rightarrow> nat \<Rightarrow> smooth_vs \<Rightarrow> smooth_vs" where
  "float_vertex maxHeight data invWidth invHeight y x s =
     (let depth = getDepth maxHeight data (sv_pixelIndex s);
          x1 = jmul (num x) invWidth;
          x2 = jmul (num (x + 1)) invWidth;
          y1 = jmul (num y) invHeight;
          y2 = jmul (num (y + 1)) invHeight;
          k = sv_vertexIndex s;
          vs = js_set (js_set (js_set (js_set (sv_vertices s)
                 k (Vector3 x1 y1 depth))
                 (k + 1) (Vector3 x2 y1 depth))
                 (k + 2) (Vector3 x2 y2 depth))
                 (k + 3) (Vector3 x1 y2 depth)
      in \<lparr>sv_vertices = vs, sv_vertexIndex = k + 4, sv_pixelIndex = sv_pixelIndex s + 4\<rparr>)"

record float_fs =
  ff_faces :: "face3 jsarray"
  ff_uvs :: "(vec2 list) jsarray"
  ff_faceIdx :: nat
  ff_uvIdx :: nat
  ff_i :: nat

definition float_cell :: "block_consts \<Rightarrow> nat \<Rightarrow> nat \<Rightarrow> float_fs \<Rightarrow> float_fs" where
  "float_cell c y x s =
     (let xr = jmul (num x) (bc_widthRatio c);
          yr = jmul (num y) (bc_heightRatio c);
          u1 = jmul (jadd xr (Fin (1/2))) (bc_invTextureWidth c);
          u2 = jmul (jsub (jadd xr (bc_widthRatio c)) (Fin (1/2))) (bc_invTextureWidth c);
          v1 = jmul (jadd yr (Fin (1/2))) (bc_invTextureHeight c);
          v2 = jmul (jsub (jadd yr (bc_heightRatio c)) (Fin (1/2))) (bc_invTextureHeight c);
          i = ff_i s;
          fs1 = js_set (ff_faces s) (ff_faceIdx s) (Face3 i (i + 1) (i + 2));
          fs2 = js_set fs1 (ff_faceIdx s + 1) (Face3 i (i + 2) (i + 3));
          uv1 = js_set (ff_uvs s) (ff_uvIdx s) [Vector2 u1 v1, Vector2 u2 v1, Vector2 u2 v2];
          uv2 = js_set uv1 (ff_uvIdx s + 1) [Vector2 u1 v1, Vector2 u2 v2, Vector2 u1 v2]
      in \<lparr>ff_faces = fs2, ff_uvs = uv2, ff_faceIdx = ff_faceIdx s + 2,
          ff_uvIdx = ff_uvIdx s + 2, ff_i = i + 4\<rparr>)"

definition createFloatGeometry ::
  "nat \<Rightarrow> nat \<Rightarrow> jsnum \<Rightarrow> nat \<Rightarrow> nat \<Rightarrow> three_geometry \<Rightarrow> data_slot option \<Rightarrow> bool \<Rightarrow>
   error + built" where
  "createFloatGeometry width height maxHeight textureImageWidth textureImageHeight
       geom data createFaces =
     (case data of
        None \<Rightarrow> Inl (AssertionFailed ''data must be valid.'')
      | Some d \<Rightarrow>
          (let c = block_constants width height textureImageWidth textureImageHeight;
               numVertices = width * height * 4;
               vs = sv_vertices
                      (for_upto height
                         (\<lambda>y. for_upto width
                            (float_vertex maxHeight d (bc_invWidth c) (bc_invHeight c) y))
                         \<lparr>sv_vertices = newArray numVertices, sv_vertexIndex = 0,
                          sv_pixelIndex = 0\<rparr>)
           in if createFaces then
                (let numFaces = width * height * 2;
                     fs = for_upto height (\<lambda>y. for_upto width (float_cell c y))
                            \<lparr>ff_faces = newArray numFaces, ff_uvs = newArray numFaces,
                             ff_faceIdx = 0, ff_uvIdx = 0, ff_i = 0\<rparr>
                 in Inr \<lparr>b_geometry = geom\<lparr>faces := ff_faces fs, faceVertexUvs := ff_uvs fs\<rparr>,
                         b_ownerVertices = Some vs\<rparr>)
              else Inr \<lparr>b_geometry = geom, b_ownerVertices = Some vs\<rparr>))"


section \<open>Shared state: images, the content cache, the views\<close>

subsection \<open>Callbacks as data\<close>

text \<open>
  The source passes closures. Each closure that Image3D.js creates is a constructor here,
  holding the variables it captured:
  \<^item> \<open>LoadHeightmapsOnLoad i\<close> is \<open>onLoad.bind(this, i)\<close> of \<open>loadHeightmaps_\<close> (line 532);
  \<^item> \<open>SetHeightmapCallback\<close> is the function passed by \<open>setHeightmap\<close> (line 645);
  \<^item> \<open>Notifier that index callback\<close> is the function pushed on a pending cache entry
    (line 460);
  \<^item> \<open>HeightmapOnLoad that index key callback\<close> is the load listener of a heightmap image
    (line 479), \<open>ImageOnLoad that\<close> the \<open>onload\<close> handler of the texture image (line 687).
  An object is named by its index: an entity in the list of entities, an image in the list
  of images.
\<close>

datatype callback = LoadHeightmapsOnLoad nat | SetHeightmapCallback

datatype notifier = Notifier nat nat callback

datatype listener = HeightmapOnLoad nat nat string callback | ImageOnLoad nat

text \<open>
  A browser \<open>Image\<close>: its source, its dimensions (zero until it has loaded), the RGBA bytes
  a canvas reads from it once it has loaded, and its load listeners.
\<close>

record js_image =
  img_src :: string
  img_width :: nat
  img_height :: nat
  img_pixels :: "8 word list"
  img_listeners :: "listener list"

definition newImage :: js_image where
  "newImage = \<lparr>img_src = [], img_width = 0, img_height = 0, img_pixels = [],
               img_listeners = []\<rparr>"

subsection \<open>The content cache\<close>

text \<open>
  A cached payload: the object \<open>{heightmap, heightmapData, notifiers}\<close> kept under a
  heightmap's URL, or a geometry kept under a geometry key.
\<close>

datatype payload =
    HeightmapPayload nat "8 word list option" "notifier list"
  | GeometryPayload three_geometry

record cache_entry =
  ce_payload :: payload
  ce_refcount :: nat

type_synonym cache = "string \<rightharpoonup> cache_entry"

text \<open>Modelled from the spec: the cache's \<open>has(key)\<close> (section 4.1); the cache class is not
  in Image3D.js.\<close>

definition cache_has :: "cache \<Rightarrow> string \<Rightarrow> bool" where
  "cache_has c k = (c k \<noteq> None)"

text \<open>Modelled from the spec: the cache's \<open>get(key)\<close>, which "fails with NotFound if
  absent" (section 4.1).\<close>

definition cache_get :: "cache \<Rightarrow> string \<Rightarrow> error + payload" where
  "cache_get c k = (case c k of None \<Rightarrow> Inl (NotFound k) | Some en \<Rightarrow> Inr (ce_payload en))"

text \<open>Modelled from the spec: the cache's \<open>set(key, payload)\<close>, which "inserts with refcount
  1; fails with KeyCollision if the key is already present" (section 4.1).\<close>

definition cache_set :: "cache \<Rightarrow> string \<Rightarrow> payload \<Rightarrow> error + cache" where
  "cache_set c k p =
     (case c k of
        None \<Rightarrow> Inr (c(k \<mapsto> \<lparr>ce_payload = p, ce_refcount = 1\<rparr>))
      | Some en \<Rightarrow> Inl (KeyCollision k))"

text \<open>Modelled from the spec: the cache's \<open>addRef(key)\<close>, which "increments refcount; fails
  with NotFound if absent" (section 4.1).\<close>

definition cache_addRef :: "cache \<Rightarrow> string \<Rightarrow> error + cache" where
  "cache_addRef c k =
     (case c k of
        None \<Rightarrow> Inl (NotFound k)
      | Some en \<Rightarrow> Inr (c(k \<mapsto> en\<lparr>ce_refcount := ce_refcount en + 1\<rparr>)))"

text \<open>Modelled from the spec: the cache's \<open>release(key)\<close>, which "decrements refcount; at 0,
  removes the entry and disposes the payload ...; fails with NotFound if absent; decrementing
  below zero is a fatal invariant violation" (section 4.1).\<close>

definition cache_release :: "cache \<Rightarrow> string \<Rightarrow> error + cache" where
  "cache_release c k =
     (case c k of
        None \<Rightarrow> Inl (NotFound k)
      | Some en \<Rightarrow>
          (if ce_refcount en = 0 then Inl (DoubleRelease k)
           else if ce_refcount en = 1 then Inr (c(k := None))
           else Inr (c(k \<mapsto> en\<lparr>ce_refcount := ce_refcount en - 1\<rparr>))))"

text \<open>
  \<open>cacheVal.notifiers.push(f)\<close> (line 460): the payload object is shared with the cache,
  so the push is seen by every later reader of the entry.
\<close>

definition cache_push_notifier :: "cache \<Rightarrow> string \<Rightarrow> notifier \<Rightarrow> cache" where
  "cache_push_notifier c k n =
     (case c k of
        Some en \<Rightarrow>
          (case ce_payload en of
             HeightmapPayload img d ns \<Rightarrow>
               c(k \<mapsto> en\<lparr>ce_payload := HeightmapPayload img d (ns @ [n])\<rparr>)
           | GeometryPayload g \<Rightarrow> c)
      | None \<Rightarrow> c)"

text \<open>Running a fallible step inside a stateful operation: its error is thrown with the
  state reached so far.\<close>

definition attempt :: "error + 'b \<Rightarrow> 's \<Rightarrow> ('b \<Rightarrow> 's result) \<Rightarrow> 's result" where
  "attempt r s f = (case r of Inl err \<Rightarrow> Throw err s | Inr x \<Rightarrow> f x)"

text \<open>
  An array member that is undefined until it is first assigned (\<open>heightmaps_\<close> and
  \<open>heightmapData_\<close>, assigned by \<open>loadHeightmaps_\<close> only, lines 524-525): \<open>None\<close> while it
  is undefined. Reading \<open>arr[i]\<close> or writing \<open>arr[i] = v\<close> is then a TypeError.
\<close>

definition slot_read :: "'a jsarray option \<Rightarrow> nat \<Rightarrow> error + 'a option" where
  "slot_read arr i = (case arr of None \<Rightarrow> Inl TypeError | Some xs \<Rightarrow> Inr (js_get xs i))"

definition slot_write :: "'a jsarray option \<Rightarrow> nat \<Rightarrow> 'a \<Rightarrow> error + 'a jsarray option" where
  "slot_write arr i v =
     (case arr of None \<Rightarrow> Inl TypeError | Some xs \<Rightarrow> Inr (Some (js_set xs i v)))"

subsection \<open>The view (\<open>Image3DView_\<close>, lines 16-156)\<close>

record texture =
  tx_image :: nat
  tx_sourceFile :: string

text \<open>
  The view's members: its texture, its own geometry with the key it holds in the view's
  cache, its material (the \<open>transparent\<close> flag is all the source touches), its mesh (the
  \<open>morphTargetInfluences\<close> it carries), and the flags \<open>loaded\<close> and dirty.
\<close>

record view_state =
  view_texture :: "texture option"
  view_geometry :: "three_geometry option"
  view_geometryKey :: "string option"
  view_material :: "bool option"
  view_mesh :: "jsnum list option"
  view_loaded :: bool
  view_dirty :: bool

definition view_load :: view_state where
  "view_load = \<lparr>view_texture = None, view_geometry = None, view_geometryKey = None,
                view_material = None, view_mesh = None, view_loaded = False,
                view_dirty = False\<rparr>"

section \<open>The model (\<open>Image3D\<close>, lines 196-1432)\<close>

record element =
  el_tagName :: string
  el_src :: string

text \<open>
  What a slot of \<open>heightmaps_\<close> holds: an image, or, on the path that reuses a fully loaded
  cache entry, the entry's payload object (line 468 stores \<open>this.cache.get(heightmapKey)\<close>).
\<close>

datatype hm_slot = HmImage nat | HmPayload string

text \<open>
  The members of an Image3D. Times are milliseconds (\<open>new Date()\<close> converts to a number
  in every subtraction of the source). \<open>loaded\<close> is the property of the host object model
  that \<open>update\<close> reads; \<open>events\<close> records the names of the events dispatched, in order;
  \<open>numLoaded\<close> and \<open>numToLoad\<close> are the variables that the closures of \<open>loadHeightmaps_\<close>
  share. \<open>heightSources_\<close> is indexed by whatever integer \<open>setHeightmap\<close> is given, so it
  is a map from integer property keys. A member the source leaves undefined until its first
  assignment is \<open>None\<close> (or the empty array, the empty string).
\<close>

record entity =
  element :: element
  imageSrc :: "string option"
  heightSources :: "int \<rightharpoonup> string"
  heightmapKeys :: "string jsarray"
  maxHeight :: jsnum
  geometryStyle :: string
  transparent :: bool
  morphing :: bool
  morphStartTime :: int
  morphDuration :: jsnum
  morphElapsed :: int
  startMorphTargets :: "jsnum list"
  currentMorphTargets :: "jsnum list"
  endMorphTargets :: "jsnum list"
  heightmaps :: "hm_slot jsarray option"
  heightmapData :: "data_slot jsarray option"
  heightmapWidth :: "nat option"
  heightmapHeight :: "nat option"
  image :: "nat option"
  geometryKey :: string
  geometry :: "three_geometry option"
  loaded :: bool
  view :: view_state
  stencilView :: "view_state option"
  events :: "string list"
  numLoaded :: nat
  numToLoad :: nat

text \<open>What entities share: the images of the page, the cache of the models, and the cache
  of each of the two layers of views.\<close>

record shared =
  images :: "js_image list"
  cache :: cache
  viewCache :: cache
  stencilCache :: cache

type_synonym ctx = "entity \<times> shared"

text \<open>
  Functions of the host that Image3D.js calls and does not define: \<open>getAbsoluteUrl_\<close> and
  the conversion of a number to a string (in the geometry key). They are parameters.
\<close>

record host =
  getAbsoluteUrl :: "string \<Rightarrow> string"
  numberToString :: "jsnum \<Rightarrow> string"

definition dispatch :: "string \<Rightarrow> ctx \<Rightarrow> ctx" where
  "dispatch name s = ((fst s)\<lparr>events := events (fst s) @ [name]\<rparr>, snd s)"


subsection \<open>Strings\<close>

definition toLowerCase :: "string \<Rightarrow> string" where
  "toLowerCase s =
     map (\<lambda>c. if 65 \<le> (of_char c :: nat) \<and> (of_char c :: nat) \<le> 90
              then char_of ((of_char c :: nat) + 32) else c) s"

fun show_nat :: "nat \<Rightarrow> string" where
  "show_nat n =
     (if n < 10 then [char_of (48 + n)]
      else show_nat (n div 10) @ [char_of (48 + n mod 10)])"

declare show_nat.simps [simp del]

definition show_int :: "int \<Rightarrow> string" where
  "show_int i = (if i < 0 then CHR ''-'' # show_nat (nat (- i)) else show_nat (nat i))"

subsection \<open>The view's methods\<close>

type_synonym vctx = "view_state \<times> cache"

text \<open>\<open>createGeometry_\<close> of the view (lines 38-67); the returned geometry is stored in the
  view by \<open>createMesh_\<close>, which is its only caller. A payload that is not a geometry is
  reported where it is fetched.\<close>

definition view_createGeometry :: "entity \<Rightarrow> vctx \<Rightarrow> vctx result" where
  "view_createGeometry e s =
     (let v = fst s; c = snd s in
      case geometry e of
        None \<Rightarrow> Throw (AssertionFailed ''modelGeometry must be valid.'') s
      | Some modelGeometry \<Rightarrow>
          (let gkey = geometryKey e in
           if cache_has c gkey then
             (let v1 = v\<lparr>view_geometryKey := Some gkey\<rparr> in
              attempt (cache_addRef c gkey) (v1, c) (\<lambda>c1.
              attempt (cache_get c1 gkey) (v1, c1) (\<lambda>p.
                case p of
                  GeometryPayload g \<Rightarrow> Ok (v1\<lparr>view_geometry := Some g\<rparr>, c1)
                | HeightmapPayload img d ns \<Rightarrow> Throw TypeError (v1, c1))))
           else
             (let g = \<lparr>vertices = vertices modelGeometry, faces = faces modelGeometry,
                      faceVertexUvs = faceVertexUvs modelGeometry,
                      morphTargets = morphTargets modelGeometry\<rparr>
              in attempt (cache_set c gkey (GeometryPayload g)) (v, c) (\<lambda>c1.
                   Ok (v\<lparr>view_geometryKey := Some gkey, view_geometry := Some g\<rparr>, c1)))))"

definition view_createMesh :: "entity \<Rightarrow> vctx \<Rightarrow> vctx result" where
  "view_createMesh e s =
     (if view_texture (fst s) = None then Ok s
      else bind (view_createGeometry e s) (\<lambda>s1.
             Ok ((fst s1)\<lparr>view_material := Some (transparent e),
                          view_mesh := Some (currentMorphTargets e),
                          view_loaded := True\<rparr>, snd s1)))"

definition view_destroyMesh :: "vctx \<Rightarrow> vctx result" where
  "view_destroyMesh s =
     (let v1 = (fst s)\<lparr>view_mesh := None\<rparr>; c = snd s in
      bind (if view_geometry v1 \<noteq> None then
              (case view_geometryKey v1 of
                 None \<Rightarrow> Throw (NotFound ''null'') (v1, c)
               | Some k \<Rightarrow>
                   attempt (cache_release c k) (v1, c) (\<lambda>c1.
                     Ok (v1\<lparr>view_geometryKey := None, view_geometry := None\<rparr>, c1)))
            else Ok (v1, c))
        (\<lambda>s2. Ok ((fst s2)\<lparr>view_material := None\<rparr>, snd s2)))"

definition view_setMorphTargetInfluences :: "jsnum list \<Rightarrow> view_state \<Rightarrow> view_state" where
  "view_setMorphTargetInfluences influences v =
     (if view_mesh v \<noteq> None then v\<lparr>view_mesh := Some influences, view_dirty := True\<rparr>
      else v)"

definition view_rebuildMesh :: "entity \<Rightarrow> vctx \<Rightarrow> vctx result" where
  "view_rebuildMesh e s =
     bind (if view_mesh (fst s) \<noteq> None then view_destroyMesh s else Ok s)
       (view_createMesh e)"

definition view_setImage :: "nat option \<Rightarrow> string option \<Rightarrow> entity \<Rightarrow> vctx \<Rightarrow> vctx result" where
  "view_setImage img src e s =
     (case img of
        None \<Rightarrow> Throw (AssertionFailed ''image must be valid.'') s
      | Some i \<Rightarrow>
          (case src of
             None \<Rightarrow> Throw (AssertionFailed ''imageSrc must be valid.'') s
           | Some u \<Rightarrow>
               (if u = [] then Throw (AssertionFailed ''imageSrc must be valid.'') s
                else view_rebuildMesh e
                       ((fst s)\<lparr>view_texture := Some \<lparr>tx_image = i, tx_sourceFile = u\<rparr>\<rparr>,
                        snd s))))"

definition view_setTransparent :: "bool \<Rightarrow> view_state \<Rightarrow> view_state" where
  "view_setTransparent t v =
     (if view_mesh v \<noteq> None then v\<lparr>view_material := Some t\<rparr> else v)"

text \<open>
  \<open>this.view.m(...); if (this.stencilView) this.stencilView.m(...);\<close>: a method of the
  views run on the main view and then, if there is one, on the stencil view, each with the
  cache of its layer.
\<close>

definition on_views :: "(entity \<Rightarrow> vctx \<Rightarrow> vctx result) \<Rightarrow> ctx \<Rightarrow> ctx result" where
  "on_views f s =
     (let e = fst s; sh = snd s in
      case f e (view e, viewCache sh) of
        Throw err s1 \<Rightarrow> Throw err (e\<lparr>view := fst s1\<rparr>, sh\<lparr>viewCache := snd s1\<rparr>)
      | Ok s1 \<Rightarrow>
          (let e1 = e\<lparr>view := fst s1\<rparr>; sh1 = sh\<lparr>viewCache := snd s1\<rparr> in
           case stencilView e1 of
             None \<Rightarrow> Ok (e1, sh1)
           | Some sv \<Rightarrow>
               (case f e1 (sv, stencilCache sh1) of
                  Throw err s2 \<Rightarrow>
                    Throw err (e1\<lparr>stencilView := Some (fst s2)\<rparr>, sh1\<lparr>stencilCache := snd s2\<rparr>)
                | Ok s2 \<Rightarrow>
                    Ok (e1\<lparr>stencilView := Some (fst s2)\<rparr>, sh1\<lparr>stencilCache := snd s2\<rparr>))))"

definition views_do :: "(view_state \<Rightarrow> view_state) \<Rightarrow> entity \<Rightarrow> entity" where
  "views_do f e = e\<lparr>view := f (view e), stencilView := map_option f (stencilView e)\<rparr>"


subsection \<open>Building the model's geometry\<close>

definition textureSize :: "entity \<Rightarrow> shared \<Rightarrow> (nat \<times> nat) option" where
  "textureSize e sh =
     (case image e of
        None \<Rightarrow> None
      | Some i \<Rightarrow>
          (if i < length (images sh)
           then Some (img_width (images sh ! i), img_height (images sh ! i)) else None))"

text \<open>
  \<open>createHeightmapGeometry_\<close> (lines 1201-1221): the assertions, then the builder of the
  style; an unknown style builds nothing. The builders read \<open>heightmapWidth_\<close> and
  \<open>heightmapHeight_\<close>; when one is undefined the size of the first array they allocate is
  \<open>NaN\<close>, a RangeError. The block and float builders read \<open>this.image_.width\<close> first, a
  TypeError when there is no image.
\<close>

definition createHeightmapGeometry ::
  "entity \<Rightarrow> shared \<Rightarrow> data_slot option \<Rightarrow> three_geometry \<Rightarrow> bool \<Rightarrow> error + built" where
  "createHeightmapGeometry e sh data geom createFaces =
     (case data of
        None \<Rightarrow> Inl (AssertionFailed ''data must be valid.'')
      | Some d \<Rightarrow>
          (if geometryStyle e = ''smooth'' then
             (case (heightmapWidth e, heightmapHeight e) of
                (Some w, Some h) \<Rightarrow>
                  createSmoothGeometry w h (maxHeight e) geom data createFaces
              | _ \<Rightarrow> Inl RangeError)
           else if geometryStyle e = ''block'' then
             (case textureSize e sh of
                None \<Rightarrow> Inl TypeError
              | Some ts \<Rightarrow>
                  (case (heightmapWidth e, heightmapHeight e) of
                     (Some w, Some h) \<Rightarrow>
                       createBlockGeometry w h (maxHeight e) (fst ts) (snd ts) geom data
                         createFaces
                   | _ \<Rightarrow> Inl RangeError))
           else if geometryStyle e = ''float'' then
             (case textureSize e sh of
                None \<Rightarrow> Inl TypeError
              | Some ts \<Rightarrow>
                  (case (heightmapWidth e, heightmapHeight e) of
                     (Some w, Some h) \<Rightarrow>
                       createFloatGeometry w h (maxHeight e) (fst ts) (snd ts) geom data
                         createFaces
                   | _ \<Rightarrow> Inl RangeError))
           else Inr \<lparr>b_geometry = geom, b_ownerVertices = None\<rparr>))"

text \<open>The geometry key (lines 1230-1237). \<open>null\<close> and \<open>undefined\<close> concatenate as their
  names.\<close>

definition heightSrc :: "entity \<Rightarrow> int \<Rightarrow> string" where
  "heightSrc e i = (case heightSources e i of None \<Rightarrow> ''undefined'' | Some u \<Rightarrow> u)"

definition makeGeometryKey :: "host \<Rightarrow> entity \<Rightarrow> string" where
  "makeGeometryKey h e =
     ''imageSrc: '' @ (case imageSrc e of None \<Rightarrow> ''null'' | Some u \<Rightarrow> u) @ '', '' @
     ''heightSrc1: '' @ heightSrc e 0 @ '', '' @
     ''heightSrc2: '' @ heightSrc e 1 @ '', '' @
     ''heightSrc3: '' @ heightSrc e 2 @ '', '' @
     ''heightSrc4: '' @ heightSrc e 3 @ '', '' @
     ''maxHeight: '' @ numberToString h (maxHeight e) @ '', '' @
     ''geometryStyle: '' @ geometryStyle e @
     '' (geometry)''"

text \<open>A loop whose body may throw: it stops at the first error.\<close>

primrec for_upto_try :: "nat \<Rightarrow> (nat \<Rightarrow> 's \<Rightarrow> error + 's) \<Rightarrow> 's \<Rightarrow> error + 's" where
  "for_upto_try 0 body s = Inr s"
| "for_upto_try (Suc n) body s =
     (case for_upto_try n body s of Inl err \<Rightarrow> Inl err | Inr s' \<Rightarrow> body n s')"

text \<open>
  One round of the loop that appends the morph targets (lines 1269-1286): target \<open>i\<close>
  shares the geometry's vertices when slot \<open>i\<close> holds no heightmap or \<open>i\<close> is 0, and is
  rebuilt from the data of slot \<open>i\<close>, without faces, otherwise.
\<close>

definition appendMorphTarget ::
  "entity \<Rightarrow> shared \<Rightarrow> nat \<Rightarrow> three_geometry \<Rightarrow> error + three_geometry" where
  "appendMorphTarget e sh i g =
     (case slot_read (heightmaps e) i of
        Inl err \<Rightarrow> Inl err
      | Inr slot \<Rightarrow>
          (if slot = None \<or> i = 0 then
             Inr (g\<lparr>morphTargets := morphTargets g @
                      [\<lparr>mt_name = ''target'' @ show_nat i, mt_vertices = vertices g\<rparr>]\<rparr>)
           else
             (case slot_read (heightmapData e) i of
                Inl err \<Rightarrow> Inl err
              | Inr data \<Rightarrow>
                  (case createHeightmapGeometry e sh data g False of
                     Inl err \<Rightarrow> Inl err
                   | Inr b \<Rightarrow>
                       Inr ((b_geometry b)\<lparr>morphTargets := morphTargets (b_geometry b) @
                              [\<lparr>mt_name = ''target'' @ show_nat i,
                                mt_vertices = (case b_ownerVertices b of
                                                 None \<Rightarrow> [] | Some vs \<Rightarrow> vs)\<rparr>]\<rparr>)))))"

text \<open>
  The part of \<open>createGeometry_\<close> that runs when the key is not cached (lines 1249-1288):
  the primary geometry with its faces, the assertion on block geometry, the four morph
  targets.
\<close>

definition buildGeometry :: "entity \<Rightarrow> shared \<Rightarrow> error + three_geometry" where
  "buildGeometry e sh =
     (case heightmaps e of
        None \<Rightarrow> Inl TypeError
      | Some hms \<Rightarrow>
          (let numValidHeightmaps = length (filter (\<lambda>i. js_get hms i \<noteq> None) [0..<4])
           in case slot_read (heightmapData e) 0 of
                Inl err \<Rightarrow> Inl err
              | Inr data \<Rightarrow>
                  (case createHeightmapGeometry e sh data newGeometry True of
                     Inl err \<Rightarrow> Inl err
                   | Inr b \<Rightarrow>
                       (let g = (case b_ownerVertices b of
                                   None \<Rightarrow> b_geometry b
                                 | Some vs \<Rightarrow> (b_geometry b)\<lparr>vertices := vs\<rparr>)
                        in if numValidHeightmaps \<le> 1 \<or> geometryStyle e \<noteq> ''block''
                           then for_upto_try 4 (appendMorphTarget e sh) g
                           else Inl (AssertionFailed
                                  ''Block geometry does not support multiple heightmaps.'')))))"

definition createGeometry :: "host \<Rightarrow> ctx \<Rightarrow> ctx result" where
  "createGeometry h s =
     (let gkey = makeGeometryKey h (fst s);
          e = (fst s)\<lparr>geometryKey := gkey\<rparr>;
          sh = snd s
      in if cache_has (cache sh) gkey then
           attempt (cache_addRef (cache sh) gkey) (e, sh) (\<lambda>c1.
           attempt (cache_get c1 gkey) (e, sh\<lparr>cache := c1\<rparr>) (\<lambda>p.
             case p of
               GeometryPayload g \<Rightarrow> Ok (e\<lparr>geometry := Some g\<rparr>, sh\<lparr>cache := c1\<rparr>)
             | HeightmapPayload img d ns \<Rightarrow> Throw TypeError (e, sh\<lparr>cache := c1\<rparr>)))
         else
           attempt (buildGeometry e sh) (e, sh) (\<lambda>g.
           attempt (cache_set (cache sh) gkey (GeometryPayload g))
             (e\<lparr>geometry := Some g\<rparr>, sh) (\<lambda>c1.
               Ok (e\<lparr>geometry := Some g\<rparr>, sh\<lparr>cache := c1\<rparr>))))"

definition destroyGeometry :: "ctx \<Rightarrow> ctx result" where
  "destroyGeometry s =
     (case geometry (fst s) of
        None \<Rightarrow> Ok s
      | Some g \<Rightarrow>
          attempt (cache_release (cache (snd s)) (geometryKey (fst s))) s (\<lambda>c1.
            Ok ((fst s)\<lparr>geometryKey := [], geometry := None\<rparr>, (snd s)\<lparr>cache := c1\<rparr>)))"

definition rebuildGeometry :: "host \<Rightarrow> ctx \<Rightarrow> ctx result" where
  "rebuildGeometry h s =
     (if image (fst s) = None then Ok s
      else bind (destroyGeometry s) (\<lambda>s1.
           bind (createGeometry h s1) (\<lambda>s2.
           on_views view_rebuildMesh s2)))"

subsection \<open>The texture\<close>

definition setImageSrc :: "host \<Rightarrow> nat \<Rightarrow> string \<Rightarrow> ctx \<Rightarrow> ctx result" where
  "setImageSrc h that imageSrc0 s =
     bind (js_assert (imageSrc0 \<noteq> []) ''imageSrc must be valid.'' s) (\<lambda>s.
       let e = fst s; sh = snd s; src = getAbsoluteUrl h imageSrc0 in
       if imageSrc e = Some src then Ok s
       else
         (let initialized = (imageSrc e \<noteq> None);
              e1 = e\<lparr>imageSrc := Some src\<rparr>;
              e2 = (if toLowerCase (el_tagName (element e1)) = ''img''
                    then e1\<lparr>element := (element e1)\<lparr>el_src := src\<rparr>\<rparr> else e1);
              e3 = (if initialized
                    then e2\<lparr>events := events e2 @ [''changeImageSrc'']\<rparr> else e2);
              img = newImage\<lparr>img_listeners := [ImageOnLoad that], img_src := src\<rparr>
          in Ok (e3\<lparr>image := Some (length (images sh))\<rparr>,
                 sh\<lparr>images := images sh @ [img]\<rparr>)))"

text \<open>The \<open>onload\<close> handler of the texture image (lines 678-684).\<close>

definition imageOnLoad :: "host \<Rightarrow> ctx \<Rightarrow> ctx result" where
  "imageOnLoad h s =
     bind (rebuildGeometry h s) (\<lambda>s1.
       on_views (view_setImage (image (fst s1)) (imageSrc (fst s1))) s1)"


subsection \<open>Loading heightmaps\<close>

definition freeHeightmap :: "int \<Rightarrow> ctx \<Rightarrow> ctx result" where
  "freeHeightmap index s =
     bind (js_assert (0 \<le> index \<and> index < 4) ''index must be between 0 and 3.'' s) (\<lambda>s.
       case js_get (heightmapKeys (fst s)) (nat index) of
         None \<Rightarrow> Throw (NotFound ''undefined'') s
       | Some k \<Rightarrow>
           (if k \<noteq> [] then
              attempt (cache_release (cache (snd s)) k) s (\<lambda>c1.
                Ok ((fst s)\<lparr>heightmapKeys := js_set (heightmapKeys (fst s)) (nat index) []\<rparr>,
                    (snd s)\<lparr>cache := c1\<rparr>))
            else Ok s))"

text \<open>\<open>heightmap.width\<close> and \<open>heightmap.height\<close> of what a slot holds: the payload object of
  a cache entry has neither.\<close>

definition slot_size :: "shared \<Rightarrow> hm_slot \<Rightarrow> nat option \<times> nat option" where
  "slot_size sh slot =
     (case slot of
        HmImage i \<Rightarrow>
          (if i < length (images sh)
           then (Some (img_width (images sh ! i)), Some (img_height (images sh ! i)))
           else (None, None))
      | HmPayload k \<Rightarrow> (None, None))"

text \<open>
  The callback that \<open>setUpViews\<close> passes to \<open>loadHeightmaps_\<close> (lines 275-279), the only
  caller of \<open>loadHeightmaps_\<close>.
\<close>

definition setUpViewsCallback :: "host \<Rightarrow> nat \<Rightarrow> ctx \<Rightarrow> ctx result" where
  "setUpViewsCallback h that s =
     (let src = imageSrc (fst s); s1 = ((fst s)\<lparr>imageSrc := None\<rparr>, snd s) in
      case src of
        None \<Rightarrow> Throw (AssertionFailed ''imageSrc must be valid.'') s1
      | Some u \<Rightarrow> setImageSrc h that u s1)"

text \<open>\<open>onLoad\<close> of \<open>loadHeightmaps_\<close> (lines 504-522): the check that all heightmaps have
  the same size, and the count of the loads that have completed.\<close>

definition loadHeightmapsOnLoad :: "host \<Rightarrow> nat \<Rightarrow> nat \<Rightarrow> ctx \<Rightarrow> ctx result" where
  "loadHeightmapsOnLoad h that index s =
     attempt (slot_read (heightmaps (fst s)) index) s (\<lambda>slot.
       case slot of
         None \<Rightarrow> Throw TypeError s
       | Some heightmap \<Rightarrow>
           (let e = fst s; sz = slot_size (snd s) heightmap in
            bind (if numLoaded e = 0
                  then Ok (e\<lparr>heightmapWidth := fst sz, heightmapHeight := snd sz\<rparr>, snd s)
                  else js_assert (heightmapWidth e = fst sz \<and> heightmapHeight e = snd sz)
                         ''All heightmaps must be the same size.'' s)
              (\<lambda>s1. let e1 = (fst s1)\<lparr>numLoaded := numLoaded (fst s1) + 1\<rparr> in
                     if numLoaded e1 = numToLoad e1 then setUpViewsCallback h that (e1, snd s1)
                     else Ok (e1, snd s1))))"

definition runCallback :: "host \<Rightarrow> nat \<Rightarrow> callback \<Rightarrow> ctx \<Rightarrow> ctx result" where
  "runCallback h that cb s =
     (case cb of
        LoadHeightmapsOnLoad index \<Rightarrow> loadHeightmapsOnLoad h that index s
      | SetHeightmapCallback \<Rightarrow> rebuildGeometry h s)"

text \<open>
  \<open>loadHeightmap_\<close> (lines 400-491) up to the start of the decode; \<open>that\<close> is the entity it
  runs on, captured by the closures it registers. The three cases: the cache holds a fully
  loaded entry (the callback runs at once), the cache holds a pending entry (a notifier is
  pushed on it), the cache holds no entry (a pending entry is inserted and a new image
  starts loading).
\<close>

definition loadHeightmap ::
  "host \<Rightarrow> nat \<Rightarrow> string \<Rightarrow> int \<Rightarrow> callback \<Rightarrow> ctx \<Rightarrow> ctx result" where
  "loadHeightmap h that heightmapSrc index callback s =
     bind (js_assert (0 \<le> index \<and> index < 4) ''index must be between 0 and 3.'' s) (\<lambda>s.
       if heightmapSrc = [] then Ok s
       else
         bind (freeHeightmap index s) (\<lambda>s1.
           let e = fst s1; sh = snd s1; i = nat index; heightmapKey = heightmapSrc in
           if cache_has (cache sh) heightmapKey then
             attempt (cache_addRef (cache sh) heightmapKey) s1 (\<lambda>c1.
             attempt (cache_get c1 heightmapKey) (e, sh\<lparr>cache := c1\<rparr>) (\<lambda>cacheVal.
               case cacheVal of
                 GeometryPayload g \<Rightarrow>
                   Throw TypeError
                     (e\<lparr>heightmaps := map_option (\<lambda>xs. js_set_undefined xs i) (heightmaps e)\<rparr>,
                      sh\<lparr>cache := c1\<rparr>)
               | HeightmapPayload img None ns \<Rightarrow>
                   attempt (slot_write (heightmaps e) i (HmImage img))
                     (e, sh\<lparr>cache := c1\<rparr>) (\<lambda>hms.
                     Ok (e\<lparr>heightmaps := hms\<rparr>,
                         sh\<lparr>cache := cache_push_notifier c1 heightmapKey
                                        (Notifier that i callback)\<rparr>))
               | HeightmapPayload img (Some d) ns \<Rightarrow>
                   attempt (slot_write (heightmaps e) i (HmPayload heightmapKey))
                     (e, sh\<lparr>cache := c1\<rparr>) (\<lambda>hms.
                   attempt (slot_write (heightmapData e) i (DataPayload heightmapKey))
                     (e\<lparr>heightmaps := hms\<rparr>, sh\<lparr>cache := c1\<rparr>) (\<lambda>hds.
                     runCallback h that callback
                       (e\<lparr>heightmaps := hms, heightmapData := hds\<rparr>, sh\<lparr>cache := c1\<rparr>)))))
           else
             (let heightmap = length (images sh);
                  img = newImage\<lparr>img_listeners :=
                          [HeightmapOnLoad that i heightmapKey callback]\<rparr>
              in attempt (cache_set (cache sh) heightmapKey (HeightmapPayload heightmap None []))
                   (e, sh\<lparr>images := images sh @ [img]\<rparr>) (\<lambda>c1.
                 attempt (slot_write (heightmaps e) i (HmImage heightmap))
                   (e, sh\<lparr>images := images sh @ [img], cache := c1\<rparr>) (\<lambda>hms.
                   Ok (e\<lparr>heightmaps := hms\<rparr>,
                       sh\<lparr>images := images sh @ [img\<lparr>img_src := heightmapSrc\<rparr>],
                          cache := c1\<rparr>))))))"

text \<open>\<open>loadHeightmaps_\<close> (lines 493-533), with the callback of \<open>setUpViews\<close>.\<close>

definition loadHeightmaps :: "host \<Rightarrow> nat \<Rightarrow> ctx \<Rightarrow> ctx result" where
  "loadHeightmaps h that s =
     (let e = fst s;
          e1 = e\<lparr>heightmapWidth := Some 0, heightmapHeight := Some 0, numLoaded := 0,
                 heightmaps := Some [], heightmapData := Some [],
                 numToLoad := length (filter (\<lambda>i. heightSources e i \<noteq> Some []) [0, 1, 2, 3])\<rparr>;
          load = (\<lambda>i s. loadHeightmap h that
                          (case heightSources (fst s) (int i) of None \<Rightarrow> [] | Some u \<Rightarrow> u)
                          (int i) (LoadHeightmapsOnLoad i) s)
      in bind (load 0 (e1, snd s)) (\<lambda>s1.
         bind (load 1 s1) (\<lambda>s2.
         bind (load 2 s2) (\<lambda>s3.
         load 3 s3))))"

definition setUpViews :: "host \<Rightarrow> nat \<Rightarrow> ctx \<Rightarrow> ctx result" where
  "setUpViews h that s = loadHeightmaps h that s"

definition tearDownViews :: "ctx \<Rightarrow> ctx result" where
  "tearDownViews s = destroyGeometry s"

definition cleanUp :: "ctx \<Rightarrow> ctx result" where
  "cleanUp s =
     bind (freeHeightmap 0 s) (\<lambda>s1.
     bind (freeHeightmap 1 s1) (\<lambda>s2.
     bind (freeHeightmap 2 s2) (\<lambda>s3.
     freeHeightmap 3 s3)))"

subsection \<open>The morph animator\<close>

text \<open>
  \<open>arr[k] = v\<close> on an array of four weights, for a number \<open>k\<close>: an element is written
  when \<open>k\<close> is one of its indices; any other \<open>k\<close> (negative, fractional) names a property
  that is not an element, and the elements stay as they are. The weight arrays of the
  source always have four elements, and the indices that \<open>morph\<close> accepts stay below 3.
\<close>

definition store_weight :: "jsnum list \<Rightarrow> jsnum \<Rightarrow> jsnum \<Rightarrow> jsnum list" where
  "store_weight arr k v =
     (case k of
        Fin q \<Rightarrow>
          (if 0 \<le> q \<and> of_int \<lfloor>q\<rfloor> = q \<and> nat \<lfloor>q\<rfloor> < length arr
           then arr[nat \<lfloor>q\<rfloor> := v] else arr)
      | _ \<Rightarrow> arr)"

definition weight_at :: "jsnum list \<Rightarrow> nat \<Rightarrow> jsnum" where
  "weight_at xs i = (if i < length xs then xs ! i else NaN)"

definition morph :: "jsnum \<Rightarrow> jsnum \<Rightarrow> int \<Rightarrow> ctx \<Rightarrow> ctx result" where
  "morph index seconds now s =
     bind (js_assert (jge index (Fin 0) \<and> jlt index (Fin 4))
             ''index must be between 0 and 4.'' s) (\<lambda>s.
       let e = fst s;
           morphTargetInfluences =
             store_weight [Fin 0, Fin 0, Fin 0, Fin 0] (jsub index (Fin 1)) (Fin 1)
       in if jgt seconds (Fin 0) then
            Ok (e\<lparr>startMorphTargets := currentMorphTargets e,
                  endMorphTargets := morphTargetInfluences,
                  morphDuration := jmul seconds (Fin 1000),
                  morphStartTime := now,
                  morphElapsed := 0,
                  morphing := True,
                  events := events e @ [''morphBegin'']\<rparr>, snd s)
          else
            Ok (views_do (view_setMorphTargetInfluences morphTargetInfluences)
                  (e\<lparr>startMorphTargets := morphTargetInfluences,
                     endMorphTargets := morphTargetInfluences,
                     currentMorphTargets := morphTargetInfluences,
                     morphing := False,
                     morphDuration := Fin 0,
                     morphElapsed := 0\<rparr>), snd s))"

text \<open>The interpolation loop of \<open>update\<close> (lines 320-324), storing into
  \<open>currentMorphTargets_\<close> in place.\<close>

definition lerpWeights :: "jsnum \<Rightarrow> entity \<Rightarrow> jsnum list" where
  "lerpWeights time e =
     (let invTime = jsub (Fin 1) time in
      for_upto (length (endMorphTargets e))
        (\<lambda>i cur. cur[i := jadd (jmul (weight_at (startMorphTargets e) i) invTime)
                              (jmul (weight_at (endMorphTargets e) i) time)])
        (currentMorphTargets e))"

definition updateMorph :: "int \<Rightarrow> entity \<Rightarrow> entity" where
  "updateMorph now e =
     (if morphing e then
        (let duration = now - morphStartTime e;
             time = jdiv (numi duration) (morphDuration e)
         in if jgt time (Fin 1) then
              (let e1 = e\<lparr>morphing := False, morphDuration := Fin 0, morphElapsed := 0\<rparr>;
                   e2 = views_do (view_setMorphTargetInfluences (endMorphTargets e1)) e1;
                   e3 = e2\<lparr>currentMorphTargets := endMorphTargets e2\<rparr>;
                   e4 = e3\<lparr>startMorphTargets := currentMorphTargets e3\<rparr>
               in e4\<lparr>events := events e4 @ [''morphEnd'']\<rparr>)
            else
              (let e1 = e\<lparr>currentMorphTargets := lerpWeights time e\<rparr>
               in views_do (view_setMorphTargetInfluences (currentMorphTargets e1)) e1))
      else e)"

text \<open>\<open>update\<close> (lines 288-330); \<open>now\<close> is the value of \<open>new Date()\<close>.\<close>

definition update :: "host \<Rightarrow> nat \<Rightarrow> int \<Rightarrow> ctx \<Rightarrow> ctx result" where
  "update h that now s =
     (if \<not> loaded (fst s) then Ok s
      else
        bind (if toLowerCase (el_tagName (element (fst s))) = ''img'' \<and>
                 Some (el_src (element (fst s))) \<noteq> imageSrc (fst s)
              then setImageSrc h that (el_src (element (fst s))) s
              else Ok s)
          (\<lambda>s1. Ok (updateMorph now (fst s1), snd s1)))"

definition setMorphing :: "bool \<Rightarrow> int \<Rightarrow> ctx \<Rightarrow> ctx result" where
  "setMorphing m now s =
     (let e = fst s in
      if \<not> m \<and> morphing e then
        Ok (e\<lparr>morphing := False, morphElapsed := now - morphStartTime e\<rparr>, snd s)
      else if m \<and> \<not> morphing e then
        Ok (e\<lparr>morphing := True, morphStartTime := now - morphElapsed e\<rparr>, snd s)
      else Ok s)"

subsection \<open>The configuration setters\<close>

definition setGeometryStyle :: "host \<Rightarrow> string \<Rightarrow> ctx \<Rightarrow> ctx result" where
  "setGeometryStyle h style s =
     bind (js_assert (style = ''smooth'' \<or> style = ''block'' \<or> style = ''float'')
             ''geometryStyle must be valid.'' s) (\<lambda>s.
       if geometryStyle (fst s) \<noteq> style then
         rebuildGeometry h
           (dispatch ''changeGeometryStyle'' ((fst s)\<lparr>geometryStyle := style\<rparr>, snd s))
       else Ok s)"

text \<open>\<open>setHeightmap\<close> (lines 624-650); the index is \<open>opt_index - 1\<close>, or 0 when \<open>opt_index\<close>
  is not given.\<close>

definition setHeightmap :: "host \<Rightarrow> nat \<Rightarrow> string \<Rightarrow> int option \<Rightarrow> ctx \<Rightarrow> ctx result" where
  "setHeightmap h that heightmap0 opt_index s =
     bind (js_assert (heightmap0 \<noteq> []) ''heightmap must be valid.'' s) (\<lambda>s.
       let heightmap = getAbsoluteUrl h heightmap0;
           index = (case opt_index of None \<Rightarrow> 0 | Some k \<Rightarrow> k - 1)
       in if heightSources (fst s) index = Some heightmap then Ok s
          else
            (let e1 = (fst s)\<lparr>heightSources := (heightSources (fst s))(index \<mapsto> heightmap)\<rparr>;
                 s1 = dispatch (if index = 0 then ''changeHeightmap''
                                else ''changeHeightmap'' @ show_int (index + 1)) (e1, snd s)
             in loadHeightmap h that heightmap index SetHeightmapCallback s1))"

definition setMaxHeight :: "host \<Rightarrow> jsnum \<Rightarrow> ctx \<Rightarrow> ctx result" where
  "setMaxHeight h mh s =
     bind (js_assert (jge mh (Fin 0)) ''maxHeight must be >= 0.'' s) (\<lambda>s.
       if \<not> jeq (maxHeight (fst s)) mh then
         rebuildGeometry h (dispatch ''changeMaxHeight'' ((fst s)\<lparr>maxHeight := mh\<rparr>, snd s))
       else Ok s)"

definition setTransparent :: "bool \<Rightarrow> ctx \<Rightarrow> ctx result" where
  "setTransparent t s =
     (if transparent (fst s) \<noteq> t then
        (let s1 = dispatch ''changeTransparent'' ((fst s)\<lparr>transparent := t\<rparr>, snd s)
         in Ok (views_do (view_setTransparent t) (fst s1), snd s1))
      else Ok s)"


subsection \<open>Events of the page: a heightmap or a texture image has loaded\<close>

record world =
  entities :: "entity list"
  shared_state :: shared

definition on_entity :: "nat \<Rightarrow> (ctx \<Rightarrow> ctx result) \<Rightarrow> world \<Rightarrow> world result" where
  "on_entity that f w =
     (if that < length (entities w) then
        (case f (entities w ! that, shared_state w) of
           Ok s \<Rightarrow> Ok \<lparr>entities = (entities w)[that := fst s], shared_state = snd s\<rparr>
         | Throw err s \<Rightarrow>
             Throw err \<lparr>entities = (entities w)[that := fst s], shared_state = snd s\<rparr>)
      else Ok w)"

text \<open>
  Drawing what the slot holds on a canvas of its size and reading the pixels back (lines
  412-423): a TypeError unless the slot holds an image, an IndexSizeError when the image has
  no area.
\<close>

definition decodeHeightmap :: "shared \<Rightarrow> hm_slot option \<Rightarrow> error + (nat \<times> 8 word list)" where
  "decodeHeightmap sh slot =
     (case slot of
        Some (HmImage i) \<Rightarrow>
          (if i < length (images sh) then
             (if img_width (images sh ! i) = 0 \<or> img_height (images sh ! i) = 0
              then Inl IndexSizeError
              else Inr (i, img_pixels (images sh ! i)))
           else Inl TypeError)
      | _ \<Rightarrow> Inl TypeError)"

text \<open>
  \<open>onLoad\<close> of \<open>loadHeightmap_\<close> up to its call of \<open>this.cache.set\<close> (lines 411-438): the
  decoded data and the key are stored in the entity, a reference is added when the cache has
  the key, and the loaded payload is \<open>set\<close> under the key.
\<close>

definition heightmapDecoded :: "nat \<Rightarrow> string \<Rightarrow> ctx \<Rightarrow> ctx result" where
  "heightmapDecoded index heightmapKey s =
     attempt (slot_read (heightmaps (fst s)) index) s (\<lambda>slot.
     attempt (decodeHeightmap (snd s) slot) s (\<lambda>dec.
     attempt (slot_write (heightmapData (fst s)) index (DataPixels (snd dec))) s (\<lambda>hds.
       let e1 = (fst s)\<lparr>heightmapData := hds,
                        heightmapKeys := js_set (heightmapKeys (fst s)) index heightmapKey\<rparr>;
           sh = snd s
       in bind (if cache_has (cache sh) heightmapKey
                then attempt (cache_addRef (cache sh) heightmapKey) (e1, sh) (\<lambda>c1.
                       Ok (e1, sh\<lparr>cache := c1\<rparr>))
                else Ok (e1, sh))
            (\<lambda>s1. attempt (cache_set (cache (snd s1)) heightmapKey
                              (HeightmapPayload (fst dec) (Some (snd dec)) [])) s1 (\<lambda>c2.
                     Ok (fst s1, (snd s1)\<lparr>cache := c2\<rparr>))))))"

text \<open>The notifiers that \<open>onLoad\<close> reads from the entry before it replaces it (line 430).\<close>

definition pendingNotifiers :: "cache \<Rightarrow> string \<Rightarrow> notifier list" where
  "pendingNotifiers c k =
     (case c k of
        None \<Rightarrow> []
      | Some en \<Rightarrow>
          (case ce_payload en of
             HeightmapPayload img d ns \<Rightarrow> ns
           | GeometryPayload g \<Rightarrow> []))"

text \<open>The body of a notifier (lines 460-464), run on the entity that registered it.\<close>

fun runNotifier :: "host \<Rightarrow> 8 word list \<Rightarrow> notifier \<Rightarrow> world \<Rightarrow> world result" where
  "runNotifier h data (Notifier that index callback) w =
     on_entity that
       (\<lambda>s. attempt (slot_write (heightmapData (fst s)) index (DataPixels data)) s (\<lambda>hds.
               runCallback h that callback ((fst s)\<lparr>heightmapData := hds\<rparr>, snd s))) w"

fun runNotifiers :: "host \<Rightarrow> 8 word list \<Rightarrow> notifier list \<Rightarrow> world \<Rightarrow> world result" where
  "runNotifiers h data [] w = Ok w"
| "runNotifiers h data (n # ns) w = bind (runNotifier h data n w) (runNotifiers h data ns)"

text \<open>\<open>onLoad\<close> of \<open>loadHeightmap_\<close> (lines 411-444), the completion of a decode.\<close>

definition heightmapOnLoad ::
  "host \<Rightarrow> nat \<Rightarrow> nat \<Rightarrow> string \<Rightarrow> callback \<Rightarrow> world \<Rightarrow> world result" where
  "heightmapOnLoad h that index heightmapKey callback w =
     (if that < length (entities w) then
        (let sh = shared_state w;
             notifiers = pendingNotifiers (cache sh) heightmapKey;
             data = (case slot_read (heightmaps (entities w ! that)) index of
                       Inl err \<Rightarrow> []
                     | Inr slot \<Rightarrow>
                         (case decodeHeightmap sh slot of
                            Inl err \<Rightarrow> [] | Inr dec \<Rightarrow> snd dec))
         in bind (on_entity that (heightmapDecoded index heightmapKey) w) (\<lambda>w1.
            bind (runNotifiers h data notifiers w1) (\<lambda>w2.
            on_entity that (runCallback h that callback) w2)))
      else Ok w)"

fun runListener :: "host \<Rightarrow> listener \<Rightarrow> world \<Rightarrow> world result" where
  "runListener h (HeightmapOnLoad that index k callback) w =
     heightmapOnLoad h that index k callback w"
| "runListener h (ImageOnLoad that) w = on_entity that (imageOnLoad h) w"

fun runListeners :: "host \<Rightarrow> listener list \<Rightarrow> world \<Rightarrow> world result" where
  "runListeners h [] w = Ok w"
| "runListeners h (l # ls) w = bind (runListener h l w) (runListeners h ls)"

text \<open>
  The browser has loaded image \<open>i\<close>: the image gets its size and its pixels, and its load
  listeners run.
\<close>

definition imageLoaded :: "host \<Rightarrow> nat \<Rightarrow> nat \<Rightarrow> nat \<Rightarrow> 8 word list \<Rightarrow> world \<Rightarrow> world result" where
  "imageLoaded h i width height pixels w =
     (if i < length (images (shared_state w)) then
        (let sh = shared_state w;
             img = (images sh ! i)\<lparr>img_width := width, img_height := height,
                                   img_pixels := pixels\<rparr>
         in runListeners h (img_listeners img)
              (w\<lparr>shared_state := sh\<lparr>images := (images sh)[i := img]\<rparr>\<rparr>))
      else Ok w)"

subsection \<open>Construction\<close>

text \<open>
  The options of the constructor. An absent string option is the empty string, an absent
  number or boolean is \<open>None\<close>; \<open>o_stencil\<close> tells whether the host gives the model a
  stencil view.
\<close>

record options =
  o_element :: "element option"
  o_imageSrc :: string
  o_heightmap :: string
  o_heightmap2 :: string
  o_heightmap3 :: string
  o_heightmap4 :: string
  o_maxHeight :: "jsnum option"
  o_geometryStyle :: string
  o_transparent :: "bool option"
  o_stencil :: bool

definition initialize :: "host \<Rightarrow> options \<Rightarrow> error + entity" where
  "initialize h opts =
     (case o_element opts of
        None \<Rightarrow> Inl (AssertionFailed ''element must be valid.'')
      | Some el \<Rightarrow>
          (if o_heightmap opts = [] then Inl (AssertionFailed ''heightmap must be valid.'')
           else if (case o_maxHeight opts of None \<Rightarrow> False | Some mh \<Rightarrow> \<not> jge mh (Fin 0))
           then Inl (AssertionFailed ''maxHeight must be >= 0.'')
           else
             (let url = (\<lambda>u. if u = [] then [] else getAbsoluteUrl h u) in
              Inr \<lparr>element = el,
                   imageSrc = Some (if o_imageSrc opts \<noteq> []
                                    then getAbsoluteUrl h (o_imageSrc opts)
                                    else getAbsoluteUrl h (el_src el)),
                   heightSources =
                     [0 \<mapsto> url (o_heightmap opts), 1 \<mapsto> url (o_heightmap2 opts),
                      2 \<mapsto> url (o_heightmap3 opts), 3 \<mapsto> url (o_heightmap4 opts)],
                   heightmapKeys = [Some [], Some [], Some [], Some []],
                   maxHeight = (case o_maxHeight opts of None \<Rightarrow> Fin 200 | Some mh \<Rightarrow> mh),
                   geometryStyle = (if o_geometryStyle opts \<noteq> [] then o_geometryStyle opts
                                    else ''smooth''),
                   transparent = (case o_transparent opts of None \<Rightarrow> True | Some t \<Rightarrow> t),
                   morphing = False,
                   morphStartTime = 0,
                   morphDuration = Fin 0,
                   morphElapsed = 0,
                   startMorphTargets = [Fin 1, Fin 0, Fin 0, Fin 0],
                   currentMorphTargets = [Fin 1, Fin 0, Fin 0, Fin 0],
                   endMorphTargets = [Fin 1, Fin 0, Fin 0, Fin 0],
                   heightmaps = None,
                   heightmapData = None,
                   heightmapWidth = None,
                   heightmapHeight = None,
                   image = None,
                   geometryKey = [],
                   geometry = None,
                   loaded = False,
                   view = view_load,
                   stencilView = (if o_stencil opts then Some view_load else None),
                   events = [],
                   numLoaded = 0,
                   numToLoad = 0\<rparr>)))"


section \<open>Example inputs\<close>

text \<open>A host whose URLs are absolute already and whose numbers print as integers.\<close>

definition exampleHost :: host where
  "exampleHost =
     \<lparr>getAbsoluteUrl = (\<lambda>u. u),
      numberToString = (\<lambda>n. case n of Fin q \<Rightarrow> show_int \<lfloor>q\<rfloor> | PInf \<Rightarrow> ''Infinity''
                               | NInf \<Rightarrow> ''-Infinity'' | NaN \<Rightarrow> ''NaN'')\<rparr>"

definition emptyShared :: shared where
  "emptyShared = \<lparr>images = [], cache = Map.empty, viewCache = Map.empty,
                  stencilCache = Map.empty\<rparr>"

definition exampleOptions :: options where
  "exampleOptions =
     \<lparr>o_element = Some \<lparr>el_tagName = ''IMG'', el_src = ''t.png''\<rparr>,
      o_imageSrc = [], o_heightmap = ''a.png'', o_heightmap2 = ''b.png'',
      o_heightmap3 = [], o_heightmap4 = [], o_maxHeight = None, o_geometryStyle = [],
      o_transparent = None, o_stencil = False\<rparr>"

text \<open>The entity that \<open>initialize\<close> makes of these options.\<close>

definition exampleEntity :: entity where
  "exampleEntity =
     \<lparr>element = \<lparr>el_tagName = ''IMG'', el_src = ''t.png''\<rparr>,
      imageSrc = Some ''t.png'',
      heightSources = [0 \<mapsto> ''a.png'', 1 \<mapsto> ''b.png'', 2 \<mapsto> [], 3 \<mapsto> []],
      heightmapKeys = [Some [], Some [], Some [], Some []],
      maxHeight = Fin 200,
      geometryStyle = ''smooth'',
      transparent = True,
      morphing = False,
      morphStartTime = 0,
      morphDuration = Fin 0,
      morphElapsed = 0,
      startMorphTargets = [Fin 1, Fin 0, Fin 0, Fin 0],
      currentMorphTargets = [Fin 1, Fin 0, Fin 0, Fin 0],
      endMorphTargets = [Fin 1, Fin 0, Fin 0, Fin 0],
      heightmaps = None,
      heightmapData = None,
      heightmapWidth = None,
      heightmapHeight = None,
      image = None,
      geometryKey = [],
      geometry = None,
      loaded = False,
      view = view_load,
      stencilView = None,
      events = [],
      numLoaded = 0,
      numToLoad = 0\<rparr>"


text \<open>
  \<open>update\<close> first copies a changed \<open>src\<close> of an \<open>img\<close> element into the model (lines
  294-297); \<open>syncNeeded\<close> is the condition of that step.
\<close>

definition syncNeeded :: "entity \<Rightarrow> bool" where
  "syncNeeded e =
     (toLowerCase (el_tagName (element e)) = ''img'' \<and> Some (el_src (element e)) \<noteq> imageSrc e)"

text \<open>The example entity after \<open>morph(2, 2)\<close> at time 0: a transition of 2000 ms towards the
  second target.\<close>

definition morphingEntity :: entity where
  "morphingEntity = fst (state_of (morph (Fin 2) (Fin 2) 0 (exampleEntity, emptyShared)))"


section \<open>Counting what the builders write\<close>

text \<open>An array whose first \<open>n\<close> elements are written: the state of an array that a loop
  fills through a running index.\<close>

definition filled_upto :: "'a jsarray \<Rightarrow> nat \<Rightarrow> bool" where
  "filled_upto xs n = (n \<le> length xs \<and> (\<forall>k<n. xs ! k \<noteq> None))"

text \<open>The three arrays of the block builder are filled up to their running indices.\<close>

definition block_wf :: "block_st \<Rightarrow> bool" where
  "block_wf s =
     (filled_upto (bs_vertices s) (bs_vertexIdx s) \<and>
      filled_upto (bs_faces s) (bs_faceIdx s) \<and>
      filled_upto (bs_uvs s) (bs_uvIdx s))"

text \<open>
  The depth of texel \<open>(x, y)\<close> of a heightmap of width \<open>w\<close>, as section 4.3 of the design
  samples it: \<open>getDepth_\<close> at the texel's offset in the row-major RGBA buffer.
\<close>

definition texelDepth :: "jsnum \<Rightarrow> data_slot \<Rightarrow> nat \<Rightarrow> nat \<Rightarrow> nat \<Rightarrow> jsnum" where
  "texelDepth mh d w x y = getDepth mh d (4 * (y * w + x))"

text \<open>
  The four sides of a texel, and the depth of the neighbour on a side; the neighbour of a
  texel on the border, outside the grid, has depth 0.
\<close>

datatype side = LeftSide | RightSide | TopSide | BottomSide

definition onBorder :: "nat \<Rightarrow> nat \<Rightarrow> side \<Rightarrow> nat \<Rightarrow> nat \<Rightarrow> bool" where
  "onBorder w h sd x y =
     (case sd of
        LeftSide \<Rightarrow> x = 0
      | RightSide \<Rightarrow> x + 1 = w
      | TopSide \<Rightarrow> y = 0
      | BottomSide \<Rightarrow> y + 1 = h)"

definition neighbourDepth ::
  "jsnum \<Rightarrow> data_slot \<Rightarrow> nat \<Rightarrow> nat \<Rightarrow> side \<Rightarrow> nat \<Rightarrow> nat \<Rightarrow> jsnum" where
  "neighbourDepth mh d w h sd x y =
     (case sd of
        LeftSide \<Rightarrow> if 0 < x then texelDepth mh d w (x - 1) y else Fin 0
      | RightSide \<Rightarrow> if x + 1 < w then texelDepth mh d w (x + 1) y else Fin 0
      | TopSide \<Rightarrow> if 0 < y then texelDepth mh d w x (y - 1) else Fin 0
      | BottomSide \<Rightarrow> if y + 1 < h then texelDepth mh d w x (y + 1) else Fin 0)"

text \<open>
  The rule of section 4.3 of the design: the side quad of a texel on a side is emitted when
  the neighbour's depth on that side is strictly less than the texel's.
\<close>

definition sideEmitted ::
  "jsnum \<Rightarrow> data_slot \<Rightarrow> nat \<Rightarrow> nat \<Rightarrow> side \<Rightarrow> nat \<Rightarrow> nat \<Rightarrow> bool" where
  "sideEmitted mh d w h sd x y =
     jgt (texelDepth mh d w x y) (neighbourDepth mh d w h sd x y)"

text \<open>The number of sides of texel \<open>(x, y)\<close> whose quad is emitted.\<close>

definition sideQuads :: "jsnum \<Rightarrow> data_slot \<Rightarrow> nat \<Rightarrow> nat \<Rightarrow> nat \<Rightarrow> nat \<Rightarrow> nat" where
  "sideQuads mh d w h x y =
     length (filter (\<lambda>sd. sideEmitted mh d w h sd x y)
               [LeftSide, RightSide, TopSide, BottomSide])"

text \<open>
  The quads of a texel as geometry. Grid line \<open>k\<close> of \<open>n\<close> lies at \<open>k * (1 / n)\<close>. The front
  quad has the texel's four corners at the texel's depth, in the order \<open>(x1, y1)\<close>,
  \<open>(x2, y1)\<close>, \<open>(x2, y2)\<close>, \<open>(x1, y2)\<close>, and two triangles on them; \<open>j\<close> is the index of its first vertex. The quad of a side has the
  two corners of that side's edge at the neighbour's depth, and two triangles that join
  them (at the indices \<open>v\<close> and \<open>v + 1\<close>) to the two front vertices of the same edge.
\<close>

definition gridLine :: "nat \<Rightarrow> nat \<Rightarrow> jsnum" where
  "gridLine n k = jmul (num k) (jdiv (Fin 1) (num n))"

definition frontVertices :: "jsnum \<Rightarrow> data_slot \<Rightarrow> nat \<Rightarrow> nat \<Rightarrow> nat \<Rightarrow> nat \<Rightarrow> vec3 list" where
  "frontVertices mh d w h x y =
     (let dp = texelDepth mh d w x y;
          x1 = gridLine w x; x2 = gridLine w (x + 1);
          y1 = gridLine h y; y2 = gridLine h (y + 1)
      in [Vector3 x1 y1 dp, Vector3 x2 y1 dp, Vector3 x2 y2 dp, Vector3 x1 y2 dp])"

definition frontFaces :: "nat \<Rightarrow> face3 list" where
  "frontFaces j = [Face3 j (j + 1) (j + 2), Face3 j (j + 2) (j + 3)]"

definition wallVertices ::
  "jsnum \<Rightarrow> data_slot \<Rightarrow> nat \<Rightarrow> nat \<Rightarrow> side \<Rightarrow> nat \<Rightarrow> nat \<Rightarrow> vec3 list" where
  "wallVertices mh d w h sd x y =
     (let dn = neighbourDepth mh d w h sd x y;
          x1 = gridLine w x; x2 = gridLine w (x + 1);
          y1 = gridLine h y; y2 = gridLine h (y + 1)
      in case sd of
           LeftSide \<Rightarrow> [Vector3 x1 y1 dn, Vector3 x1 y2 dn]
         | RightSide \<Rightarrow> [Vector3 x2 y1 dn, Vector3 x2 y2 dn]
         | TopSide \<Rightarrow> [Vector3 x1 y1 dn, Vector3 x2 y1 dn]
         | BottomSide \<Rightarrow> [Vector3 x1 y2 dn, Vector3 x2 y2 dn])"

definition wallFaces :: "side \<Rightarrow> nat \<Rightarrow> nat \<Rightarrow> face3 list" where
  "wallFaces sd j v =
     (case sd of
        LeftSide \<Rightarrow> [Face3 j (j + 3) (v + 1), Face3 j (v + 1) v]
      | RightSide \<Rightarrow> [Face3 (j + 2) (j + 1) v, Face3 (j + 2) v (v + 1)]
      | TopSide \<Rightarrow> [Face3 (j + 1) j v, Face3 (j + 1) v (v + 1)]
      | BottomSide \<Rightarrow> [Face3 (j + 3) (j + 2) (v + 1), Face3 (j + 3) (v + 1) v])"

text \<open>
  The vertices and faces of a block geometry as section 4.3 of the design describes them,
  as two sequences: for every texel in row-major order the front quad, then the quad of
  each side, in the order left, right, top, bottom, on which it is emitted.
\<close>

definition sideQuad ::
  "jsnum \<Rightarrow> data_slot \<Rightarrow> nat \<Rightarrow> nat \<Rightarrow> nat \<Rightarrow> nat \<Rightarrow> nat \<Rightarrow> side \<Rightarrow>
   vec3 list \<times> face3 list \<Rightarrow> vec3 list \<times> face3 list" where
  "sideQuad mh d w h x y j sd q =
     (if sideEmitted mh d w h sd x y
      then (fst q @ wallVertices mh d w h sd x y, snd q @ wallFaces sd j (length (fst q)))
      else q)"

definition texelQuads ::
  "jsnum \<Rightarrow> data_slot \<Rightarrow> nat \<Rightarrow> nat \<Rightarrow> nat \<Rightarrow> nat \<Rightarrow>
   vec3 list \<times> face3 list \<Rightarrow> vec3 list \<times> face3 list" where
  "texelQuads mh d w h y x q =
     (let j = length (fst q) in
      fold (sideQuad mh d w h x y j) [LeftSide, RightSide, TopSide, BottomSide]
        (fst q @ frontVertices mh d w h x y, snd q @ frontFaces j))"

definition blockQuads :: "jsnum \<Rightarrow> data_slot \<Rightarrow> nat \<Rightarrow> nat \<Rightarrow> vec3 list \<times> face3 list" where
  "blockQuads mh d w h = for_upto h (\<lambda>y. for_upto w (texelQuads mh d w h y)) ([], [])"

text \<open>What the block builder has written so far, as sequences.\<close>

definition bs_written :: "block_st \<Rightarrow> vec3 list \<times> face3 list" where
  "bs_written s =
     (map the (take (bs_vertexIdx s) (bs_vertices s)),
      map the (take (bs_faceIdx s) (bs_faces s)))"

text \<open>Heightmaps of 2 by 2 texels: a varied one, an all-white one, an all-black one.\<close>

definition examplePixels :: "8 word list" where
  "examplePixels = [0,0,0,255, 255,255,255,255, 51,51,51,255, 30,60,90,255]"

definition whitePixels :: "8 word list" where "whitePixels = replicate 16 255"

definition blackPixels :: "8 word list" where "blackPixels = replicate 16 0"

text \<open>The example entity once two heightmaps of 2 by 2 texels and a texture have loaded.\<close>

definition builtEntity :: entity where
  "builtEntity = exampleEntity\<lparr>heightmapWidth := Some 2, heightmapHeight := Some 2,
      heightmaps := Some [Some (HmImage 0), Some (HmImage 1)],
      heightmapData := Some [Some (DataPixels examplePixels), Some (DataPixels whitePixels)],
      image := Some 2\<rparr>"

section \<open>Example states of the load path\<close>

text \<open>The error an operation has thrown, if any.\<close>

fun error_of :: "'a result \<Rightarrow> error option" where
  "error_of (Ok s) = None"
| "error_of (Throw err s) = Some err"

text \<open>A page with the example entity alone, nothing loaded and nothing cached.\<close>

definition world0 :: world where
  "world0 = \<lparr>entities = [exampleEntity], shared_state = emptyShared\<rparr>"

text \<open>
  A cache that holds both sources of the example entity fully loaded: \<open>a.png\<close> decoded from
  an image of 2 by 2 pixels, \<open>b.png\<close> from an image of 3 by 3 pixels.
\<close>

definition cachedShared :: shared where
  "cachedShared = emptyShared\<lparr>
     images := [newImage\<lparr>img_src := ''a.png'', img_width := 2, img_height := 2,
                         img_pixels := examplePixels\<rparr>,
                newImage\<lparr>img_src := ''b.png'', img_width := 3, img_height := 3,
                         img_pixels := replicate 36 255\<rparr>],
     cache := [''a.png'' \<mapsto> \<lparr>ce_payload = HeightmapPayload 0 (Some examplePixels) [],
                               ce_refcount = 1\<rparr>,
               ''b.png'' \<mapsto> \<lparr>ce_payload = HeightmapPayload 1 (Some (replicate 36 255)) [],
                               ce_refcount = 1\<rparr>]\<rparr>"

definition cachedWorld :: world where
  "cachedWorld = \<lparr>entities = [exampleEntity], shared_state = cachedShared\<rparr>"

section \<open>Basic facts\<close>

lemma toLowerCase_IMG: "toLowerCase ''IMG'' = ''img''"
  by code_simp

lemma initialize_example: "initialize exampleHost exampleOptions = Inr exampleEntity"
  by (simp add: initialize_def exampleHost_def exampleOptions_def exampleEntity_def)

lemma views_do_fields [simp]:
  "currentMorphTargets (views_do f e) = currentMorphTargets e"
  "startMorphTargets (views_do f e) = startMorphTargets e"
  "endMorphTargets (views_do f e) = endMorphTargets e"
  "morphing (views_do f e) = morphing e"
  "morphDuration (views_do f e) = morphDuration e"
  "morphElapsed (views_do f e) = morphElapsed e"
  "morphStartTime (views_do f e) = morphStartTime e"
  "events (views_do f e) = events e"
  "view (views_do f e) = f (view e)"
  "stencilView (views_do f e) = map_option f (stencilView e)"
  by (simp_all add: views_do_def)

section \<open>The morph animator\<close>

lemma morph_index_zero:
  "morph (Fin 0) (Fin 0) now (e, sh) =
     Ok (views_do (view_setMorphTargetInfluences [Fin 0, Fin 0, Fin 0, Fin 0])
          (e\<lparr>startMorphTargets := [Fin 0, Fin 0, Fin 0, Fin 0],
             endMorphTargets := [Fin 0, Fin 0, Fin 0, Fin 0],
             currentMorphTargets := [Fin 0, Fin 0, Fin 0, Fin 0],
             morphing := False, morphDuration := Fin 0, morphElapsed := 0\<rparr>), sh)"
  by (simp add: morph_def bind_def js_assert_def jge_def jlt_def jsub_def store_weight_def
      Let_def)

text \<open>
  C7. \<open>morph\<close> asserts \<open>index >= 0 && index < 4\<close> and then stores the weight at
  \<open>index - 1\<close>. Index 0 passes the assertion; the store goes to the property \<open>-1\<close>, which
  is no element of the array, so \<open>morph(0, 0)\<close> returns normally and leaves the three
  weight vectors all zero: there is no one-hot vector.
\<close>

theorem morph_index_zero_all_zero:
  "is_ok (morph (Fin 0) (Fin 0) now (e, sh)) \<and>
   startMorphTargets (fst (state_of (morph (Fin 0) (Fin 0) now (e, sh))))
     = [Fin 0, Fin 0, Fin 0, Fin 0] \<and>
   endMorphTargets (fst (state_of (morph (Fin 0) (Fin 0) now (e, sh))))
     = [Fin 0, Fin 0, Fin 0, Fin 0] \<and>
   currentMorphTargets (fst (state_of (morph (Fin 0) (Fin 0) now (e, sh))))
     = [Fin 0, Fin 0, Fin 0, Fin 0]"
  by (simp add: morph_index_zero)


lemma lerpWeights_nth:
  assumes "length (currentMorphTargets e) = 4" "length (startMorphTargets e) = 4"
    "length (endMorphTargets e) = 4" "i < 4"
  shows "lerpWeights t e ! i =
           jadd (jmul (startMorphTargets e ! i) (jsub (Fin 1) t)) (jmul (endMorphTargets e ! i) t)"
  using assms
  by (auto simp add: lerpWeights_def Let_def eval_nat_numeral weight_at_def nth_list_update less_Suc_eq)

lemma lerpWeights_length:
  "length (lerpWeights t e) = length (currentMorphTargets e)"
proof -
  have "\<And>f xs. length (for_upto n (\<lambda>i cur. cur[i := f i]) xs) = length xs" for n
    by (induction n) simp_all
  then show ?thesis by (simp add: lerpWeights_def Let_def)
qed

lemma setImageSrc_ok:
  assumes "u \<noteq> []"
  shows "\<exists>e' sh'. setImageSrc h that u (e, sh) = Ok (e', sh') \<and>
          morphing e' = morphing e \<and> morphStartTime e' = morphStartTime e \<and>
          morphDuration e' = morphDuration e \<and> morphElapsed e' = morphElapsed e \<and>
          startMorphTargets e' = startMorphTargets e \<and>
          currentMorphTargets e' = currentMorphTargets e \<and>
          endMorphTargets e' = endMorphTargets e \<and>
          view e' = view e \<and> stencilView e' = stencilView e \<and>
          (events e' = events e \<or> events e' = events e @ [''changeImageSrc''])"
  using assms
  by (simp add: setImageSrc_def bind_def js_assert_def Let_def)

lemma update_loaded:
  assumes "loaded e" "syncNeeded e \<longrightarrow> el_src (element e) \<noteq> []"
  shows "\<exists>e1 sh1. update h that now (e, sh) = Ok (updateMorph now e1, sh1) \<and>
          morphing e1 = morphing e \<and> morphStartTime e1 = morphStartTime e \<and>
          morphDuration e1 = morphDuration e \<and> morphElapsed e1 = morphElapsed e \<and>
          startMorphTargets e1 = startMorphTargets e \<and>
          currentMorphTargets e1 = currentMorphTargets e \<and>
          endMorphTargets e1 = endMorphTargets e \<and>
          view e1 = view e \<and> stencilView e1 = stencilView e \<and>
          (events e1 = events e \<or> events e1 = events e @ [''changeImageSrc''])"
proof (cases "syncNeeded e")
  case True
  with assms have u: "el_src (element e) \<noteq> []" by simp
  from setImageSrc_ok[OF u, of h that e sh] obtain e' sh' where
    "setImageSrc h that (el_src (element e)) (e, sh) = Ok (e', sh')"
    and rest: "morphing e' = morphing e \<and> morphStartTime e' = morphStartTime e \<and>
          morphDuration e' = morphDuration e \<and> morphElapsed e' = morphElapsed e \<and>
          startMorphTargets e' = startMorphTargets e \<and>
          currentMorphTargets e' = currentMorphTargets e \<and>
          endMorphTargets e' = endMorphTargets e \<and>
          view e' = view e \<and> stencilView e' = stencilView e \<and>
          (events e' = events e \<or> events e' = events e @ [''changeImageSrc''])" by blast
  with True assms(1) have "update h that now (e, sh) = Ok (updateMorph now e', sh')"
    by (simp add: update_def syncNeeded_def bind_def)
  with rest show ?thesis by blast
next
  case False
  with assms(1) have "update h that now (e, sh) = Ok (updateMorph now e, sh)"
    by (auto simp add: update_def syncNeeded_def bind_def)
  then show ?thesis by blast
qed

lemma morphingEntity_eq:
  "morphingEntity = exampleEntity\<lparr>startMorphTargets := [Fin 1, Fin 0, Fin 0, Fin 0],
      endMorphTargets := [Fin 0, Fin 1, Fin 0, Fin 0], morphDuration := Fin 2000,
      morphStartTime := 0, morphElapsed := 0, morphing := True, events := [''morphBegin'']\<rparr>"
  by (simp add: morphingEntity_def morph_def bind_def js_assert_def jge_def jlt_def jsub_def
      store_weight_def Let_def exampleEntity_def)

text \<open>
  C3 (as amended). While the animator is morphing, an update tick of a loaded model (whose
  image-source step, if it runs, is given a non-empty source) returns normally, having
  computed \<open>t\<close> as the elapsed time over the duration. If \<open>t > 1\<close> the current and the start
  weights are the end weights, the morphing flag is off, the end weights are pushed to the
  views and \<open>morphEnd\<close> is the last event dispatched. Otherwise each of the four current
  weights is \<open>start * (1 - t) + end * t\<close> (the mean of the two at \<open>t = 1/2\<close>), the flag stays
  on and the current weights are pushed to the views.
\<close>

theorem update_tick_loaded:
  assumes "loaded e" and "morphing e"
    and "syncNeeded e \<longrightarrow> el_src (element e) \<noteq> []"
    and "length (startMorphTargets e) = 4" and "length (currentMorphTargets e) = 4"
    and "length (endMorphTargets e) = 4"
  shows "\<exists>e' sh'. update h that now (e, sh) = Ok (e', sh') \<and>
     (let t = jdiv (numi (now - morphStartTime e)) (morphDuration e) in
      if jgt t (Fin 1) then
        currentMorphTargets e' = endMorphTargets e \<and>
        startMorphTargets e' = endMorphTargets e \<and>
        endMorphTargets e' = endMorphTargets e \<and>
        \<not> morphing e' \<and>
        view e' = view_setMorphTargetInfluences (endMorphTargets e) (view e) \<and>
        stencilView e' =
          map_option (view_setMorphTargetInfluences (endMorphTargets e)) (stencilView e) \<and>
        (events e' = events e @ [''morphEnd''] \<or>
         events e' = events e @ [''changeImageSrc'', ''morphEnd''])
      else
        length (currentMorphTargets e') = 4 \<and>
        (\<forall>i<4. currentMorphTargets e' ! i =
                  jadd (jmul (startMorphTargets e ! i) (jsub (Fin 1) t))
                       (jmul (endMorphTargets e ! i) t)) \<and>
        (t = Fin (1/2) \<longrightarrow>
           (\<forall>i<4. \<forall>a b. startMorphTargets e ! i = Fin a \<and> endMorphTargets e ! i = Fin b \<longrightarrow>
                      currentMorphTargets e' ! i = Fin ((a + b) / 2))) \<and>
        startMorphTargets e' = startMorphTargets e \<and>
        endMorphTargets e' = endMorphTargets e \<and>
        morphing e' \<and>
        view e' = view_setMorphTargetInfluences (currentMorphTargets e') (view e) \<and>
        stencilView e' =
          map_option (view_setMorphTargetInfluences (currentMorphTargets e')) (stencilView e) \<and>
        (events e' = events e \<or> events e' = events e @ [''changeImageSrc'']))"
proof -
  from update_loaded[OF assms(1) assms(3), of h that now sh] obtain e1 sh1 where
    u: "update h that now (e, sh) = Ok (updateMorph now e1, sh1)"
    and f: "morphing e1 = morphing e" "morphStartTime e1 = morphStartTime e"
      "morphDuration e1 = morphDuration e" "morphElapsed e1 = morphElapsed e"
      "startMorphTargets e1 = startMorphTargets e"
      "currentMorphTargets e1 = currentMorphTargets e"
      "endMorphTargets e1 = endMorphTargets e"
      "view e1 = view e" "stencilView e1 = stencilView e"
    and ev: "events e1 = events e \<or> events e1 = events e @ [''changeImageSrc'']"
    by blast
  define t where "t = jdiv (numi (now - morphStartTime e)) (morphDuration e)"
  have len1: "length (currentMorphTargets e1) = 4" "length (startMorphTargets e1) = 4"
    "length (endMorphTargets e1) = 4" using assms f by simp_all
  have nth: "\<And>i. i < 4 \<Longrightarrow> lerpWeights t e1 ! i =
      jadd (jmul (startMorphTargets e ! i) (jsub (Fin 1) t)) (jmul (endMorphTargets e ! i) t)"
    using lerpWeights_nth[OF len1] f by simp
  have half: "\<And>a b. jadd (jmul (Fin a) (jsub (Fin 1) (Fin (1/2)))) (jmul (Fin b) (Fin (1/2)))
       = Fin ((a + b) / 2)"
    by (simp add: jsub_def field_simps)
  show ?thesis
  proof (cases "jgt t (Fin 1)")
    case True
    then show ?thesis using u f ev assms(2)
      by (auto simp add: updateMorph_def Let_def t_def)
  next
    case False
    have "length (lerpWeights t e1) = 4" using len1 by (simp add: lerpWeights_length)
    then show ?thesis using False u f ev assms(2) nth half
      by (auto simp add: updateMorph_def Let_def t_def[symmetric])
  qed
qed

text \<open>
  C3 as stated fails before the model is loaded: \<open>update\<close> returns at once (line 291). The
  example entity, morphing since time 0 for 2000 ms and not loaded, is unchanged by a tick
  at time 3000, where \<open>t = 1.5\<close>: it is still morphing, its current weights are not the end
  weights, and no \<open>morphEnd\<close> was dispatched.
\<close>

theorem update_not_loaded_counterexample:
  "morphing morphingEntity \<and>
   jgt (jdiv (numi (3000 - morphStartTime morphingEntity)) (morphDuration morphingEntity)) (Fin 1) \<and>
   update exampleHost 0 3000 (morphingEntity, emptyShared) = Ok (morphingEntity, emptyShared) \<and>
   currentMorphTargets morphingEntity \<noteq> endMorphTargets morphingEntity \<and>
   ''morphEnd'' \<notin> set (events morphingEntity)"
  by (simp add: morphingEntity_eq exampleEntity_def update_def numi_def)

text \<open>A tick at \<open>t = 1/2\<close> of the loaded example: the weights are the mean of
  \<open>[1,0,0,0]\<close> and \<open>[0,1,0,0]\<close>.\<close>

theorem update_tick_loaded_witness:
  "loaded (morphingEntity\<lparr>loaded := True\<rparr>) \<and> morphing (morphingEntity\<lparr>loaded := True\<rparr>) \<and>
   (\<exists>e' sh'. update exampleHost 0 1000 (morphingEntity\<lparr>loaded := True\<rparr>, emptyShared) = Ok (e', sh') \<and>
      currentMorphTargets e' = [Fin (1/2), Fin (1/2), Fin 0, Fin 0] \<and> morphing e')"
proof -
  let ?e = "morphingEntity\<lparr>loaded := True\<rparr>"
  have h1: "loaded ?e" by simp
  have h2: "morphing ?e" by (simp add: morphingEntity_eq)
  have s: "syncNeeded ?e \<longrightarrow> el_src (element ?e) \<noteq> []"
    by (simp add: syncNeeded_def morphingEntity_eq exampleEntity_def toLowerCase_IMG)
  have h4: "length (startMorphTargets ?e) = 4" by (simp add: morphingEntity_eq)
  have h5: "length (currentMorphTargets ?e) = 4"
    by (simp add: morphingEntity_eq exampleEntity_def)
  have h6: "length (endMorphTargets ?e) = 4" by (simp add: morphingEntity_eq)
  have t: "jdiv (numi (1000 - morphStartTime ?e)) (morphDuration ?e) = Fin (1/2)"
    by (simp add: morphingEntity_eq exampleEntity_def numi_def)
  have st: "startMorphTargets ?e = [Fin 1, Fin 0, Fin 0, Fin 0]"
    and en: "endMorphTargets ?e = [Fin 0, Fin 1, Fin 0, Fin 0]"
    by (simp_all add: morphingEntity_eq)
  from update_tick_loaded[OF h1 h2 s h4 h5 h6, of exampleHost 0 1000 emptyShared]
  have "\<exists>e' sh'. update exampleHost 0 1000 (?e, emptyShared) = Ok (e', sh') \<and>
          length (currentMorphTargets e') = 4 \<and>
          (\<forall>i<4. currentMorphTargets e' ! i =
                  jadd (jmul ([Fin 1, Fin 0, Fin 0, Fin 0] ! i) (jsub (Fin 1) (Fin (1/2))))
                       (jmul ([Fin 0, Fin 1, Fin 0, Fin 0] ! i) (Fin (1/2)))) \<and>
          morphing e'"
    unfolding Let_def t st en by auto
  then obtain e' sh' where
    u: "update exampleHost 0 1000 (?e, emptyShared) = Ok (e', sh')"
    and r: "length (currentMorphTargets e') = 4"
       "\<forall>i<4. currentMorphTargets e' ! i =
                  jadd (jmul ([Fin 1, Fin 0, Fin 0, Fin 0] ! i) (jsub (Fin 1) (Fin (1/2))))
                       (jmul ([Fin 0, Fin 1, Fin 0, Fin 0] ! i) (Fin (1/2)))"
       "morphing e'"
    by blast
  have "currentMorphTargets e' = [Fin (1/2), Fin (1/2), Fin 0, Fin 0]"
  proof (rule nth_equalityI)
    show "length (currentMorphTargets e') = length [Fin (1/2), Fin (1/2), Fin 0, Fin 0]"
      using r(1) by simp
  next
    fix i assume "i < length (currentMorphTargets e')"
    then have "i < 4" using r(1) by simp
    then have "i = 0 \<or> i = 1 \<or> i = 2 \<or> i = 3" by arith
    then show "currentMorphTargets e' ! i = [Fin (1/2), Fin (1/2), Fin 0, Fin 0] ! i"
      using r(2) by (auto simp add: jsub_def)
  qed
  with u r(3) h1 h2 show ?thesis by blast
qed

text \<open>
  C8. \<open>setMorphing(false)\<close> while morphing records the time elapsed since the start and
  clears the flag, leaving the three weight vectors and the duration as they are;
  \<open>setMorphing(true)\<close> afterwards sets the flag and moves the start time to the time of the
  call minus the recorded elapsed time. The fraction that a later tick computes is then the
  time spent morphing before the pause plus the time since the resume, over the original
  duration: a tick at \<open>t3\<close> after the resume does to the weights, the flag, the events and
  the view what a tick at \<open>t3\<close> minus the length of the pause would have done without the
  pause, so the transition completes after the original duration of morphing.
\<close>

theorem setMorphing_pause_resume:
  assumes "morphing e"
  shows "let p = fst (state_of (setMorphing False t1 (e, sh)));
             r = fst (state_of (setMorphing True t2 (p, sh)))
         in setMorphing False t1 (e, sh) = Ok (p, sh) \<and>
            \<not> morphing p \<and>
            morphElapsed p = t1 - morphStartTime e \<and>
            startMorphTargets p = startMorphTargets e \<and>
            currentMorphTargets p = currentMorphTargets e \<and>
            endMorphTargets p = endMorphTargets e \<and>
            morphDuration p = morphDuration e \<and>
            setMorphing True t2 (p, sh) = Ok (r, sh) \<and>
            morphing r \<and>
            morphStartTime r = t2 - (t1 - morphStartTime e) \<and>
            startMorphTargets r = startMorphTargets e \<and>
            currentMorphTargets r = currentMorphTargets e \<and>
            endMorphTargets r = endMorphTargets e \<and>
            morphDuration r = morphDuration e \<and>
            (\<forall>t3. jdiv (numi (t3 - morphStartTime r)) (morphDuration r) =
                   jdiv (numi ((t1 - morphStartTime e) + (t3 - t2))) (morphDuration e)) \<and>
            (\<forall>t3. morphing (updateMorph t3 r) = morphing (updateMorph (t3 - (t2 - t1)) e) \<and>
                   currentMorphTargets (updateMorph t3 r) =
                     currentMorphTargets (updateMorph (t3 - (t2 - t1)) e) \<and>
                   startMorphTargets (updateMorph t3 r) =
                     startMorphTargets (updateMorph (t3 - (t2 - t1)) e) \<and>
                   events (updateMorph t3 r) = events (updateMorph (t3 - (t2 - t1)) e) \<and>
                   view (updateMorph t3 r) = view (updateMorph (t3 - (t2 - t1)) e))"
proof -
  have a: "\<And>t3. t3 - (t2 - (t1 - morphStartTime e)) = t3 - (t2 - t1) - morphStartTime e"
    by simp
  have b: "\<And>t3. t3 - (t2 - (t1 - morphStartTime e)) = t1 - morphStartTime e + (t3 - t2)"
    by simp
  have l: "\<And>t x y z. lerpWeights t (e\<lparr>morphElapsed := y, morphing := x, morphStartTime := z\<rparr>)
       = lerpWeights t e"
    by (simp add: lerpWeights_def)
  show ?thesis using assms
    apply (simp add: setMorphing_def Let_def)
    apply (intro conjI allI)
        apply (simp add: b)
       apply (simp_all add: updateMorph_def Let_def a l)
    done
qed

text \<open>Paused at 500 ms and resumed at 5000 ms, the example is at 5500 ms where it would
  have been at 1000 ms.\<close>

theorem setMorphing_pause_resume_witness:
  "morphing morphingEntity \<and>
   (let p = fst (state_of (setMorphing False 500 (morphingEntity, emptyShared)));
        r = fst (state_of (setMorphing True 5000 (p, emptyShared)))
    in \<not> morphing p \<and> morphElapsed p = 500 \<and> morphing r \<and> morphStartTime r = 4500 \<and>
       currentMorphTargets (updateMorph 5500 r) = currentMorphTargets (updateMorph 1000 morphingEntity))"
proof -
  have m: "morphing morphingEntity" by (simp add: morphingEntity_eq)
  have s: "morphStartTime morphingEntity = 0" by (simp add: morphingEntity_eq)
  from setMorphing_pause_resume[OF m, of 500 emptyShared 5000]
  show ?thesis using m unfolding Let_def s
    by (auto dest: spec[of _ 5500])
qed

lemma jmul_NaN [simp]: "jmul a NaN = NaN" "jmul NaN a = NaN"
  by (cases a; simp)+

lemma jadd_NaN [simp]: "jadd a NaN = NaN" "jadd NaN a = NaN"
  by (cases a; simp)+

lemma list4_eq:
  assumes "length xs = 4" "\<And>i. i < 4 \<Longrightarrow> xs ! i = v"
  shows "xs = [v, v, v, v]"
proof (rule nth_equalityI)
  show "length xs = length [v, v, v, v]" using assms(1) by simp
next
  fix i assume "i < length xs"
  then have i: "i < 4" using assms(1) by simp
  then have "i = 0 \<or> i = 1 \<or> i = 2 \<or> i = 3" by arith
  then show "xs ! i = [v, v, v, v] ! i" using assms(2)[OF i] by auto
qed

text \<open>
  C10 (as amended). On an idle animator whose duration is 0 (none started, or the last one
  finished), \<open>setMorphing(true)\<close> sets the morphing flag although no transition is in
  progress. The next update tick of a loaded model (whose image-source step, if it runs, is
  given a non-empty source) then divides the elapsed time by this zero duration. With
  positive elapsed time the quotient is infinite: the tick finishes the morph at once and
  dispatches \<open>morphEnd\<close> as the last event, with no \<open>morphBegin\<close> before it unless one was
  there already. With zero elapsed time the quotient is \<open>0/0\<close>: the tick stays morphing
  and writes \<open>NaN\<close> into each of the four current weights.
\<close>

theorem setMorphing_idle_zero_duration:
  assumes "\<not> morphing e" and "morphDuration e = Fin 0"
    and "loaded e" and "syncNeeded e \<longrightarrow> el_src (element e) \<noteq> []"
    and "length (startMorphTargets e) = 4" and "length (currentMorphTargets e) = 4"
    and "length (endMorphTargets e) = 4"
  shows "let r = fst (state_of (setMorphing True t1 (e, sh))) in
     setMorphing True t1 (e, sh) = Ok (r, sh) \<and>
     morphing r \<and> morphStartTime r = t1 - morphElapsed e \<and> morphDuration r = Fin 0 \<and>
     (\<forall>t2. morphStartTime r < t2 \<longrightarrow>
        jdiv (numi (t2 - morphStartTime r)) (morphDuration r) = PInf \<and>
        (\<exists>e' sh'. update h that t2 (r, sh) = Ok (e', sh') \<and>
           \<not> morphing e' \<and>
           currentMorphTargets e' = endMorphTargets e \<and>
           (events e' = events e @ [''morphEnd''] \<or>
            events e' = events e @ [''changeImageSrc'', ''morphEnd'']) \<and>
           (''morphBegin'' \<notin> set (events e) \<longrightarrow> ''morphBegin'' \<notin> set (events e')))) \<and>
     jdiv (numi (morphStartTime r - morphStartTime r)) (morphDuration r) = NaN \<and>
     (\<exists>e' sh'. update h that (morphStartTime r) (r, sh) = Ok (e', sh') \<and>
        morphing e' \<and> currentMorphTargets e' = [NaN, NaN, NaN, NaN])"
proof -
  define r where "r = e\<lparr>morphing := True, morphStartTime := t1 - morphElapsed e\<rparr>"
  have sm: "setMorphing True t1 (e, sh) = Ok (r, sh)"
    using assms(1) by (simp add: setMorphing_def Let_def r_def)
  have lr: "loaded r" using assms(3) by (simp add: r_def)
  have sr: "syncNeeded r \<longrightarrow> el_src (element r) \<noteq> []"
    using assms(4) by (simp add: r_def syncNeeded_def)
  have pos: "\<And>t2. morphStartTime r < t2 \<Longrightarrow>
      jdiv (numi (t2 - morphStartTime r)) (morphDuration r) = PInf"
    using assms(2) by (simp add: r_def numi_def)
  have zero: "jdiv (numi (morphStartTime r - morphStartTime r)) (morphDuration r) = NaN"
    using assms(2) by (simp add: r_def numi_def)
  have fin: "\<exists>e' sh'. update h that t2 (r, sh) = Ok (e', sh') \<and>
           \<not> morphing e' \<and>
           currentMorphTargets e' = endMorphTargets e \<and>
           (events e' = events e @ [''morphEnd''] \<or>
            events e' = events e @ [''changeImageSrc'', ''morphEnd'']) \<and>
           (''morphBegin'' \<notin> set (events e) \<longrightarrow> ''morphBegin'' \<notin> set (events e'))"
    if t2: "morphStartTime r < t2" for t2
  proof -
    from update_loaded[OF lr sr, of h that t2 sh] obtain e1 sh1 where
      u: "update h that t2 (r, sh) = Ok (updateMorph t2 e1, sh1)"
      and f: "morphing e1 = morphing r" "morphStartTime e1 = morphStartTime r"
        "morphDuration e1 = morphDuration r" "endMorphTargets e1 = endMorphTargets r"
      and ev: "events e1 = events r \<or> events e1 = events r @ [''changeImageSrc'']"
      by blast
    have q: "jdiv (numi (t2 - morphStartTime e1)) (morphDuration e1) = PInf"
      using pos[OF t2] f by simp
    have m: "\<not> morphing (updateMorph t2 e1)"
      "currentMorphTargets (updateMorph t2 e1) = endMorphTargets e"
      "events (updateMorph t2 e1) = events e1 @ [''morphEnd'']"
      using q f by (simp_all add: updateMorph_def Let_def r_def)
    have er: "events r = events e" by (simp add: r_def)
    from ev er m(3) have
      e2: "events (updateMorph t2 e1) = events e @ [''morphEnd''] \<or>
           events (updateMorph t2 e1) = events e @ [''changeImageSrc'', ''morphEnd'']"
      by auto
    then have "''morphBegin'' \<notin> set (events e) \<longrightarrow>
        ''morphBegin'' \<notin> set (events (updateMorph t2 e1))"
      by auto
    with u m(1,2) e2 show ?thesis by blast
  qed
  have nan: "\<exists>e' sh'. update h that (morphStartTime r) (r, sh) = Ok (e', sh') \<and>
        morphing e' \<and> currentMorphTargets e' = [NaN, NaN, NaN, NaN]"
  proof -
    from update_loaded[OF lr sr, of h that "morphStartTime r" sh] obtain e1 sh1 where
      u: "update h that (morphStartTime r) (r, sh) = Ok (updateMorph (morphStartTime r) e1, sh1)"
      and f: "morphing e1 = morphing r" "morphStartTime e1 = morphStartTime r"
        "morphDuration e1 = morphDuration r" "startMorphTargets e1 = startMorphTargets r"
        "currentMorphTargets e1 = currentMorphTargets r"
        "endMorphTargets e1 = endMorphTargets r"
      by blast
    have len: "length (currentMorphTargets e1) = 4" "length (startMorphTargets e1) = 4"
      "length (endMorphTargets e1) = 4" using assms f by (simp_all add: r_def)
    have q: "jdiv (numi (morphStartTime r - morphStartTime e1)) (morphDuration e1) = NaN"
      using zero f by simp
    have "lerpWeights NaN e1 = [NaN, NaN, NaN, NaN]"
    proof (rule list4_eq)
      show "length (lerpWeights NaN e1) = 4" using len by (simp add: lerpWeights_length)
    next
      fix i :: nat assume "i < 4"
      from lerpWeights_nth[OF len this, of NaN] show "lerpWeights NaN e1 ! i = NaN" by simp
    qed
    then have "morphing (updateMorph (morphStartTime r) e1) \<and>
        currentMorphTargets (updateMorph (morphStartTime r) e1) = [NaN, NaN, NaN, NaN]"
      using q f(1) by (simp add: updateMorph_def Let_def r_def)
    with u show ?thesis by blast
  qed
  have b: "morphing r \<and> morphStartTime r = t1 - morphElapsed e \<and> morphDuration r = Fin 0"
    using assms(2) by (simp add: r_def)
  show ?thesis
    unfolding Let_def sm
    using b pos zero fin nan by simp
qed

text \<open>
  C10 as stated fails before the model is loaded: \<open>update\<close> returns at once (line 291). On
  the example entity, freshly constructed and not loaded, \<open>setMorphing(true)\<close> at time 100
  sets the flag, and neither the tick at time 101 nor the tick at time 100 changes anything:
  no \<open>morphEnd\<close> is dispatched, the flag stays on, and the current weights stay
  \<open>[1, 0, 0, 0]\<close>.
\<close>

theorem setMorphing_not_loaded_counterexample:
  "\<not> morphing exampleEntity \<and> morphDuration exampleEntity = Fin 0 \<and>
   setMorphing True 100 (exampleEntity, emptyShared)
     = Ok (exampleEntity\<lparr>morphing := True, morphStartTime := 100\<rparr>, emptyShared) \<and>
   update exampleHost 0 101 (exampleEntity\<lparr>morphing := True, morphStartTime := 100\<rparr>, emptyShared)
     = Ok (exampleEntity\<lparr>morphing := True, morphStartTime := 100\<rparr>, emptyShared) \<and>
   update exampleHost 0 100 (exampleEntity\<lparr>morphing := True, morphStartTime := 100\<rparr>, emptyShared)
     = Ok (exampleEntity\<lparr>morphing := True, morphStartTime := 100\<rparr>, emptyShared) \<and>
   events (exampleEntity\<lparr>morphing := True, morphStartTime := 100\<rparr>) = [] \<and>
   currentMorphTargets (exampleEntity\<lparr>morphing := True, morphStartTime := 100\<rparr>)
     = [Fin 1, Fin 0, Fin 0, Fin 0]"
  by (simp add: exampleEntity_def setMorphing_def update_def Let_def)

text \<open>On the loaded example, freshly constructed: a tick one millisecond after
  \<open>setMorphing(true)\<close> dispatches \<open>morphEnd\<close> as the only event, and a tick in the same
  millisecond leaves four \<open>NaN\<close> weights.\<close>

theorem setMorphing_idle_zero_duration_witness:
  "\<not> morphing (exampleEntity\<lparr>loaded := True\<rparr>) \<and>
   morphDuration (exampleEntity\<lparr>loaded := True\<rparr>) = Fin 0 \<and>
   loaded (exampleEntity\<lparr>loaded := True\<rparr>) \<and>
   (let r = fst (state_of (setMorphing True 100 (exampleEntity\<lparr>loaded := True\<rparr>, emptyShared))) in
      morphing r \<and> morphStartTime r = 100 \<and>
      \<not> morphing (fst (state_of (update exampleHost 0 101 (r, emptyShared)))) \<and>
      last (events (fst (state_of (update exampleHost 0 101 (r, emptyShared))))) = ''morphEnd'' \<and>
      currentMorphTargets (fst (state_of (update exampleHost 0 100 (r, emptyShared))))
        = [NaN, NaN, NaN, NaN])"
proof -
  let ?e = "exampleEntity\<lparr>loaded := True\<rparr>"
  define r where "r = fst (state_of (setMorphing True 100 (?e, emptyShared)))"
  have h: "\<not> morphing ?e" "morphDuration ?e = Fin 0" "loaded ?e"
    "syncNeeded ?e \<longrightarrow> el_src (element ?e) \<noteq> []" "length (startMorphTargets ?e) = 4"
    "length (currentMorphTargets ?e) = 4" "length (endMorphTargets ?e) = 4"
    by (simp_all add: exampleEntity_def syncNeeded_def toLowerCase_IMG)
  have el: "morphElapsed ?e = 0" by (simp add: exampleEntity_def)
  note T = setMorphing_idle_zero_duration[OF h, of 100 emptyShared exampleHost 0,
      unfolded Let_def, folded r_def]
  from T el have m: "morphing r" "morphStartTime r = 100" by simp_all
  from T have A: "\<And>t2. morphStartTime r < t2 \<Longrightarrow>
      \<exists>e' sh'. update exampleHost 0 t2 (r, emptyShared) = Ok (e', sh') \<and>
      \<not> morphing e' \<and>
      (events e' = events ?e @ [''morphEnd''] \<or>
       events e' = events ?e @ [''changeImageSrc'', ''morphEnd''])"
    by blast
  have "morphStartTime r < 101" using m(2) by simp
  from A[OF this] obtain e1 sh1 where
    u1: "update exampleHost 0 101 (r, emptyShared) = Ok (e1, sh1)" "\<not> morphing e1"
      "events e1 = events ?e @ [''morphEnd''] \<or>
       events e1 = events ?e @ [''changeImageSrc'', ''morphEnd'']"
    by blast
  from u1(3) have l1: "last (events e1) = ''morphEnd''" by auto
  from T have "\<exists>e' sh'. update exampleHost 0 (morphStartTime r) (r, emptyShared) = Ok (e', sh') \<and>
      morphing e' \<and> currentMorphTargets e' = [NaN, NaN, NaN, NaN]"
    by blast
  with m(2) obtain e2 sh2 where
    u2: "update exampleHost 0 100 (r, emptyShared) = Ok (e2, sh2)"
      "currentMorphTargets e2 = [NaN, NaN, NaN, NaN]"
    by auto
  show ?thesis
    unfolding Let_def r_def[symmetric]
    using h(1,2,3) m u1(1,2) l1 u2 by simp
qed

section \<open>Smooth geometry\<close>

lemma length_js_set: "length (js_set xs i v) = max (length xs) (Suc i)"
  by (auto simp add: js_set_def)

lemma filled_upto_js_set:
  "filled_upto xs n \<Longrightarrow> filled_upto (js_set xs n v) (Suc n)"
  by (auto simp add: filled_upto_def js_set_def nth_list_update nth_append less_Suc_eq)

lemma filled_upto_0 [simp]: "filled_upto xs 0"
  by (simp add: filled_upto_def)

lemma filled_upto_dense: "filled_upto xs (length xs) \<Longrightarrow> dense xs"
  by (auto simp add: filled_upto_def dense_def in_set_conv_nth)

lemma for_upto_rule:
  assumes "P 0 s" and "\<And>i s. i < n \<Longrightarrow> P i s \<Longrightarrow> P (Suc i) (body i s)"
  shows "P n (for_upto n body s)"
  using assms by (induction n) auto

lemma smooth_vertex_row:
  assumes "filled_upto (sv_vertices s) (sv_vertexIndex s)"
    and "length (sv_vertices s) = L" and "sv_vertexIndex s + n \<le> L"
  shows "filled_upto (sv_vertices (for_upto n (smooth_vertex mh d a b y) s))
           (sv_vertexIndex s + n) \<and>
         sv_vertexIndex (for_upto n (smooth_vertex mh d a b y) s) = sv_vertexIndex s + n \<and>
         length (sv_vertices (for_upto n (smooth_vertex mh d a b y) s)) = L"
  using assms
proof (induction n)
  case 0
  then show ?case by simp
next
  case (Suc n)
  then show ?case
    by (auto simp add: smooth_vertex_def Let_def length_js_set filled_upto_js_set)
qed

lemma smooth_vertices_count:
  "length (sv_vertices (smooth_vertices mh d w h)) = w * h \<and>
   dense (sv_vertices (smooth_vertices mh d w h))"
proof -
  let ?a = "jdiv (Fin 1) (numi (int w - 1))" and ?b = "jdiv (Fin 1) (numi (int h - 1))"
  let ?P = "\<lambda>y (s::smooth_vs). filled_upto (sv_vertices s) (sv_vertexIndex s) \<and>
                   sv_vertexIndex s = y * w \<and> length (sv_vertices s) = w * h"
  have "?P h (for_upto h (\<lambda>y. for_upto w (smooth_vertex mh d ?a ?b y))
                \<lparr>sv_vertices = newArray (w * h), sv_vertexIndex = 0, sv_pixelIndex = 0\<rparr>)"
  proof (rule for_upto_rule[where P = ?P])
    show "?P 0 \<lparr>sv_vertices = newArray (w * h), sv_vertexIndex = 0, sv_pixelIndex = 0\<rparr>"
      by (simp add: newArray_def)
  next
    fix y and s :: smooth_vs assume y: "y < h" and p: "?P y s"
    have "Suc y \<le> h" using y by simp
    then have "Suc y * w \<le> h * w" by (rule mult_le_mono1)
    then have le: "sv_vertexIndex s + w \<le> w * h" using p by (simp add: mult.commute)
    from p have p1: "filled_upto (sv_vertices s) (sv_vertexIndex s)"
      and p2: "length (sv_vertices s) = w * h" and p3: "sv_vertexIndex s = y * w" by blast+
    from smooth_vertex_row[OF p1 p2 le, of mh d ?a ?b y] p3
    show "?P (Suc y) (for_upto w (smooth_vertex mh d ?a ?b y) s)" by (simp add: add.commute)
  qed
  then show ?thesis
    by (auto simp add: smooth_vertices_def Let_def mult.commute intro: filled_upto_dense)
qed

lemma filled_upto_js_set2:
  "filled_upto xs n \<Longrightarrow> filled_upto (js_set (js_set xs n u) (Suc n) v) (Suc (Suc n))"
  by (intro filled_upto_js_set)

lemma smooth_cell_row:
  assumes "filled_upto (sf_faces s) (sf_faceIdx s)" and "filled_upto (sf_uvs s) (sf_uvIdx s)"
    and "length (sf_faces s) = L" and "length (sf_uvs s) = L"
    and "sf_faceIdx s + 2 * n \<le> L" and "sf_uvIdx s = sf_faceIdx s"
  shows "filled_upto (sf_faces (for_upto n (smooth_cell a b y) s)) (sf_faceIdx s + 2 * n) \<and>
         filled_upto (sf_uvs (for_upto n (smooth_cell a b y) s)) (sf_faceIdx s + 2 * n) \<and>
         sf_faceIdx (for_upto n (smooth_cell a b y) s) = sf_faceIdx s + 2 * n \<and>
         sf_uvIdx (for_upto n (smooth_cell a b y) s) = sf_faceIdx s + 2 * n \<and>
         length (sf_faces (for_upto n (smooth_cell a b y) s)) = L \<and>
         length (sf_uvs (for_upto n (smooth_cell a b y) s)) = L"
  using assms
proof (induction n)
  case 0
  then show ?case by simp
next
  case (Suc n)
  then show ?case
    by (auto simp add: smooth_cell_def Let_def length_js_set
        intro!: filled_upto_js_set2[simplified])
qed

lemma smooth_faces_count:
  assumes "0 < w" and "0 < h"
  shows "length (sf_faces (smooth_faces (2 * (w - 1) * (h - 1)) w h)) = 2 * (w - 1) * (h - 1) \<and>
         dense (sf_faces (smooth_faces (2 * (w - 1) * (h - 1)) w h)) \<and>
         length (sf_uvs (smooth_faces (2 * (w - 1) * (h - 1)) w h)) = 2 * (w - 1) * (h - 1) \<and>
         dense (sf_uvs (smooth_faces (2 * (w - 1) * (h - 1)) w h))"
proof -
  let ?L = "2 * (w - 1) * (h - 1)"
  let ?a = "jdiv (Fin 1) (numi (int w - 1))" and ?b = "jdiv (Fin 1) (numi (int h - 1))"
  let ?P = "\<lambda>y (s::smooth_fs). filled_upto (sf_faces s) (sf_faceIdx s) \<and>
              filled_upto (sf_uvs s) (sf_uvIdx s) \<and>
              sf_faceIdx s = 2 * (w - 1) * y \<and> sf_uvIdx s = sf_faceIdx s \<and>
              length (sf_faces s) = ?L \<and> length (sf_uvs s) = ?L"
  let ?s0 = "\<lparr>sf_faces = newArray ?L, sf_uvs = newArray ?L,
            sf_faceIdx = 0, sf_uvIdx = 0, sf_yi = 0, sf_yi2 = w\<rparr>"
  define r where "r = for_upto (h - 1) (smooth_row ?a ?b w) ?s0"
  have P: "?P (h - 1) r"
    unfolding r_def
  proof (rule for_upto_rule[where P = ?P])
    show "?P 0 ?s0" by (simp add: newArray_def)
  next
    fix y and s :: smooth_fs assume y: "y < h - 1" and p: "?P y s"
    from p have p1: "filled_upto (sf_faces s) (sf_faceIdx s)"
      and p2: "filled_upto (sf_uvs s) (sf_uvIdx s)"
      and p3: "sf_faceIdx s = 2 * (w - 1) * y" and p4: "sf_uvIdx s = sf_faceIdx s"
      and p5: "length (sf_faces s) = ?L" and p6: "length (sf_uvs s) = ?L" by blast+
    have "Suc y \<le> h - 1" using y by simp
    then have "2 * (w - 1) * Suc y \<le> 2 * (w - 1) * (h - 1)" by (rule mult_le_mono2)
    then have le: "sf_faceIdx s + 2 * (w - 1) \<le> ?L" using p3 by simp
    from smooth_cell_row[OF p1 p2 p5 p6 le p4, of ?a ?b y] p3
    show "?P (Suc y) (smooth_row ?a ?b w y s)"
      by (simp add: smooth_row_def Let_def)
  qed
  have sf: "smooth_faces ?L w h = r"
    by (simp add: smooth_faces_def Let_def r_def)
  from P have q1: "filled_upto (sf_faces r) (sf_faceIdx r)"
    and q2: "filled_upto (sf_uvs r) (sf_uvIdx r)"
    and q3: "sf_faceIdx r = 2 * (w - 1) * (h - 1)" and q4: "sf_uvIdx r = sf_faceIdx r"
    and q5: "length (sf_faces r) = ?L" and q6: "length (sf_uvs r) = ?L" by blast+
  have "dense (sf_faces r)" using q1 q3 q5 by (intro filled_upto_dense) simp
  moreover have "dense (sf_uvs r)" using q2 q3 q4 q6 by (intro filled_upto_dense) simp
  ultimately show ?thesis unfolding sf using q5 q6 by simp
qed

lemma createSmoothGeometry_faces_eq:
  assumes "0 < w" and "0 < h"
  shows "createSmoothGeometry w h mh g (Some d) True =
           Inr \<lparr>b_geometry =
                  g\<lparr>faces := sf_faces (smooth_faces (2 * (w - 1) * (h - 1)) w h),
                    faceVertexUvs := sf_uvs (smooth_faces (2 * (w - 1) * (h - 1)) w h)\<rparr>,
                b_ownerVertices = Some (sv_vertices (smooth_vertices mh d w h))\<rparr>"
proof -
  have "int (w - 1) = int w - 1" and "int (h - 1) = int h - 1" using assms by simp_all
  then have n: "(int w - 1) * (int h - 1) * 2 = int (2 * (w - 1) * (h - 1))"
    by simp
  show ?thesis
    unfolding createSmoothGeometry_def Let_def n
    by (simp only: nat_int option.case if_True if_False of_nat_less_0_iff)
qed

lemma createSmoothGeometry_vertices_eq:
  "createSmoothGeometry w h mh g (Some d) False =
     Inr \<lparr>b_geometry = g, b_ownerVertices = Some (sv_vertices (smooth_vertices mh d w h))\<rparr>"
  by (simp add: createSmoothGeometry_def Let_def)

lemma for_upto_try_rule:
  assumes "P 0 s"
    and "\<And>i s. i < n \<Longrightarrow> P i s \<Longrightarrow> \<exists>s'. body i s = Inr s' \<and> P (Suc i) s'"
  shows "\<exists>s'. for_upto_try n body s = Inr s' \<and> P n s'"
  using assms
proof (induction n)
  case 0
  then show ?case by simp
next
  case (Suc n)
  then have "\<exists>s'. for_upto_try n body s = Inr s' \<and> P n s'" by simp
  then obtain s1 where s1: "for_upto_try n body s = Inr s1" "P n s1" by blast
  from Suc.prems(2)[of n s1] s1(2) obtain s2 where "body n s1 = Inr s2" "P (Suc n) s2"
    by auto
  with s1 show ?case by simp
qed

lemma createHeightmapGeometry_smooth:
  assumes "geometryStyle e = ''smooth''" and "heightmapWidth e = Some w"
    and "heightmapHeight e = Some h"
  shows "createHeightmapGeometry e sh (Some d) g cf =
           createSmoothGeometry w h (maxHeight e) g (Some d) cf"
  using assms by (simp add: createHeightmapGeometry_def)

lemma appendMorphTarget_smooth:
  assumes "geometryStyle e = ''smooth''" and "heightmapWidth e = Some w"
    and "heightmapHeight e = Some h"
    and "i \<noteq> 0 \<and> js_get hms i \<noteq> None \<longrightarrow> js_get hds i \<noteq> None"
    and "length (vertices g) = w * h" and "dense (vertices g)"
    and "heightmaps e = Some hms" and "heightmapData e = Some hds"
  shows "\<exists>t. appendMorphTarget e sh i g = Inr (g\<lparr>morphTargets := morphTargets g @ [t]\<rparr>) \<and>
             length (mt_vertices t) = w * h \<and> dense (mt_vertices t) \<and>
             (js_get hms i = None \<or> i = 0 \<longrightarrow> mt_vertices t = vertices g)"
proof (cases "js_get hms i = None \<or> i = 0")
  case True
  let ?t = "\<lparr>mt_name = ''target'' @ show_nat i, mt_vertices = vertices g\<rparr>"
  have "appendMorphTarget e sh i g = Inr (g\<lparr>morphTargets := morphTargets g @ [?t]\<rparr>)"
    using True assms(7) by (simp add: appendMorphTarget_def slot_read_def)
  moreover have "length (mt_vertices ?t) = w * h \<and> dense (mt_vertices ?t) \<and>
      mt_vertices ?t = vertices g"
    using assms(5,6) by simp
  ultimately show ?thesis by blast
next
  case False
  with assms(4) obtain d where d: "js_get hds i = Some d" by auto
  let ?t = "\<lparr>mt_name = ''target'' @ show_nat i,
             mt_vertices = sv_vertices (smooth_vertices (maxHeight e) d w h)\<rparr>"
  have "appendMorphTarget e sh i g = Inr (g\<lparr>morphTargets := morphTargets g @ [?t]\<rparr>)"
    using False d assms(7,8)
    by (auto simp add: appendMorphTarget_def slot_read_def
        createHeightmapGeometry_smooth[OF assms(1-3)] createSmoothGeometry_vertices_eq)
  moreover have "length (mt_vertices ?t) = w * h \<and> dense (mt_vertices ?t)"
    using smooth_vertices_count[of "maxHeight e" d w h] by simp
  ultimately show ?thesis using False by blast
qed

text \<open>
  C1. For a heightmap of \<open>W\<close> by \<open>H\<close> texels (\<open>W, H >= 2\<close>) whose buffer is there, and with
  the buffer of every other populated slot there, building the geometry in smooth style
  succeeds with exactly \<open>W * H\<close> vertices and \<open>2 * (W - 1) * (H - 1)\<close> faces, none of them a
  hole, and four morph targets of exactly \<open>W * H\<close> vertices each; the target of an
  unpopulated slot and target 0 are the primary vertex sequence.
\<close>

theorem smooth_geometry_counts:
  assumes "geometryStyle e = ''smooth''"
    and "heightmapWidth e = Some W" and "heightmapHeight e = Some H"
    and "2 \<le> W" and "2 \<le> H"
    and "js_get hds 0 \<noteq> None"
    and "\<forall>i\<in>{1, 2, 3}. js_get hms i \<noteq> None \<longrightarrow> js_get hds i \<noteq> None"
    and "heightmaps e = Some hms" and "heightmapData e = Some hds"
  shows "\<exists>g. buildGeometry e sh = Inr g \<and>
           length (vertices g) = W * H \<and> dense (vertices g) \<and>
           length (faces g) = 2 * (W - 1) * (H - 1) \<and> dense (faces g) \<and>
           length (morphTargets g) = 4 \<and>
           (\<forall>t \<in> set (morphTargets g). length (mt_vertices t) = W * H \<and> dense (mt_vertices t)) \<and>
           (\<forall>i<4. js_get hms i = None \<or> i = 0 \<longrightarrow>
                   mt_vertices (morphTargets g ! i) = vertices g)"
proof -
  from assms(6) obtain d where d: "js_get hds 0 = Some d" by auto
  have pos: "0 < W" "0 < H" using assms(4,5) by simp_all
  define g0 where "g0 = newGeometry\<lparr>faces := sf_faces (smooth_faces (2 * (W - 1) * (H - 1)) W H),
       faceVertexUvs := sf_uvs (smooth_faces (2 * (W - 1) * (H - 1)) W H),
       vertices := sv_vertices (smooth_vertices (maxHeight e) d W H)\<rparr>"
  have g0: "length (vertices g0) = W * H" "dense (vertices g0)"
    "length (faces g0) = 2 * (W - 1) * (H - 1)" "dense (faces g0)" "morphTargets g0 = []"
    using smooth_vertices_count[of "maxHeight e" d W H] smooth_faces_count[OF pos]
    by (simp_all add: g0_def newGeometry_def)
  have bg: "buildGeometry e sh = for_upto_try 4 (appendMorphTarget e sh) g0"
    using assms(1,8,9) d
    by (simp add: buildGeometry_def slot_read_def Let_def
        createHeightmapGeometry_smooth[OF assms(1-3)]
        createSmoothGeometry_faces_eq[OF pos] g0_def)
  let ?P = "\<lambda>n (g::three_geometry). vertices g = vertices g0 \<and> faces g = faces g0 \<and>
              length (morphTargets g) = n \<and>
              (\<forall>t \<in> set (morphTargets g). length (mt_vertices t) = W * H \<and> dense (mt_vertices t)) \<and>
              (\<forall>i<n. js_get hms i = None \<or> i = 0 \<longrightarrow>
                      mt_vertices (morphTargets g ! i) = vertices g0)"
  have "\<exists>g. for_upto_try 4 (appendMorphTarget e sh) g0 = Inr g \<and> ?P 4 g"
  proof (rule for_upto_try_rule[where P = ?P])
    show "?P 0 g0" using g0 by simp
  next
    fix i and g :: three_geometry assume i: "i < 4" and p: "?P i g"
    from p have v: "vertices g = vertices g0" and f: "faces g = faces g0"
      and l: "length (morphTargets g) = i"
      and m: "\<forall>t \<in> set (morphTargets g). length (mt_vertices t) = W * H \<and> dense (mt_vertices t)"
      and r: "\<forall>k<i. js_get hms k = None \<or> k = 0 \<longrightarrow>
                      mt_vertices (morphTargets g ! k) = vertices g0"
      by blast+
    have "i = 0 \<or> i \<in> {1, 2, 3}" using i by auto
    with assms(7) have
      dd: "i \<noteq> 0 \<and> js_get hms i \<noteq> None \<longrightarrow> js_get hds i \<noteq> None"
      by auto
    from appendMorphTarget_smooth[OF assms(1-3) dd _ _ assms(8,9), of g sh] v g0(1,2)
    obtain t where t: "appendMorphTarget e sh i g = Inr (g\<lparr>morphTargets := morphTargets g @ [t]\<rparr>)"
      "length (mt_vertices t) = W * H" "dense (mt_vertices t)"
      "js_get hms i = None \<or> i = 0 \<longrightarrow> mt_vertices t = vertices g"
      by auto
    have "?P (Suc i) (g\<lparr>morphTargets := morphTargets g @ [t]\<rparr>)"
      using v f l m r t(2,3,4) by (auto simp add: nth_append less_Suc_eq)
    with t(1) show "\<exists>s'. appendMorphTarget e sh i g = Inr s' \<and> ?P (Suc i) s'" by blast
  qed
  then show ?thesis unfolding bg using g0 by auto
qed

text \<open>The example of 2 by 2 texels: 4 vertices, 2 faces, 4 morph targets; target 1 is rebuilt
  from the second heightmap, target 2 is the primary sequence.\<close>

theorem smooth_geometry_counts_witness:
  "geometryStyle builtEntity = ''smooth'' \<and>
   heightmapWidth builtEntity = Some 2 \<and> heightmapHeight builtEntity = Some 2 \<and>
   heightmaps builtEntity = Some [Some (HmImage 0), Some (HmImage 1)] \<and>
   (\<exists>g. buildGeometry builtEntity emptyShared = Inr g \<and>
        length (vertices g) = 4 \<and> length (faces g) = 2 \<and> length (morphTargets g) = 4 \<and>
        length (mt_vertices (morphTargets g ! 1)) = 4 \<and>
        mt_vertices (morphTargets g ! 2) = vertices g)"
proof -
  have h: "geometryStyle builtEntity = ''smooth''" "heightmapWidth builtEntity = Some 2"
    "heightmapHeight builtEntity = Some 2" "(2::nat) \<le> 2" "(2::nat) \<le> 2"
    "js_get [Some (DataPixels examplePixels), Some (DataPixels whitePixels)] 0 \<noteq> None"
    "\<forall>i\<in>{1, 2, 3}. js_get [Some (HmImage 0), Some (HmImage 1)] i \<noteq> None \<longrightarrow>
        js_get [Some (DataPixels examplePixels), Some (DataPixels whitePixels)] i \<noteq> None"
    "heightmaps builtEntity = Some [Some (HmImage 0), Some (HmImage 1)]"
    "heightmapData builtEntity
       = Some [Some (DataPixels examplePixels), Some (DataPixels whitePixels)]"
    by (simp_all add: builtEntity_def exampleEntity_def js_get_def)
  have s2: "js_get [Some (HmImage 0), Some (HmImage (Suc 0))] 2 = None"
    by (simp add: js_get_def)
  from smooth_geometry_counts[OF h, of emptyShared] obtain g where
    g: "buildGeometry builtEntity emptyShared = Inr g" "length (vertices g) = 2 * 2"
      "length (faces g) = 2 * (2 - 1) * (2 - 1)" "length (morphTargets g) = 4"
      "\<forall>t \<in> set (morphTargets g). length (mt_vertices t) = 2 * 2 \<and> dense (mt_vertices t)"
      "\<forall>i<4. js_get [Some (HmImage 0), Some (HmImage 1)] i = None \<or> i = 0 \<longrightarrow>
                   mt_vertices (morphTargets g ! i) = vertices g"
    by blast
  have "morphTargets g ! 1 \<in> set (morphTargets g)" using g(4) by simp
  with g(5) have "length (mt_vertices (morphTargets g ! 1)) = 4" by auto
  moreover have "mt_vertices (morphTargets g ! 2) = vertices g" using g(6) s2 by auto
  ultimately show ?thesis using g(1-4) h(1-3) h(8) by auto
qed

section \<open>Block geometry\<close>

lemma sideQuads_sum:
  "sideQuads mh d w h x y =
     (let depth = texelDepth mh d w x y in
      of_bool (jgt depth (if 0 < x then texelDepth mh d w (x - 1) y else Fin 0)) +
      of_bool (jgt depth (if x + 1 < w then texelDepth mh d w (x + 1) y else Fin 0)) +
      of_bool (jgt depth (if 0 < y then texelDepth mh d w x (y - 1) else Fin 0)) +
      of_bool (jgt depth (if y + 1 < h then texelDepth mh d w x (y + 1) else Fin 0)))"
  by (simp add: sideQuads_def sideEmitted_def neighbourDepth_def Let_def)

lemma js_get_js_set: "js_get (js_set xs i v) k = (if k = i then Some v else js_get xs k)"
  by (auto simp add: js_get_def js_set_def nth_append nth_list_update)

lemma depth_cell_row:
  "fst (for_upto n (depth_cell mh d) (line, i0)) =
     for_upto n (\<lambda>x l. js_set l x (getDepth mh d (i0 + 4 * x))) line \<and>
   snd (for_upto n (depth_cell mh d) (line, i0)) = i0 + 4 * n"
  by (induction n) (simp_all add: depth_cell_def)

lemma js_get_fill:
  "js_get (for_upto n (\<lambda>x l. js_set l x (f x)) line) k =
     (if k < n then Some (f k) else js_get line k)"
  by (induction n) (auto simp add: js_get_js_set less_Suc_eq)

lemma depth_row_get:
  "js_get (ds_depths (depth_row mh d w y s)) k =
     (if k = y then Some (for_upto w (\<lambda>x l. js_set l x (getDepth mh d (ds_i s + 4 * x)))
                           (newArray w))
      else js_get (ds_depths s) k)"
  "ds_i (depth_row mh d w y s) = ds_i s + 4 * w"
  using depth_cell_row[of w mh d "newArray w" "ds_i s"]
  by (simp_all add: depth_row_def Let_def js_get_js_set)

lemma precalc_rows:
  "ds_i (for_upto n (depth_row mh d w) s0) = ds_i s0 + 4 * w * n \<and>
   (\<forall>k. js_get (ds_depths (for_upto n (depth_row mh d w) s0)) k =
        (if k < n then Some (for_upto w (\<lambda>x l. js_set l x (getDepth mh d (ds_i s0 + 4 * w * k + 4 * x)))
                           (newArray w))
         else js_get (ds_depths s0) k))"
proof (induction n)
  case 0
  then show ?case by simp
next
  case (Suc n)
  then show ?case
    by (auto simp add: depth_row_get less_Suc_eq algebra_simps)
qed

lemma depth_at_precalc:
  assumes "x < w" and "y < h"
  shows "depth_at (precalc_depths mh d w h) y x = texelDepth mh d w x y"
proof -
  have "js_get (precalc_depths mh d w h) y =
      Some (for_upto w (\<lambda>x l. js_set l x (getDepth mh d (4 * w * y + 4 * x))) (newArray w))"
    using precalc_rows[of h mh d w "\<lparr>ds_depths = newArray h, ds_i = 0\<rparr>"] assms(2)
    by (simp add: precalc_depths_def)
  then show ?thesis using assms(1)
    by (simp add: depth_at_def js_get_fill texelDepth_def algebra_simps)
qed

lemma put_vertex_facts [simp]:
  "bs_faceIdx (put_vertex p s) = bs_faceIdx s"
  "bs_uvIdx (put_vertex p s) = bs_uvIdx s"
  "bs_vertexIdx (put_vertex p s) = Suc (bs_vertexIdx s)"
  "block_wf s \<Longrightarrow> block_wf (put_vertex p s)"
  by (simp_all add: put_vertex_def block_wf_def filled_upto_js_set)

lemma put_face_facts [simp]:
  "bs_faceIdx (put_face f s) = Suc (bs_faceIdx s)"
  "bs_uvIdx (put_face f s) = bs_uvIdx s"
  "bs_vertexIdx (put_face f s) = bs_vertexIdx s"
  "block_wf s \<Longrightarrow> block_wf (put_face f s)"
  by (simp_all add: put_face_def block_wf_def filled_upto_js_set)

lemma put_uv_facts [simp]:
  "bs_faceIdx (put_uv u s) = bs_faceIdx s"
  "bs_uvIdx (put_uv u s) = Suc (bs_uvIdx s)"
  "bs_vertexIdx (put_uv u s) = bs_vertexIdx s"
  "block_wf s \<Longrightarrow> block_wf (put_uv u s)"
  by (simp_all add: put_uv_def block_wf_def filled_upto_js_set)

lemma bs_v_update_facts [simp]:
  "bs_faceIdx (s\<lparr>bs_v := n\<rparr>) = bs_faceIdx s"
  "block_wf (s\<lparr>bs_v := n\<rparr>) = block_wf s"
  by (simp_all add: block_wf_def)

lemma block_front_facts:
  "bs_faceIdx (block_front True p1 p2 p3 p4 ua ub s) = bs_faceIdx s + 2"
  "bs_uvIdx (block_front True p1 p2 p3 p4 ua ub s) = bs_uvIdx s + 2"
  "bs_vertexIdx (block_front cf p1 p2 p3 p4 ua ub s) = bs_vertexIdx s + 4"
  "block_wf s \<Longrightarrow> block_wf (block_front cf p1 p2 p3 p4 ua ub s)"
  by (simp_all add: block_front_def Let_def)

lemma block_side_facts:
  "bs_faceIdx (block_side True c p1 p2 f1 f2 ua ub s) = bs_faceIdx s + 2 * of_bool c"
  "bs_uvIdx (block_side True c p1 p2 f1 f2 ua ub s) = bs_uvIdx s + 2 * of_bool c"
  "bs_vertexIdx (block_side cf c p1 p2 f1 f2 ua ub s) = bs_vertexIdx s + 2 * of_bool c"
  "block_wf s \<Longrightarrow> block_wf (block_side cf c p1 p2 f1 f2 ua ub s)"
  by (simp_all add: block_side_def Let_def)

lemma block_texel_wf: "block_wf s \<Longrightarrow> block_wf (block_texel c depths cf y x s)"
  by (simp add: block_texel_def Let_def block_front_facts block_side_facts)

lemma block_texel_faces:
  assumes "x < w" and "y < h"
  shows "bs_faceIdx (block_texel (block_constants w h tw th) (precalc_depths mh d w h) True y x s)
           = bs_faceIdx s + 2 + 2 * sideQuads mh d w h x y"
    and "bs_uvIdx (block_texel (block_constants w h tw th) (precalc_depths mh d w h) True y x s)
           = bs_uvIdx s + 2 + 2 * sideQuads mh d w h x y"
proof -
  let ?D = "precalc_depths mh d w h"
  have bw: "bc_width (block_constants w h tw th) = w" "bc_height (block_constants w h tw th) = h"
    by (simp_all add: block_constants_def)
  have a: "int x < int w - 1 \<longleftrightarrow> x + 1 < w" "int y < int h - 1 \<longleftrightarrow> y + 1 < h" by auto
  have l: "0 < x \<Longrightarrow> depth_at ?D y (x - 1) = texelDepth mh d w (x - 1) y"
    using assms by (intro depth_at_precalc) simp_all
  have r: "x + 1 < w \<Longrightarrow> depth_at ?D y (x + 1) = texelDepth mh d w (x + 1) y"
    using assms by (intro depth_at_precalc) simp_all
  have t: "0 < y \<Longrightarrow> depth_at ?D (y - 1) x = texelDepth mh d w x (y - 1)"
    using assms by (intro depth_at_precalc) simp_all
  have b: "y + 1 < h \<Longrightarrow> depth_at ?D (y + 1) x = texelDepth mh d w x (y + 1)"
    using assms by (intro depth_at_precalc) simp_all
  have c: "depth_at ?D y x = texelDepth mh d w x y"
    using assms by (intro depth_at_precalc)
  have nl: "(if 0 < x then depth_at ?D y (x - 1) else Fin 0) =
            (if 0 < x then texelDepth mh d w (x - 1) y else Fin 0)"
    using l by simp
  have nr: "(if int x < int w - 1 then depth_at ?D y (x + 1) else Fin 0) =
            (if x + 1 < w then texelDepth mh d w (x + 1) y else Fin 0)"
    using r a(1) by (simp del: of_nat_less_iff)
  have nt: "(if 0 < y then depth_at ?D (y - 1) x else Fin 0) =
            (if 0 < y then texelDepth mh d w x (y - 1) else Fin 0)"
    using t by simp
  have nb: "(if int y < int h - 1 then depth_at ?D (y + 1) x else Fin 0) =
            (if y + 1 < h then texelDepth mh d w x (y + 1) else Fin 0)"
    using b a(2) by (simp del: of_nat_less_iff)
  show "bs_faceIdx (block_texel (block_constants w h tw th) ?D True y x s)
           = bs_faceIdx s + 2 + 2 * sideQuads mh d w h x y"
    unfolding block_texel_def Let_def bw nl nr nt nb c
    by (simp add: block_front_facts block_side_facts sideQuads_sum Let_def)
  show "bs_uvIdx (block_texel (block_constants w h tw th) ?D True y x s)
           = bs_uvIdx s + 2 + 2 * sideQuads mh d w h x y"
    unfolding block_texel_def Let_def bw nl nr nt nb c
    by (simp add: block_front_facts block_side_facts sideQuads_sum Let_def)
qed

lemma jgt_irrefl [simp]: "\<not> jgt a a"
  by (cases a) simp_all

lemma set_length_filled:
  assumes "filled_upto xs n"
  shows "length (set_length n xs) = n" and "dense (set_length n xs)"
proof -
  from assms have n: "n \<le> length xs" and f: "\<forall>k<n. xs ! k \<noteq> None"
    by (simp_all add: filled_upto_def)
  from n show "length (set_length n xs) = n" by (simp add: set_length_def)
  from n f show "dense (set_length n xs)"
    by (auto simp add: set_length_def dense_def in_set_conv_nth)
qed

lemma block_row:
  assumes "n \<le> w" and "y < h" and "block_wf s"
  shows "bs_faceIdx (for_upto n (block_texel (block_constants w h tw th)
                       (precalc_depths mh d w h) True y) s)
           = bs_faceIdx s + (\<Sum>x<n. 2 + 2 * sideQuads mh d w h x y) \<and>
         block_wf (for_upto n (block_texel (block_constants w h tw th)
                       (precalc_depths mh d w h) True y) s)"
  using assms(1)
proof (induction n)
  case 0
  then show ?case using assms(3) by simp
next
  case (Suc n)
  then have "n < w" by simp
  from block_texel_faces(1)[OF this assms(2)] Suc show ?case
    by (simp add: block_texel_wf)
qed

lemma block_rows:
  assumes "m \<le> h" and "block_wf s"
  shows "bs_faceIdx (for_upto m (\<lambda>y. for_upto w (block_texel (block_constants w h tw th)
                       (precalc_depths mh d w h) True y)) s)
           = bs_faceIdx s + (\<Sum>y<m. \<Sum>x<w. 2 + 2 * sideQuads mh d w h x y) \<and>
         block_wf (for_upto m (\<lambda>y. for_upto w (block_texel (block_constants w h tw th)
                       (precalc_depths mh d w h) True y)) s)"
  using assms(1)
proof (induction m)
  case 0
  then show ?case using assms(2) by simp
next
  case (Suc m)
  then have y: "m < h" and ih: "bs_faceIdx (for_upto m (\<lambda>y. for_upto w (block_texel (block_constants w h tw th)
                       (precalc_depths mh d w h) True y)) s)
           = bs_faceIdx s + (\<Sum>y<m. \<Sum>x<w. 2 + 2 * sideQuads mh d w h x y)"
    and wf: "block_wf (for_upto m (\<lambda>y. for_upto w (block_texel (block_constants w h tw th)
                       (precalc_depths mh d w h) True y)) s)" by simp_all
  from block_row[OF le_refl y wf, where tw=tw and th=th and mh=mh and d=d] ih show ?case by simp
qed

lemma createBlockGeometry_faces:
  "\<exists>b. createBlockGeometry w h mh tw th g (Some d) True = Inr b \<and>
       length (faces (b_geometry b)) = (\<Sum>y<h. \<Sum>x<w. 2 + 2 * sideQuads mh d w h x y) \<and>
       dense (faces (b_geometry b))"
proof -
  let ?init = "\<lparr>bs_vertices = newArray (w * h * 12), bs_faces = newArray (w * h * 10),
              bs_uvs = newArray (w * h * 10), bs_v = 0, bs_faceIdx = 0, bs_uvIdx = 0,
              bs_vertexIdx = 0\<rparr>"
  let ?s = "for_upto h (\<lambda>y. for_upto w (block_texel (block_constants w h tw th)
                       (precalc_depths mh d w h) True y)) ?init"
  have wf0: "block_wf ?init" by (simp add: block_wf_def)
  note br = block_rows[OF le_refl wf0, where w=w and tw=tw and th=th and mh=mh and d=d]
  have fi: "bs_faceIdx ?s = (\<Sum>y<h. \<Sum>x<w. 2 + 2 * sideQuads mh d w h x y)"
    using br[THEN conjunct1] by simp
  have wf: "block_wf ?s" by (rule br[THEN conjunct2])
  have fu: "filled_upto (bs_faces ?s) (bs_faceIdx ?s)"
    using wf by (simp only: block_wf_def)
  have cb: "createBlockGeometry w h mh tw th g (Some d) True =
      Inr \<lparr>b_geometry = g\<lparr>faces := set_length (bs_faceIdx ?s) (bs_faces ?s),
               faceVertexUvs := set_length (bs_uvIdx ?s) (bs_uvs ?s),
               vertices := set_length (bs_vertexIdx ?s) (bs_vertices ?s)\<rparr>,
            b_ownerVertices = None\<rparr>"
    by (simp add: createBlockGeometry_def Let_def)
  show ?thesis
    unfolding cb using set_length_filled[OF fu] fi by simp
qed

lemma sideQuads_flat:
  assumes "x < w" and "y < h" and "\<forall>x<w. \<forall>y<h. texelDepth mh d w x y = dp"
  shows "sideQuads mh d w h x y =
           (if jgt dp (Fin 0)
            then ((if x = 0 then 1 else 0) + (if x = w - 1 then 1 else 0)) +
                 ((if y = 0 then 1 else 0) + (if y = h - 1 then 1 else 0))
            else 0)"
proof -
  have c: "texelDepth mh d w x y = dp" using assms by simp
  have l: "0 < x \<Longrightarrow> texelDepth mh d w (x - 1) y = dp" using assms by simp
  have r: "x + 1 < w \<Longrightarrow> texelDepth mh d w (x + 1) y = dp" using assms by simp
  have t: "0 < y \<Longrightarrow> texelDepth mh d w x (y - 1) = dp" using assms by simp
  have b: "y + 1 < h \<Longrightarrow> texelDepth mh d w x (y + 1) = dp" using assms by simp
  have xr: "x + 1 < w \<longleftrightarrow> x \<noteq> w - 1" using assms(1) by auto
  have yb: "y + 1 < h \<longleftrightarrow> y \<noteq> h - 1" using assms(2) by auto
  show ?thesis
    unfolding sideQuads_sum Let_def c
    using l r t b xr yb by (auto simp add: of_bool_def)
qed

lemma sum_border:
  assumes "0 < n"
  shows "(\<Sum>x<n. c + 2 * (((if x = 0 then 1 else 0) + (if x = n - 1 then 1 else 0)) + k))
           = n * (c + 2 * k) + (4::nat)"
proof -
  define A where "A = (\<lambda>x::nat. if x = 0 then 1 else 0::nat)"
  define B where "B = (\<lambda>x::nat. if x = n - 1 then 1 else 0::nat)"
  have a: "sum A {..<n} = 1" using assms by (simp add: A_def sum.delta)
  have b: "sum B {..<n} = 1" using assms by (simp add: B_def sum.delta)
  have "(\<Sum>x<n. c + 2 * ((A x + B x) + k)) = (\<Sum>x<n. (c + 2 * k) + (2 * A x + 2 * B x))"
    by (simp add: algebra_simps)
  also have "\<dots> = (\<Sum>x<n. c + 2 * k) + (2 * sum A {..<n} + 2 * sum B {..<n})"
    by (simp only: sum.distrib sum_distrib_left)
  also have "\<dots> = n * (c + 2 * k) + 4" using a b by simp
  finally show ?thesis by (simp only: A_def B_def)
qed

lemma flat_row_sum:
  assumes "0 < w" and "y < h" and "\<forall>x<w. \<forall>y<h. texelDepth mh d w x y = dp"
    and "jgt dp (Fin 0)"
  shows "(\<Sum>x<w. 2 + 2 * sideQuads mh d w h x y) =
           w * (2 + 2 * ((if y = 0 then 1 else 0) + (if y = h - 1 then 1 else 0))) + 4"
proof -
  have "(\<Sum>x<w. 2 + 2 * sideQuads mh d w h x y) =
        (\<Sum>x<w. 2 + 2 * (((if x = 0 then 1 else 0) + (if x = w - 1 then 1 else 0)) +
                 ((if y = 0 then 1 else 0) + (if y = h - 1 then 1 else 0))))"
  proof (rule sum.cong)
    fix x assume "x \<in> {..<w}"
    then have "x < w" by simp
    from sideQuads_flat[OF this assms(2,3)] assms(4)
    show "2 + 2 * sideQuads mh d w h x y =
          2 + 2 * (((if x = 0 then 1 else 0) + (if x = w - 1 then 1 else 0)) +
                 ((if y = 0 then 1 else 0) + (if y = h - 1 then 1 else 0)))"
      by (simp only: if_True)
  qed simp
  also have "\<dots> = w * (2 + 2 * ((if y = 0 then 1 else 0) + (if y = h - 1 then 1 else 0))) + 4"
    by (rule sum_border[OF assms(1)])
  finally show ?thesis .
qed

lemma flat_total_sum:
  assumes "0 < w" and "0 < h" and "\<forall>x<w. \<forall>y<h. texelDepth mh d w x y = dp"
  shows "(\<Sum>y<h. \<Sum>x<w. 2 + 2 * sideQuads mh d w h x y) =
           2 * w * h + (if jgt dp (Fin 0) then 4 * (w + h) else 0)"
proof (cases "jgt dp (Fin 0)")
  case True
  have "(\<Sum>y<h. \<Sum>x<w. 2 + 2 * sideQuads mh d w h x y) =
        (\<Sum>y<h. (2 * w + 4) +
            2 * (((if y = 0 then 1 else 0) + (if y = h - 1 then 1 else 0)) + 0) * w)"
  proof (rule sum.cong)
    fix y assume "y \<in> {..<h}"
    then have "y < h" by simp
    from flat_row_sum[OF assms(1) this assms(3) True]
    show "(\<Sum>x<w. 2 + 2 * sideQuads mh d w h x y) =
          (2 * w + 4) + 2 * (((if y = 0 then 1 else 0) + (if y = h - 1 then 1 else 0)) + 0) * w"
      by (simp add: algebra_simps)
  qed simp
  also have "\<dots> = (\<Sum>y<h. (2 * w + 4)) +
       (\<Sum>y<h. 0 + 2 * (((if y = 0 then 1 else 0) + (if y = h - 1 then 1 else 0)) + 0)) * w"
    by (simp only: sum.distrib sum_distrib_right add_0)
  also have "\<dots> = h * (2 * w + 4) + (h * (0 + 2 * 0) + 4) * w"
    by (simp only: sum_border[OF assms(2)] sum_constant card_lessThan of_nat_id)
  also have "\<dots> = 2 * w * h + 4 * (w + h)" by (simp add: algebra_simps)
  finally show ?thesis using True by simp
next
  case False
  have "(\<Sum>y<h. \<Sum>x<w. 2 + 2 * sideQuads mh d w h x y) = (\<Sum>y<h. \<Sum>x<w. 2)"
  proof (rule sum.cong)
    fix y assume "y \<in> {..<h}"
    then have y: "y < h" by simp
    show "(\<Sum>x<w. 2 + 2 * sideQuads mh d w h x y) = (\<Sum>x<w. 2)"
    proof (rule sum.cong)
      fix x assume "x \<in> {..<w}"
      then have "x < w" by simp
      from sideQuads_flat[OF this y assms(3)] False
      show "2 + 2 * sideQuads mh d w h x y = 2" by simp
    qed simp
  qed simp
  then show ?thesis using False by (simp add: algebra_simps)
qed

text \<open>
  What the builder writes, as sequences: every store through a running index appends one
  element, and the indices \<open>v\<close> and \<open>vertexIdx\<close> advance together when faces are built.
\<close>

lemma take_js_set:
  assumes "filled_upto xs n"
  shows "map the (take (Suc n) (js_set xs n v)) = map the (take n xs) @ [v]"
proof -
  from assms have n: "n \<le> length xs" by (simp add: filled_upto_def)
  show ?thesis
  proof (cases "n < length xs")
    case True
    then show ?thesis by (simp add: js_set_def take_Suc_conv_app_nth)
  next
    case False
    with n have "n = length xs" by simp
    then show ?thesis by (simp add: js_set_def)
  qed
qed

lemma take_js_set_above:
  assumes "filled_upto xs n" "n \<le> m"
  shows "take n (js_set xs m v) = take n xs"
  using assms by (auto simp add: filled_upto_def js_set_def)

lemma set_length_written:
  assumes "filled_upto xs n"
  shows "set_length n xs = map Some (map the (take n xs))"
proof -
  from assms have n: "n \<le> length xs" and f: "\<forall>k<n. xs ! k \<noteq> None"
    by (simp_all add: filled_upto_def)
  have "map (Some \<circ> the) (take n xs) = take n xs"
  proof (rule map_idI)
    fix a assume "a \<in> set (take n xs)"
    then obtain k where "k < n" "a = xs ! k" using n
      by (auto simp add: in_set_conv_nth)
    with f show "(Some \<circ> the) a = a" by auto
  qed
  with n show ?thesis by (simp add: set_length_def)
qed

lemma length_written:
  "block_wf s \<Longrightarrow> length (fst (bs_written s)) = bs_vertexIdx s"
  by (simp add: bs_written_def block_wf_def filled_upto_def)

lemma put_vertex_written:
  assumes "block_wf s"
  shows "bs_written (put_vertex p s) = (fst (bs_written s) @ [p], snd (bs_written s))"
    and "bs_v (put_vertex p s) = bs_v s"
  using assms
  by (simp_all add: bs_written_def put_vertex_def block_wf_def take_js_set)

lemma put_face_written:
  assumes "block_wf s"
  shows "bs_written (put_face f s) = (fst (bs_written s), snd (bs_written s) @ [f])"
    and "bs_v (put_face f s) = bs_v s"
  using assms
  by (simp_all add: bs_written_def put_face_def block_wf_def take_js_set)

lemma put_uv_written:
  "bs_written (put_uv u s) = bs_written s" "bs_v (put_uv u s) = bs_v s"
  by (simp_all add: bs_written_def put_uv_def)

lemma bs_v_written: "bs_written (s\<lparr>bs_v := n\<rparr>) = bs_written s"
  by (simp add: bs_written_def)

lemma block_front_written:
  assumes "block_wf s" and "bs_v s = bs_vertexIdx s"
  shows "bs_written (block_front True p1 p2 p3 p4 ua ub s) =
           (fst (bs_written s) @ [p1, p2, p3, p4],
            snd (bs_written s) @ frontFaces (length (fst (bs_written s))))"
    and "bs_v (block_front True p1 p2 p3 p4 ua ub s)
           = bs_vertexIdx (block_front True p1 p2 p3 p4 ua ub s)"
  using assms length_written[OF assms(1)]
  by (simp_all add: block_front_def Let_def put_uv_written put_face_written put_vertex_written
      bs_v_written frontFaces_def)

lemma block_side_written:
  assumes "block_wf s" and "bs_v s = bs_vertexIdx s"
  shows "bs_written (block_side True c p1 p2 f1 f2 ua ub s) =
           (if c then (fst (bs_written s) @ [p1, p2],
                       snd (bs_written s) @ [f1 (length (fst (bs_written s))),
                                             f2 (length (fst (bs_written s)))])
            else bs_written s)"
    and "bs_v (block_side True c p1 p2 f1 f2 ua ub s)
           = bs_vertexIdx (block_side True c p1 p2 f1 f2 ua ub s)"
  using assms length_written[OF assms(1)]
  by (simp_all add: block_side_def Let_def put_uv_written put_face_written put_vertex_written
      bs_v_written)

lemma block_texel_written:
  assumes "x < w" and "y < h" and "block_wf s" and "bs_v s = bs_vertexIdx s"
  shows "bs_written (block_texel (block_constants w h tw th) (precalc_depths mh d w h) True y x s)
           = texelQuads mh d w h y x (bs_written s)"
    and "bs_v (block_texel (block_constants w h tw th) (precalc_depths mh d w h) True y x s)
           = bs_vertexIdx (block_texel (block_constants w h tw th) (precalc_depths mh d w h)
                             True y x s)"
proof -
  let ?D = "precalc_depths mh d w h"
  let ?c = "block_constants w h tw th"
  have bw: "bc_width ?c = w" "bc_height ?c = h"
    "bc_invWidth ?c = jdiv (Fin 1) (num w)" "bc_invHeight ?c = jdiv (Fin 1) (num h)"
    by (simp_all add: block_constants_def)
  have a: "int x < int w - 1 \<longleftrightarrow> x + 1 < w" "int y < int h - 1 \<longleftrightarrow> y + 1 < h" by auto
  have l: "0 < x \<Longrightarrow> depth_at ?D y (x - 1) = texelDepth mh d w (x - 1) y"
    using assms by (intro depth_at_precalc) simp_all
  have r: "x + 1 < w \<Longrightarrow> depth_at ?D y (x + 1) = texelDepth mh d w (x + 1) y"
    using assms by (intro depth_at_precalc) simp_all
  have t: "0 < y \<Longrightarrow> depth_at ?D (y - 1) x = texelDepth mh d w x (y - 1)"
    using assms by (intro depth_at_precalc) simp_all
  have b: "y + 1 < h \<Longrightarrow> depth_at ?D (y + 1) x = texelDepth mh d w x (y + 1)"
    using assms by (intro depth_at_precalc) simp_all
  have c: "depth_at ?D y x = texelDepth mh d w x y"
    using assms by (intro depth_at_precalc)
  have nl: "(if 0 < x then depth_at ?D y (x - 1) else Fin 0) = neighbourDepth mh d w h LeftSide x y"
    using l by (simp add: neighbourDepth_def)
  have nr: "(if int x < int w - 1 then depth_at ?D y (x + 1) else Fin 0)
              = neighbourDepth mh d w h RightSide x y"
    using r a(1) by (simp add: neighbourDepth_def del: of_nat_less_iff)
  have nt: "(if 0 < y then depth_at ?D (y - 1) x else Fin 0) = neighbourDepth mh d w h TopSide x y"
    using t by (simp add: neighbourDepth_def)
  have nb: "(if int y < int h - 1 then depth_at ?D (y + 1) x else Fin 0)
              = neighbourDepth mh d w h BottomSide x y"
    using b a(2) by (simp add: neighbourDepth_def del: of_nat_less_iff)
  define j where "j = bs_v s"
  define dp where "dp = texelDepth mh d w x y"
  define x1 where "x1 = gridLine w x"
  define x2 where "x2 = gridLine w (x + 1)"
  define y1 where "y1 = gridLine h y"
  define y2 where "y2 = gridLine h (y + 1)"
  define dL where "dL = neighbourDepth mh d w h LeftSide x y"
  define dR where "dR = neighbourDepth mh d w h RightSide x y"
  define dT where "dT = neighbourDepth mh d w h TopSide x y"
  define dB where "dB = neighbourDepth mh d w h BottomSide x y"
  obtain ua ub uc ud ue uf ug uh ui uj :: "vec2 list" and sF sL sR sT sB where
    sF: "sF = block_front True (Vector3 x1 y1 dp) (Vector3 x2 y1 dp) (Vector3 x2 y2 dp)
                 (Vector3 x1 y2 dp) ua ub s"
    and sL: "sL = block_side True (jgt dp dL) (Vector3 x1 y1 dL) (Vector3 x1 y2 dL)
                 (\<lambda>v. Face3 j (j + 3) (v + 1)) (\<lambda>v. Face3 j (v + 1) v) uc ud sF"
    and sR: "sR = block_side True (jgt dp dR) (Vector3 x2 y1 dR) (Vector3 x2 y2 dR)
                 (\<lambda>v. Face3 (j + 2) (j + 1) (v + 0)) (\<lambda>v. Face3 (j + 2) (v + 0) (v + 1)) ue uf sL"
    and sT: "sT = block_side True (jgt dp dT) (Vector3 x1 y1 dT) (Vector3 x2 y1 dT)
                 (\<lambda>v. Face3 (j + 1) j v) (\<lambda>v. Face3 (j + 1) v (v + 1)) ug uh sR"
    and sB: "sB = block_side True (jgt dp dB) (Vector3 x1 y2 dB) (Vector3 x2 y2 dB)
                 (\<lambda>v. Face3 (j + 3) (j + 2) (v + 1)) (\<lambda>v. Face3 (j + 3) (v + 1) v) ui uj sT"
    and bt: "block_texel ?c ?D True y x s = sB"
    unfolding block_texel_def Let_def bw nl nr nt nb c
      j_def dp_def x1_def x2_def y1_def y2_def dL_def dR_def dT_def dB_def gridLine_def
    by blast
  have jl: "j = length (fst (bs_written s))"
    using length_written[OF assms(3)] assms(4) by (simp add: j_def)
  have wF: "block_wf sF" unfolding sF using assms(3) by (rule block_front_facts(4))
  have wL: "block_wf sL" unfolding sL using wF by (rule block_side_facts(4))
  have wR: "block_wf sR" unfolding sR using wL by (rule block_side_facts(4))
  have wT: "block_wf sT" unfolding sT using wR by (rule block_side_facts(4))
  note F = block_front_written[OF assms(3,4), of "Vector3 x1 y1 dp" "Vector3 x2 y1 dp"
      "Vector3 x2 y2 dp" "Vector3 x1 y2 dp" ua ub, folded sF]
  note L = block_side_written[OF wF F(2), of "jgt dp dL" "Vector3 x1 y1 dL" "Vector3 x1 y2 dL"
      "\<lambda>v. Face3 j (j + 3) (v + 1)" "\<lambda>v. Face3 j (v + 1) v" uc ud, folded sL]
  note R = block_side_written[OF wL L(2), of "jgt dp dR" "Vector3 x2 y1 dR" "Vector3 x2 y2 dR"
      "\<lambda>v. Face3 (j + 2) (j + 1) (v + 0)" "\<lambda>v. Face3 (j + 2) (v + 0) (v + 1)" ue uf, folded sR]
  note T = block_side_written[OF wR R(2), of "jgt dp dT" "Vector3 x1 y1 dT" "Vector3 x2 y1 dT"
      "\<lambda>v. Face3 (j + 1) j v" "\<lambda>v. Face3 (j + 1) v (v + 1)" ug uh, folded sT]
  note B = block_side_written[OF wT T(2), of "jgt dp dB" "Vector3 x1 y2 dB" "Vector3 x2 y2 dB"
      "\<lambda>v. Face3 (j + 3) (j + 2) (v + 1)" "\<lambda>v. Face3 (j + 3) (v + 1) v" ui uj, folded sB]
  have qF: "bs_written sF = (fst (bs_written s) @ frontVertices mh d w h x y,
                             snd (bs_written s) @ frontFaces j)"
    using F(1) by (simp add: frontVertices_def Let_def jl dp_def x1_def x2_def y1_def y2_def)
  have qL: "bs_written sL = sideQuad mh d w h x y j LeftSide (bs_written sF)"
    using L(1)
    by (simp add: sideQuad_def sideEmitted_def wallVertices_def wallFaces_def Let_def
        dp_def dL_def x1_def x2_def y1_def y2_def)
  have qR: "bs_written sR = sideQuad mh d w h x y j RightSide (bs_written sL)"
    using R(1)
    by (simp add: sideQuad_def sideEmitted_def wallVertices_def wallFaces_def Let_def
        dp_def dR_def x1_def x2_def y1_def y2_def)
  have qT: "bs_written sT = sideQuad mh d w h x y j TopSide (bs_written sR)"
    using T(1)
    by (simp add: sideQuad_def sideEmitted_def wallVertices_def wallFaces_def Let_def
        dp_def dT_def x1_def x2_def y1_def y2_def)
  have qB: "bs_written sB = sideQuad mh d w h x y j BottomSide (bs_written sT)"
    using B(1)
    by (simp add: sideQuad_def sideEmitted_def wallVertices_def wallFaces_def Let_def
        dp_def dB_def x1_def x2_def y1_def y2_def)
  show "bs_written (block_texel ?c ?D True y x s) = texelQuads mh d w h y x (bs_written s)"
    unfolding bt qB qT qR qL qF
    by (simp add: texelQuads_def Let_def jl)
  show "bs_v (block_texel ?c ?D True y x s) = bs_vertexIdx (block_texel ?c ?D True y x s)"
    unfolding bt by (rule B(2))
qed

lemma block_row_written:
  assumes "n \<le> w" and "y < h" and "block_wf s" and "bs_v s = bs_vertexIdx s"
  shows "bs_written (for_upto n (block_texel (block_constants w h tw th)
                       (precalc_depths mh d w h) True y) s)
           = for_upto n (texelQuads mh d w h y) (bs_written s) \<and>
         block_wf (for_upto n (block_texel (block_constants w h tw th)
                       (precalc_depths mh d w h) True y) s) \<and>
         bs_v (for_upto n (block_texel (block_constants w h tw th)
                       (precalc_depths mh d w h) True y) s)
           = bs_vertexIdx (for_upto n (block_texel (block_constants w h tw th)
                       (precalc_depths mh d w h) True y) s)"
  using assms(1)
proof (induction n)
  case 0
  then show ?case using assms(3,4) by simp
next
  case (Suc n)
  then have x: "n < w" by simp
  let ?s = "for_upto n (block_texel (block_constants w h tw th)
                       (precalc_depths mh d w h) True y) s"
  from Suc have ih: "bs_written ?s = for_upto n (texelQuads mh d w h y) (bs_written s)"
    and wf: "block_wf ?s" and v: "bs_v ?s = bs_vertexIdx ?s" by simp_all
  from block_texel_written[OF x assms(2) wf v, of tw th mh d] ih block_texel_wf[OF wf]
  show ?case by simp
qed

lemma block_rows_written:
  assumes "m \<le> h" and "block_wf s" and "bs_v s = bs_vertexIdx s"
  shows "bs_written (for_upto m (\<lambda>y. for_upto w (block_texel (block_constants w h tw th)
                       (precalc_depths mh d w h) True y)) s)
           = for_upto m (\<lambda>y. for_upto w (texelQuads mh d w h y)) (bs_written s) \<and>
         block_wf (for_upto m (\<lambda>y. for_upto w (block_texel (block_constants w h tw th)
                       (precalc_depths mh d w h) True y)) s) \<and>
         bs_v (for_upto m (\<lambda>y. for_upto w (block_texel (block_constants w h tw th)
                       (precalc_depths mh d w h) True y)) s)
           = bs_vertexIdx (for_upto m (\<lambda>y. for_upto w (block_texel (block_constants w h tw th)
                       (precalc_depths mh d w h) True y)) s)"
  using assms(1)
proof (induction m)
  case 0
  then show ?case using assms(2,3) by simp
next
  case (Suc m)
  then have y: "m < h" by simp
  let ?s = "for_upto m (\<lambda>y. for_upto w (block_texel (block_constants w h tw th)
                       (precalc_depths mh d w h) True y)) s"
  from Suc have ih: "bs_written ?s = for_upto m (\<lambda>y. for_upto w (texelQuads mh d w h y)) (bs_written s)"
    and wf: "block_wf ?s" and v: "bs_v ?s = bs_vertexIdx ?s" by simp_all
  from block_row_written[OF le_refl y wf v, where tw=tw and th=th and mh=mh and d=d] ih
  show ?case by simp
qed

lemma createBlockGeometry_quads:
  "\<exists>b. createBlockGeometry w h mh tw th g (Some d) True = Inr b \<and>
       vertices (b_geometry b) = map Some (fst (blockQuads mh d w h)) \<and>
       faces (b_geometry b) = map Some (snd (blockQuads mh d w h))"
proof -
  let ?init = "\<lparr>bs_vertices = newArray (w * h * 12), bs_faces = newArray (w * h * 10),
              bs_uvs = newArray (w * h * 10), bs_v = 0, bs_faceIdx = 0, bs_uvIdx = 0,
              bs_vertexIdx = 0\<rparr>"
  let ?s = "for_upto h (\<lambda>y. for_upto w (block_texel (block_constants w h tw th)
                       (precalc_depths mh d w h) True y)) ?init"
  have wf0: "block_wf ?init" by (simp add: block_wf_def)
  have v0: "bs_v ?init = bs_vertexIdx ?init" by simp
  have w0: "bs_written ?init = ([], [])" by (simp add: bs_written_def)
  note br = block_rows_written[OF le_refl wf0 v0, where w=w and tw=tw and th=th and mh=mh and d=d]
  have q: "bs_written ?s = blockQuads mh d w h"
    using br[THEN conjunct1] by (simp only: w0 blockQuads_def)
  have wf: "block_wf ?s" by (rule br[THEN conjunct2, THEN conjunct1])
  have fv: "filled_upto (bs_vertices ?s) (bs_vertexIdx ?s)"
    and ff: "filled_upto (bs_faces ?s) (bs_faceIdx ?s)"
    using wf by (simp_all only: block_wf_def)
  have cb: "createBlockGeometry w h mh tw th g (Some d) True =
      Inr \<lparr>b_geometry = g\<lparr>faces := set_length (bs_faceIdx ?s) (bs_faces ?s),
               faceVertexUvs := set_length (bs_uvIdx ?s) (bs_uvs ?s),
               vertices := set_length (bs_vertexIdx ?s) (bs_vertices ?s)\<rparr>,
            b_ownerVertices = None\<rparr>"
    by (simp add: createBlockGeometry_def Let_def)
  have "set_length (bs_vertexIdx ?s) (bs_vertices ?s) = map Some (fst (bs_written ?s))"
    using set_length_written[OF fv] by (simp add: bs_written_def)
  moreover have "set_length (bs_faceIdx ?s) (bs_faces ?s) = map Some (snd (bs_written ?s))"
    using set_length_written[OF ff] by (simp add: bs_written_def)
  ultimately show ?thesis unfolding cb q by simp
qed

lemma sideEmitted_flat:
  assumes "x < w" and "y < h" and "\<forall>x<w. \<forall>y<h. texelDepth mh d w x y = dp"
  shows "sideEmitted mh d w h sd x y \<longleftrightarrow> jgt dp (Fin 0) \<and> onBorder w h sd x y"
proof -
  have c: "texelDepth mh d w x y = dp" using assms by simp
  have l: "0 < x \<Longrightarrow> texelDepth mh d w (x - 1) y = dp" using assms by simp
  have r: "x + 1 < w \<Longrightarrow> texelDepth mh d w (x + 1) y = dp" using assms by simp
  have t: "0 < y \<Longrightarrow> texelDepth mh d w x (y - 1) = dp" using assms by simp
  have b: "y + 1 < h \<Longrightarrow> texelDepth mh d w x (y + 1) = dp" using assms by simp
  have xr: "x + 1 < w \<longleftrightarrow> x + 1 \<noteq> w" using assms(1) by auto
  have yb: "y + 1 < h \<longleftrightarrow> y + 1 \<noteq> h" using assms(2) by auto
  show ?thesis
    unfolding sideEmitted_def neighbourDepth_def onBorder_def c
    using l r t b xr yb by (cases sd) auto
qed

text \<open>
  C2 (as amended). Block geometry with faces consists, for every texel in row-major order,
  of the front quad (four vertices at the texel's depth, two faces) and of the quad of each
  side (two vertices at the neighbour's depth on the edge of that side, two faces), where
  the quad of a side is emitted exactly when the neighbour's depth on that side is strictly
  less than the texel's, and a neighbour outside the grid counts as depth 0: the vertices
  and the faces of the geometry are exactly these, in this order, none of them a hole. So
  there are two faces per texel and two per emitted side quad. In a flat heightmap (all
  texels of one depth) a side quad is emitted exactly on the sides that lie on the border of
  the grid, and only when the common depth is above 0, never between two texels: its face
  count is \<open>2 * W * H\<close> when the common depth is not above 0, and
  \<open>2 * W * H + 4 * (W + H)\<close> when it is.
\<close>

theorem block_face_count:
  "\<exists>b. createBlockGeometry W H mh tw th g (Some d) True = Inr b \<and>
       vertices (b_geometry b) = map Some (fst (blockQuads mh d W H)) \<and>
       faces (b_geometry b) = map Some (snd (blockQuads mh d W H)) \<and>
       dense (faces (b_geometry b)) \<and>
       length (faces (b_geometry b)) = 2 * W * H + 2 * (\<Sum>y<H. \<Sum>x<W. sideQuads mh d W H x y) \<and>
       (0 < W \<and> 0 < H \<and> (\<forall>x<W. \<forall>y<H. texelDepth mh d W x y = dp) \<longrightarrow>
          (\<forall>x<W. \<forall>y<H. \<forall>sd. sideEmitted mh d W H sd x y \<longleftrightarrow>
                                jgt dp (Fin 0) \<and> onBorder W H sd x y) \<and>
          length (faces (b_geometry b)) =
            2 * W * H + (if jgt dp (Fin 0) then 4 * (W + H) else 0))"
proof -
  from createBlockGeometry_faces[of W H mh tw th g d] obtain b where
    b: "createBlockGeometry W H mh tw th g (Some d) True = Inr b"
    and l: "length (faces (b_geometry b)) = (\<Sum>y<H. \<Sum>x<W. 2 + 2 * sideQuads mh d W H x y)"
    and dn: "dense (faces (b_geometry b))" by blast
  from createBlockGeometry_quads[of W H mh tw th g d] b have
    q: "vertices (b_geometry b) = map Some (fst (blockQuads mh d W H))"
       "faces (b_geometry b) = map Some (snd (blockQuads mh d W H))"
    by auto
  have "(\<Sum>y<H. \<Sum>x<W. 2 + 2 * sideQuads mh d W H x y) =
        2 * W * H + 2 * (\<Sum>y<H. \<Sum>x<W. sideQuads mh d W H x y)"
  proof -
    have "(\<Sum>y<H. \<Sum>x<W. 2 + 2 * sideQuads mh d W H x y) =
          (\<Sum>y<H. (\<Sum>x<W. 2) + 2 * (\<Sum>x<W. sideQuads mh d W H x y))"
      by (simp only: sum.distrib sum_distrib_left)
    also have "\<dots> = (\<Sum>y<H. \<Sum>x<(W::nat). (2::nat)) + 2 * (\<Sum>y<H. \<Sum>x<W. sideQuads mh d W H x y)"
      by (simp only: sum.distrib sum_distrib_left)
    also have "(\<Sum>y<H. \<Sum>x<(W::nat). (2::nat)) = 2 * W * H" by simp
    finally show ?thesis .
  qed
  with l have c: "length (faces (b_geometry b)) =
      2 * W * H + 2 * (\<Sum>y<H. \<Sum>x<W. sideQuads mh d W H x y)" by simp
  have f: "0 < W \<and> 0 < H \<and> (\<forall>x<W. \<forall>y<H. texelDepth mh d W x y = dp) \<longrightarrow>
          length (faces (b_geometry b)) =
            2 * W * H + (if jgt dp (Fin 0) then 4 * (W + H) else 0)"
    using flat_total_sum[of W H mh d dp] l by auto
  have e: "0 < W \<and> 0 < H \<and> (\<forall>x<W. \<forall>y<H. texelDepth mh d W x y = dp) \<longrightarrow>
          (\<forall>x<W. \<forall>y<H. \<forall>sd. sideEmitted mh d W H sd x y \<longleftrightarrow>
                                jgt dp (Fin 0) \<and> onBorder W H sd x y)"
    using sideEmitted_flat[of _ W _ H mh d dp] by blast
  from b q dn c f e show ?thesis by blast
qed

lemma white_depth: "x < 2 \<Longrightarrow> y < 2 \<Longrightarrow> texelDepth (Fin 200) (DataPixels whitePixels) 2 x y = Fin 200"
  by (simp add: texelDepth_def getDepth_def data_at_def whitePixels_def num_def Let_def)

lemma black_depth: "x < 2 \<Longrightarrow> y < 2 \<Longrightarrow> texelDepth (Fin 200) (DataPixels blackPixels) 2 x y = Fin 0"
  by (simp add: texelDepth_def getDepth_def data_at_def blackPixels_def num_def Let_def)

text \<open>
  C2 as stated fails on the all-white heightmap of 2 by 2 texels with \<open>maxHeight\<close> 200: all
  texels have depth 200, and the geometry has 24 faces, not \<open>2 * 2 * 2 = 8\<close>: the 8 side
  quads of the border are emitted, since the source takes a missing neighbour's depth to be
  0 (lines 946-949).
\<close>

theorem block_flat_counterexample:
  "texelDepth (Fin 200) (DataPixels whitePixels) 2 0 0 = Fin 200 \<and>
   texelDepth (Fin 200) (DataPixels whitePixels) 2 1 0 = Fin 200 \<and>
   texelDepth (Fin 200) (DataPixels whitePixels) 2 0 1 = Fin 200 \<and>
   texelDepth (Fin 200) (DataPixels whitePixels) 2 1 1 = Fin 200 \<and>
   (\<exists>b. createBlockGeometry 2 2 (Fin 200) 4 4 newGeometry (Some (DataPixels whitePixels)) True = Inr b \<and>
        length (faces (b_geometry b)) = 24 \<and> 24 \<noteq> 2 * 2 * (2::nat))"
proof -
  from createBlockGeometry_faces[of 2 2 "Fin 200" 4 4 newGeometry "DataPixels whitePixels"]
  obtain b where
    b: "createBlockGeometry 2 2 (Fin 200) 4 4 newGeometry (Some (DataPixels whitePixels)) True = Inr b"
    and l: "length (faces (b_geometry b)) =
       (\<Sum>y<2. \<Sum>x<2. 2 + 2 * sideQuads (Fin 200) (DataPixels whitePixels) 2 2 x y)"
    by blast
  have "\<forall>x<2. \<forall>y<2. texelDepth (Fin 200) (DataPixels whitePixels) 2 x y = Fin 200"
    by (simp add: white_depth)
  from flat_total_sum[of 2 2 "Fin 200" "DataPixels whitePixels" "Fin 200", OF _ _ this] l
  have "length (faces (b_geometry b)) = 24" by simp
  with b show ?thesis by (simp add: white_depth)
qed

text \<open>
  The all-black heightmap of 2 by 2 texels has 8 faces. In the all-white one the texel at
  \<open>(0, 0)\<close> has its left and top quads, on the border, and neither its right nor its
  bottom quad.
\<close>

theorem block_face_count_witness:
  "0 < (2::nat) \<and>
   texelDepth (Fin 200) (DataPixels blackPixels) 2 0 0 = Fin 0 \<and>
   texelDepth (Fin 200) (DataPixels blackPixels) 2 1 0 = Fin 0 \<and>
   texelDepth (Fin 200) (DataPixels blackPixels) 2 0 1 = Fin 0 \<and>
   texelDepth (Fin 200) (DataPixels blackPixels) 2 1 1 = Fin 0 \<and>
   (\<exists>b. createBlockGeometry 2 2 (Fin 200) 4 4 newGeometry (Some (DataPixels blackPixels)) True = Inr b \<and>
        length (faces (b_geometry b)) = 8) \<and>
   texelDepth (Fin 200) (DataPixels whitePixels) 2 0 0 = Fin 200 \<and>
   texelDepth (Fin 200) (DataPixels whitePixels) 2 1 0 = Fin 200 \<and>
   texelDepth (Fin 200) (DataPixels whitePixels) 2 0 1 = Fin 200 \<and>
   texelDepth (Fin 200) (DataPixels whitePixels) 2 1 1 = Fin 200 \<and>
   sideEmitted (Fin 200) (DataPixels whitePixels) 2 2 LeftSide 0 0 \<and>
   sideEmitted (Fin 200) (DataPixels whitePixels) 2 2 TopSide 0 0 \<and>
   \<not> sideEmitted (Fin 200) (DataPixels whitePixels) 2 2 RightSide 0 0 \<and>
   \<not> sideEmitted (Fin 200) (DataPixels whitePixels) 2 2 BottomSide 0 0"
proof -
  have f: "\<forall>x<2. \<forall>y<2. texelDepth (Fin 200) (DataPixels blackPixels) 2 x y = Fin 0"
    by (simp add: black_depth)
  have g: "\<forall>x<2. \<forall>y<2. texelDepth (Fin 200) (DataPixels whitePixels) 2 x y = Fin 200"
    by (simp add: white_depth)
  from block_face_count[of 2 2 "Fin 200" 4 4 newGeometry "DataPixels blackPixels" "Fin 0"] f
  have a: "\<exists>b. createBlockGeometry 2 2 (Fin 200) 4 4 newGeometry (Some (DataPixels blackPixels)) True = Inr b \<and>
        length (faces (b_geometry b)) = 8"
    by auto
  from block_face_count[of 2 2 "Fin 200" 4 4 newGeometry "DataPixels whitePixels" "Fin 200"] g
  have "\<forall>x<2. \<forall>y<2. \<forall>sd. sideEmitted (Fin 200) (DataPixels whitePixels) 2 2 sd x y \<longleftrightarrow>
          jgt (Fin 200) (Fin 0) \<and> onBorder 2 2 sd x y"
    by auto
  then have "\<forall>sd. sideEmitted (Fin 200) (DataPixels whitePixels) 2 2 sd 0 0 \<longleftrightarrow>
          jgt (Fin 200) (Fin 0) \<and> onBorder 2 2 sd 0 0"
    by simp
  then have b: "sideEmitted (Fin 200) (DataPixels whitePixels) 2 2 LeftSide 0 0"
    "sideEmitted (Fin 200) (DataPixels whitePixels) 2 2 TopSide 0 0"
    "\<not> sideEmitted (Fin 200) (DataPixels whitePixels) 2 2 RightSide 0 0"
    "\<not> sideEmitted (Fin 200) (DataPixels whitePixels) 2 2 BottomSide 0 0"
    by (simp_all add: onBorder_def)
  from a b show ?thesis by (simp add: black_depth white_depth)
qed

section \<open>The configuration setters\<close>

text \<open>
  C9. Each public setter called with the value the model already has leaves the whole
  state as it is (the entity with its event list, the images, the caches): no event is
  dispatched, nothing is loaded, no geometry is destroyed or built. It returns normally
  whenever its assertions accept the value. For \<open>setImageSrc\<close> and \<open>setHeightmap\<close> the
  current value is an absolute URL, which \<open>getAbsoluteUrl_\<close> is taken to return unchanged.
\<close>

theorem setters_same_value_noop:
  "state_of (setGeometryStyle h (geometryStyle (fst s)) s) = s \<and>
   (geometryStyle (fst s) \<in> {''smooth'', ''block'', ''float''} \<longrightarrow>
      setGeometryStyle h (geometryStyle (fst s)) s = Ok s) \<and>
   state_of (setMaxHeight h (maxHeight (fst s)) s) = s \<and>
   (jge (maxHeight (fst s)) (Fin 0) \<longrightarrow> setMaxHeight h (maxHeight (fst s)) s = Ok s) \<and>
   setTransparent (transparent (fst s)) s = Ok s \<and>
   (imageSrc (fst s) = Some u \<and> getAbsoluteUrl h u = u \<longrightarrow>
      state_of (setImageSrc h that u s) = s \<and>
      (u \<noteq> [] \<longrightarrow> setImageSrc h that u s = Ok s)) \<and>
   (heightSources (fst s) (case opt_index of None \<Rightarrow> 0 | Some k \<Rightarrow> k - 1) = Some v \<and>
    getAbsoluteUrl h v = v \<longrightarrow>
      state_of (setHeightmap h that v opt_index s) = s \<and>
      (v \<noteq> [] \<longrightarrow> setHeightmap h that v opt_index s = Ok s))"
proof -
  have a: "state_of (setGeometryStyle h (geometryStyle (fst s)) s) = s"
    by (simp add: setGeometryStyle_def bind_def js_assert_def)
  have b: "geometryStyle (fst s) \<in> {''smooth'', ''block'', ''float''} \<longrightarrow>
      setGeometryStyle h (geometryStyle (fst s)) s = Ok s"
    by (auto simp add: setGeometryStyle_def bind_def js_assert_def)
  have c: "state_of (setMaxHeight h (maxHeight (fst s)) s) = s"
    by (simp add: setMaxHeight_def bind_def js_assert_def jeq_def jge_def)
  have d: "jge (maxHeight (fst s)) (Fin 0) \<longrightarrow> setMaxHeight h (maxHeight (fst s)) s = Ok s"
    by (simp add: setMaxHeight_def bind_def js_assert_def jeq_def jge_def)
  have e: "setTransparent (transparent (fst s)) s = Ok s"
    by (simp add: setTransparent_def)
  have f: "imageSrc (fst s) = Some u \<and> getAbsoluteUrl h u = u \<longrightarrow>
      state_of (setImageSrc h that u s) = s \<and>
      (u \<noteq> [] \<longrightarrow> setImageSrc h that u s = Ok s)"
    by (simp add: setImageSrc_def bind_def js_assert_def Let_def)
  have g: "heightSources (fst s) (case opt_index of None \<Rightarrow> 0 | Some k \<Rightarrow> k - 1) = Some v \<and>
    getAbsoluteUrl h v = v \<longrightarrow>
      state_of (setHeightmap h that v opt_index s) = s \<and>
      (v \<noteq> [] \<longrightarrow> setHeightmap h that v opt_index s = Ok s)"
    by (simp add: setHeightmap_def bind_def js_assert_def Let_def)
  from a b c d e f g show ?thesis by blast
qed

text \<open>The five setters on the example entity, each with the current value.\<close>

theorem setters_same_value_noop_witness:
  "imageSrc exampleEntity = Some ''t.png'' \<and> getAbsoluteUrl exampleHost ''t.png'' = ''t.png'' \<and>
   heightSources exampleEntity 1 = Some ''b.png'' \<and>
   setGeometryStyle exampleHost ''smooth'' (exampleEntity, emptyShared) = Ok (exampleEntity, emptyShared) \<and>
   setMaxHeight exampleHost (Fin 200) (exampleEntity, emptyShared) = Ok (exampleEntity, emptyShared) \<and>
   setTransparent True (exampleEntity, emptyShared) = Ok (exampleEntity, emptyShared) \<and>
   setImageSrc exampleHost 0 ''t.png'' (exampleEntity, emptyShared) = Ok (exampleEntity, emptyShared) \<and>
   setHeightmap exampleHost 0 ''b.png'' (Some 2) (exampleEntity, emptyShared)
     = Ok (exampleEntity, emptyShared)"
proof -
  have v: "imageSrc exampleEntity = Some ''t.png''"
    "getAbsoluteUrl exampleHost ''t.png'' = ''t.png''"
    "getAbsoluteUrl exampleHost ''b.png'' = ''b.png''"
    "heightSources exampleEntity 1 = Some ''b.png''"
    "geometryStyle exampleEntity = ''smooth''" "maxHeight exampleEntity = Fin 200"
    "transparent exampleEntity = True"
    by (simp_all add: exampleEntity_def exampleHost_def)
  from setters_same_value_noop[of exampleHost "(exampleEntity, emptyShared)" "''t.png''" 0
      "Some 2" "''b.png''"]
  show ?thesis using v by (simp add: jge_def)
qed

section \<open>The geometry key\<close>

lemma createHeightmapGeometry_imageSrc:
  "createHeightmapGeometry (e\<lparr>imageSrc := x\<rparr>) sh = createHeightmapGeometry e sh"
  by (intro ext) (simp add: createHeightmapGeometry_def textureSize_def
      cong: option.case_cong prod.case_cong)

lemma appendMorphTarget_imageSrc:
  "appendMorphTarget (e\<lparr>imageSrc := x\<rparr>) sh = appendMorphTarget e sh"
  by (intro ext) (simp add: appendMorphTarget_def createHeightmapGeometry_imageSrc
      cong: sum.case_cong if_cong)

lemma buildGeometry_imageSrc:
  "buildGeometry (e\<lparr>imageSrc := x\<rparr>) sh = buildGeometry e sh"
  by (simp add: buildGeometry_def createHeightmapGeometry_imageSrc appendMorphTarget_imageSrc
      cong: option.case_cong sum.case_cong if_cong)

lemma createGeometry_key:
  "geometryKey (fst (state_of (createGeometry h s))) = makeGeometryKey h (fst s)"
  by (simp add: createGeometry_def Let_def attempt_def split: sum.split payload.split)

lemma makeGeometryKey_imageSrc:
  "makeGeometryKey h (e\<lparr>imageSrc := Some u\<rparr>) = makeGeometryKey h (e\<lparr>imageSrc := Some u'\<rparr>)
     \<longleftrightarrow> u = u'"
  by (simp add: makeGeometryKey_def heightSrc_def)

lemma builtEntity_imageSrc: "imageSrc builtEntity = Some ''t.png''"
  by (simp add: builtEntity_def exampleEntity_def)

lemma geometry_key_imageSrc_differs:
  "makeGeometryKey h builtEntity \<noteq> makeGeometryKey h (builtEntity\<lparr>imageSrc := Some ''u.png''\<rparr>)"
  by (simp add: makeGeometryKey_def builtEntity_imageSrc)

lemma builtEntity_builds: "\<not> isl (buildGeometry builtEntity emptyShared)"
  by code_simp

lemma whiteEntity_builds:
  "\<not> isl (buildGeometry (builtEntity\<lparr>heightmapData :=
            Some [Some (DataPixels whitePixels), Some (DataPixels whitePixels)]\<rparr>) emptyShared)"
  by code_simp

lemma whiteEntity_differs:
  "buildGeometry builtEntity emptyShared \<noteq>
   buildGeometry (builtEntity\<lparr>heightmapData :=
            Some [Some (DataPixels whitePixels), Some (DataPixels whitePixels)]\<rparr>) emptyShared"
  by code_simp

lemma whiteEntity_key:
  "makeGeometryKey h builtEntity =
   makeGeometryKey h (builtEntity\<lparr>heightmapData :=
            Some [Some (DataPixels whitePixels), Some (DataPixels whitePixels)]\<rparr>)"
  by (simp add: makeGeometryKey_def heightSrc_def)

text \<open>
  C5 (as amended). For every two builds whose texture source, four heightmap sources,
  \<open>maxHeight\<close> and geometry style are identical, the geometry key is the same string, and it
  is the key that \<open>createGeometry_\<close> stores. The texture source string is part of the key
  and the builders do not read it: changing the texture source string alone (the loaded
  texture image, the buffers and the sizes staying as they are) never changes the geometry
  that is built and always changes the key, so configurations that build identical
  geometry do not all have the same key. The key does not determine the geometry: it holds
  source strings and settings, not the decoded buffers, and there are builds that have the
  same key and different geometry.
\<close>

theorem geometry_key_determined:
  "(imageSrc e1 = imageSrc e2 \<and> (\<forall>i\<in>{0, 1, 2, 3}. heightSources e1 i = heightSources e2 i) \<and>
    maxHeight e1 = maxHeight e2 \<and> geometryStyle e1 = geometryStyle e2 \<longrightarrow>
      makeGeometryKey h e1 = makeGeometryKey h e2) \<and>
   geometryKey (fst (state_of (createGeometry h (e1, sh)))) = makeGeometryKey h e1 \<and>
   buildGeometry (e1\<lparr>imageSrc := x\<rparr>) sh = buildGeometry e1 sh \<and>
   (u \<noteq> u' \<longrightarrow>
      makeGeometryKey h (e1\<lparr>imageSrc := Some u\<rparr>) \<noteq> makeGeometryKey h (e1\<lparr>imageSrc := Some u'\<rparr>)) \<and>
   (\<exists>a b s. makeGeometryKey h a = makeGeometryKey h b \<and> \<not> isl (buildGeometry a s) \<and>
        \<not> isl (buildGeometry b s) \<and> buildGeometry a s \<noteq> buildGeometry b s)"
proof -
  have d: "imageSrc e1 = imageSrc e2 \<and> (\<forall>i\<in>{0, 1, 2, 3}. heightSources e1 i = heightSources e2 i) \<and>
    maxHeight e1 = maxHeight e2 \<and> geometryStyle e1 = geometryStyle e2 \<longrightarrow>
      makeGeometryKey h e1 = makeGeometryKey h e2"
    by (simp add: makeGeometryKey_def heightSrc_def)
  have k: "geometryKey (fst (state_of (createGeometry h (e1, sh)))) = makeGeometryKey h e1"
    using createGeometry_key[of h "(e1, sh)"] by simp
  have g: "buildGeometry (e1\<lparr>imageSrc := x\<rparr>) sh = buildGeometry e1 sh"
    by (rule buildGeometry_imageSrc)
  have n: "u \<noteq> u' \<longrightarrow>
      makeGeometryKey h (e1\<lparr>imageSrc := Some u\<rparr>) \<noteq> makeGeometryKey h (e1\<lparr>imageSrc := Some u'\<rparr>)"
    by (simp add: makeGeometryKey_imageSrc)
  have y: "\<exists>a b s. makeGeometryKey h a = makeGeometryKey h b \<and> \<not> isl (buildGeometry a s) \<and>
        \<not> isl (buildGeometry b s) \<and> buildGeometry a s \<noteq> buildGeometry b s"
    using builtEntity_builds whiteEntity_builds whiteEntity_differs whiteEntity_key[of h]
    by blast
  from d k g n y show ?thesis by blast
qed

text \<open>
  C5 as stated fails twice on the example entity. With another texture source, the
  heightmap sources, \<open>maxHeight\<close> and the style are the same and the smooth geometry built
  is the same, but the two keys differ. With another buffer decoded for its first source,
  the key is the same and the geometry built is different.
\<close>

theorem geometry_key_imageSrc_counterexample:
  "heightSources builtEntity = heightSources (builtEntity\<lparr>imageSrc := Some ''u.png''\<rparr>) \<and>
   maxHeight builtEntity = maxHeight (builtEntity\<lparr>imageSrc := Some ''u.png''\<rparr>) \<and>
   geometryStyle builtEntity = geometryStyle (builtEntity\<lparr>imageSrc := Some ''u.png''\<rparr>) \<and>
   \<not> isl (buildGeometry builtEntity emptyShared) \<and>
   buildGeometry builtEntity emptyShared =
     buildGeometry (builtEntity\<lparr>imageSrc := Some ''u.png''\<rparr>) emptyShared \<and>
   makeGeometryKey exampleHost builtEntity \<noteq>
     makeGeometryKey exampleHost (builtEntity\<lparr>imageSrc := Some ''u.png''\<rparr>) \<and>
   makeGeometryKey exampleHost builtEntity =
     makeGeometryKey exampleHost (builtEntity\<lparr>heightmapData :=
        Some [Some (DataPixels whitePixels), Some (DataPixels whitePixels)]\<rparr>) \<and>
   \<not> isl (buildGeometry (builtEntity\<lparr>heightmapData :=
        Some [Some (DataPixels whitePixels), Some (DataPixels whitePixels)]\<rparr>) emptyShared) \<and>
   buildGeometry builtEntity emptyShared \<noteq>
     buildGeometry (builtEntity\<lparr>heightmapData :=
        Some [Some (DataPixels whitePixels), Some (DataPixels whitePixels)]\<rparr>) emptyShared"
proof -
  have "heightSources builtEntity = heightSources (builtEntity\<lparr>imageSrc := Some ''u.png''\<rparr>) \<and>
   maxHeight builtEntity = maxHeight (builtEntity\<lparr>imageSrc := Some ''u.png''\<rparr>) \<and>
   geometryStyle builtEntity = geometryStyle (builtEntity\<lparr>imageSrc := Some ''u.png''\<rparr>) \<and>
   \<not> isl (buildGeometry builtEntity emptyShared) \<and>
   buildGeometry builtEntity emptyShared =
     buildGeometry (builtEntity\<lparr>imageSrc := Some ''u.png''\<rparr>) emptyShared \<and>
   makeGeometryKey exampleHost builtEntity \<noteq>
     makeGeometryKey exampleHost (builtEntity\<lparr>imageSrc := Some ''u.png''\<rparr>)"
    using builtEntity_builds geometry_key_imageSrc_differs
    by (simp add: buildGeometry_imageSrc)
  with whiteEntity_builds whiteEntity_differs whiteEntity_key[of exampleHost]
  show ?thesis by blast
qed

text \<open>
  Two entities that differ in \<open>transparent\<close> alone have the same key; the example entity
  with the texture sources \<open>t.png\<close> and \<open>u.png\<close> has two different keys.
\<close>

theorem geometry_key_determined_witness:
  "imageSrc builtEntity = imageSrc (builtEntity\<lparr>transparent := False\<rparr>) \<and>
   maxHeight builtEntity = maxHeight (builtEntity\<lparr>transparent := False\<rparr>) \<and>
   geometryStyle builtEntity = geometryStyle (builtEntity\<lparr>transparent := False\<rparr>) \<and>
   makeGeometryKey exampleHost builtEntity =
     makeGeometryKey exampleHost (builtEntity\<lparr>transparent := False\<rparr>) \<and>
   ''t.png'' \<noteq> ''u.png'' \<and>
   makeGeometryKey exampleHost (builtEntity\<lparr>imageSrc := Some ''t.png''\<rparr>) \<noteq>
     makeGeometryKey exampleHost (builtEntity\<lparr>imageSrc := Some ''u.png''\<rparr>)"
  using geometry_key_determined[of builtEntity "builtEntity\<lparr>transparent := False\<rparr>"
      exampleHost emptyShared None "''t.png''" "''u.png''"]
  by simp

section \<open>The heightmap cache entries\<close>

text \<open>
  The request path of \<open>loadHeightmap_\<close> (lines 449-490) follows the protocol of the cache:
  it calls \<open>set\<close> only when \<open>has\<close> is false, and \<open>addRef\<close> otherwise. A request for a
  source that the cache does not hold inserts the pending payload at reference count 1; a
  request for a source whose entry is pending adds a reference and pushes its notifier on
  the pending payload.
\<close>

lemma loadHeightmap_absent:
  assumes "freeHeightmap index s = Ok s1" "0 \<le> index" "index < 4" "src \<noteq> []"
    "heightmaps (fst s1) = Some hms" "cache (snd s1) src = None"
  shows "loadHeightmap h that src index cb s =
     Ok ((fst s1)\<lparr>heightmaps := Some (js_set hms (nat index)
                                           (HmImage (length (images (snd s1)))))\<rparr>,
         (snd s1)\<lparr>images := images (snd s1) @
                     [newImage\<lparr>img_listeners := [HeightmapOnLoad that (nat index) src cb],
                               img_src := src\<rparr>],
                   cache := (cache (snd s1))(src \<mapsto>
                     \<lparr>ce_payload = HeightmapPayload (length (images (snd s1))) None [],
                      ce_refcount = 1\<rparr>)\<rparr>)"
  using assms
  by (simp add: loadHeightmap_def bind_def js_assert_def Let_def cache_has_def cache_set_def
      attempt_def slot_write_def)

lemma loadHeightmap_pending:
  assumes "freeHeightmap index s = Ok s1" "0 \<le> index" "index < 4" "src \<noteq> []"
    "heightmaps (fst s1) = Some hms"
    "cache (snd s1) src = Some en" "ce_payload en = HeightmapPayload img None ns"
  shows "loadHeightmap h that src index cb s =
     Ok ((fst s1)\<lparr>heightmaps := Some (js_set hms (nat index) (HmImage img))\<rparr>,
         (snd s1)\<lparr>cache := (cache (snd s1))(src \<mapsto>
                     en\<lparr>ce_refcount := ce_refcount en + 1,
                        ce_payload := HeightmapPayload img None
                                        (ns @ [Notifier that (nat index) cb])\<rparr>)\<rparr>)"
  using assms
  by (simp add: loadHeightmap_def bind_def js_assert_def Let_def cache_has_def cache_addRef_def
      cache_get_def cache_push_notifier_def attempt_def slot_write_def)

text \<open>
  Before \<open>loadHeightmaps_\<close> has run, \<open>heightmaps_\<close> is undefined and a request fails where
  it stores the image in the slot.
\<close>

lemma loadHeightmap_undefined:
  assumes "freeHeightmap index s = Ok s1" "0 \<le> index" "index < 4" "src \<noteq> []"
    "heightmaps (fst s1) = None"
  shows "error_of (loadHeightmap h that src index cb s) = Some TypeError"
  using assms
  by (auto simp add: loadHeightmap_def bind_def js_assert_def Let_def cache_has_def
      cache_set_def cache_addRef_def cache_get_def attempt_def slot_write_def
      split: option.splits payload.splits)

text \<open>
  The handler of a completed decode (\<open>onLoad\<close>, lines 411-438) adds a reference when the
  key is present and then calls \<open>set\<close> in either case. With the cache of section 4.1 of the
  specification the \<open>set\<close> succeeds only when the key is absent; when the key is present it
  fails with \<open>KeyCollision\<close> and the entry keeps the payload it had, with one more
  reference, and neither the notifiers nor the callback run.
\<close>

lemma heightmapDecoded_absent:
  assumes "heightmaps (fst t) = Some hms" "heightmapData (fst t) = Some hds"
    "decodeHeightmap (snd t) (js_get hms i) = Inr d"
    "cache (snd t) k = None"
  shows "heightmapDecoded i k t =
     Ok ((fst t)\<lparr>heightmapData := Some (js_set hds i (DataPixels (snd d))),
                  heightmapKeys := js_set (heightmapKeys (fst t)) i k\<rparr>,
         (snd t)\<lparr>cache := (cache (snd t))(k \<mapsto>
                     \<lparr>ce_payload = HeightmapPayload (fst d) (Some (snd d)) [],
                      ce_refcount = 1\<rparr>)\<rparr>)"
  using assms
  by (simp add: heightmapDecoded_def bind_def Let_def cache_has_def cache_set_def attempt_def
      slot_read_def slot_write_def)

lemma heightmapDecoded_present:
  assumes "heightmaps (fst t) = Some hms" "heightmapData (fst t) = Some hds"
    "decodeHeightmap (snd t) (js_get hms i) = Inr d"
    "cache (snd t) k = Some en"
  shows "heightmapDecoded i k t =
     Throw (KeyCollision k)
        ((fst t)\<lparr>heightmapData := Some (js_set hds i (DataPixels (snd d))),
                  heightmapKeys := js_set (heightmapKeys (fst t)) i k\<rparr>,
         (snd t)\<lparr>cache := (cache (snd t))(k \<mapsto> en\<lparr>ce_refcount := ce_refcount en + 1\<rparr>)\<rparr>)"
  using assms
  by (simp add: heightmapDecoded_def bind_def Let_def cache_has_def cache_set_def
      cache_addRef_def attempt_def slot_read_def slot_write_def)

lemma heightmapOnLoad_present:
  assumes "that < length (entities w)"
    "heightmaps (entities w ! that) = Some hms" "heightmapData (entities w ! that) = Some hds"
    "decodeHeightmap (shared_state w) (js_get hms i) = Inr d"
    "cache (shared_state w) k = Some en"
  shows "error_of (heightmapOnLoad h that i k cb w) = Some (KeyCollision k)"
  using assms
    heightmapDecoded_present[of "(entities w ! that, shared_state w)" hms hds i d k en]
  by (simp add: heightmapOnLoad_def Let_def on_entity_def bind_def)

text \<open>
  C4. The example entity requests its two sources with nothing cached: each request inserts
  a pending entry. The image of \<open>a.png\<close> arrives, and the handler of the completed decode
  calls \<open>set\<close> on the key that its own request inserted: the call fails with
  \<open>KeyCollision\<close>, the payload of the entry is still the pending one (now at reference
  count 2), and the load is not counted. The same happens when the image of \<open>b.png\<close>
  arrives instead. The payload never goes from pending to loaded.
\<close>

theorem heightmap_decode_set_collides:
  "is_ok (on_entity 0 (setUpViews exampleHost 0) world0) \<and>
   cache (shared_state (state_of (on_entity 0 (setUpViews exampleHost 0) world0))) ''a.png''
     = Some \<lparr>ce_payload = HeightmapPayload 0 None [], ce_refcount = 1\<rparr> \<and>
   cache (shared_state (state_of (on_entity 0 (setUpViews exampleHost 0) world0))) ''b.png''
     = Some \<lparr>ce_payload = HeightmapPayload 1 None [], ce_refcount = 1\<rparr> \<and>
   error_of (bind (on_entity 0 (setUpViews exampleHost 0) world0)
               (imageLoaded exampleHost 0 2 2 examplePixels)) = Some (KeyCollision ''a.png'') \<and>
   cache (shared_state (state_of (bind (on_entity 0 (setUpViews exampleHost 0) world0)
               (imageLoaded exampleHost 0 2 2 examplePixels)))) ''a.png''
     = Some \<lparr>ce_payload = HeightmapPayload 0 None [], ce_refcount = 2\<rparr> \<and>
   numLoaded (entities (state_of (bind (on_entity 0 (setUpViews exampleHost 0) world0)
               (imageLoaded exampleHost 0 2 2 examplePixels))) ! 0) = 0 \<and>
   error_of (bind (on_entity 0 (setUpViews exampleHost 0) world0)
               (imageLoaded exampleHost 1 2 2 whitePixels)) = Some (KeyCollision ''b.png'') \<and>
   cache (shared_state (state_of (bind (on_entity 0 (setUpViews exampleHost 0) world0)
               (imageLoaded exampleHost 1 2 2 whitePixels)))) ''b.png''
     = Some \<lparr>ce_payload = HeightmapPayload 1 None [], ce_refcount = 2\<rparr> \<and>
   numLoaded (entities (state_of (bind (on_entity 0 (setUpViews exampleHost 0) world0)
               (imageLoaded exampleHost 1 2 2 whitePixels))) ! 0) = 0"
  by code_simp

section \<open>The size check of the heightmaps\<close>

text \<open>
  When the slot holds an image, \<open>onLoad\<close> of \<open>loadHeightmaps_\<close> compares the size of every
  heightmap after the first with the size of the first and fails on a difference.
\<close>

lemma loadHeightmapsOnLoad_image_mismatch:
  assumes "heightmaps (fst s) = Some hms" "js_get hms index = Some (HmImage i)"
    "i < length (images (snd s))"
    "numLoaded (fst s) \<noteq> 0"
    "heightmapWidth (fst s) \<noteq> Some (img_width (images (snd s) ! i)) \<or>
     heightmapHeight (fst s) \<noteq> Some (img_height (images (snd s) ! i))"
  shows "loadHeightmapsOnLoad h that index s =
           Throw (AssertionFailed ''All heightmaps must be the same size.'') s"
  using assms
  by (auto simp add: loadHeightmapsOnLoad_def slot_read_def attempt_def slot_size_def Let_def
      bind_def js_assert_def)

text \<open>
  C6. The example entity is set up while the cache holds both its sources fully loaded, one
  of 2 by 2 pixels and one of 3 by 3. \<open>loadHeightmap_\<close> stores the payload object of the
  cache entry in the slot (lines 468-469), not the image in it, so the width and the height
  that \<open>onLoad\<close> reads are undefined for both slots and the comparison succeeds: both loads
  are counted, the completion callback runs and starts loading the texture, and when the
  texture has loaded the geometry build is attempted, and fails in the builder.
\<close>

theorem cached_heightmaps_size_unchecked:
  "img_width (images cachedShared ! 0) = 2 \<and> img_height (images cachedShared ! 0) = 2 \<and>
   img_width (images cachedShared ! 1) = 3 \<and> img_height (images cachedShared ! 1) = 3 \<and>
   cache_get (cache cachedShared) ''a.png'' = Inr (HeightmapPayload 0 (Some examplePixels) []) \<and>
   cache_get (cache cachedShared) ''b.png''
     = Inr (HeightmapPayload 1 (Some (replicate 36 255)) []) \<and>
   is_ok (on_entity 0 (setUpViews exampleHost 0) cachedWorld) \<and>
   numToLoad (entities (state_of (on_entity 0 (setUpViews exampleHost 0) cachedWorld)) ! 0) = 2 \<and>
   numLoaded (entities (state_of (on_entity 0 (setUpViews exampleHost 0) cachedWorld)) ! 0) = 2 \<and>
   heightmaps (entities (state_of (on_entity 0 (setUpViews exampleHost 0) cachedWorld)) ! 0)
     = Some [Some (HmPayload ''a.png''), Some (HmPayload ''b.png'')] \<and>
   heightmapWidth (entities (state_of (on_entity 0 (setUpViews exampleHost 0) cachedWorld)) ! 0)
     = None \<and>
   heightmapHeight (entities (state_of (on_entity 0 (setUpViews exampleHost 0) cachedWorld)) ! 0)
     = None \<and>
   image (entities (state_of (on_entity 0 (setUpViews exampleHost 0) cachedWorld)) ! 0)
     = Some 2 \<and>
   error_of (bind (on_entity 0 (setUpViews exampleHost 0) cachedWorld)
               (imageLoaded exampleHost 2 4 4 (replicate 64 255))) = Some RangeError"
  by code_simp

end
